(* ===== verification/Prelude.thy ===== *)
theory Prelude
  imports Main "HOL-Library.Word" "HOL-Library.AList"
begin

text \<open>
  Shared vocabulary of the development: Go strings as byte lists, Go's \<open>error\<close> values, the
  \<open>(value, error)\<close> result convention as a sum, 64-bit integers with their wrap-around, and the
  generic lemmas the component theories rely on.

  A Go \<open>string\<close> or \<open>[]byte\<close> is a HOL \<^typ>\<open>string\<close>: a list of
  characters, each of which is one byte. Lengths count bytes, as Go's \<open>len\<close> does.
\<close>

section \<open>Lemma collections\<close>

named_theorems go_simps \<open>equations that evaluate the models of the Go standard library\<close>
named_theorems res_elims \<open>inversion of successful results\<close>

section \<open>Errors and results\<close>

text \<open>
  A Go error is an interface value; the program observes it through \<open>err.Error()\<close> and
  through \<open>errors.Is\<close> against two sentinels (\<open>os.ErrNotExist\<close> and
  \<open>pgx.ErrNoRows\<close>). \<open>ErrWrap p e\<close> is \<open>fmt.Errorf("p%w", e)\<close>;
  \<open>ErrJson\<close> is an error of \<open>encoding/json\<close>, whose text the program only logs.
\<close>

datatype error =
    ErrNew string
  | ErrWrap string error
  | ErrNotExist string
  | ErrNoRows
  | ErrJson

primrec Error :: "error \<Rightarrow> string" where
  "Error (ErrNew m) = m"
| "Error (ErrWrap p e) = p @ Error e"
| "Error (ErrNotExist p) = ''open '' @ p @ '': no such file or directory''"
| "Error ErrNoRows = ''no rows in result set''"
| "Error ErrJson = ''json: cannot decode or encode''"

primrec is_not_exist :: "error \<Rightarrow> bool" where
  "is_not_exist (ErrNew m) = False"
| "is_not_exist (ErrWrap p e) = is_not_exist e"
| "is_not_exist (ErrNotExist p) = True"
| "is_not_exist ErrNoRows = False"
| "is_not_exist ErrJson = False"

primrec is_no_rows :: "error \<Rightarrow> bool" where
  "is_no_rows (ErrNew m) = False"
| "is_no_rows (ErrWrap p e) = is_no_rows e"
| "is_no_rows (ErrNotExist p) = False"
| "is_no_rows ErrNoRows = True"
| "is_no_rows ErrJson = False"

type_synonym 'a res = "error + 'a"

lemma isl_iff: "isl r \<longleftrightarrow> (\<exists>e. r = Inl e)"
  by (cases r) auto

lemma not_isl_iff: "\<not> isl r \<longleftrightarrow> (\<exists>a. r = Inr a)"
  by (cases r) auto

section \<open>Sixty-four bit integers\<close>

text \<open>
  \<open>i64 x\<close> is the value of the mathematical result \<open>x\<close> after it has been stored in
  an \<open>int64\<close>: two's complement wrap-around. \<open>int\<close> is 64 bits wide on the platforms
  the service is built for.
\<close>

definition i64 :: "int \<Rightarrow> int" where
  "i64 x = signed_take_bit 63 x"

abbreviation max_i64 :: int where
  "max_i64 \<equiv> 9223372036854775807"

abbreviation min_i64 :: int where
  "min_i64 \<equiv> - 9223372036854775808"

definition in_i64 :: "int \<Rightarrow> bool" where
  "in_i64 x \<longleftrightarrow> min_i64 \<le> x \<and> x \<le> max_i64"

lemma i64_mod: "i64 x = (x + 2 ^ 63) mod 2 ^ 64 - 2 ^ 63"
  by (simp add: i64_def signed_take_bit_eq_take_bit_shift take_bit_eq_mod)

lemma i64_id [simp]: "in_i64 x \<Longrightarrow> i64 x = x"
  by (simp add: i64_mod in_i64_def)

lemma in_i64_i64 [simp]: "in_i64 (i64 x)"
proof -
  have "0 \<le> (x + 2 ^ 63) mod 2 ^ 64" "(x + 2 ^ 63) mod 2 ^ 64 < 2 ^ 64"
    by simp_all
  then show ?thesis by (simp add: i64_mod in_i64_def)
qed

lemma i64_multiple: "i64 (x * 2 ^ 64) = 0"
  by (simp add: i64_mod)

lemma i64_cong: "\<exists>k. i64 x = x + k * 2 ^ 64"
proof -
  have "i64 x = x + (- ((x + 2 ^ 63) div 2 ^ 64)) * 2 ^ 64"
    using div_mult_mod_eq [of "x + 2 ^ 63" "2 ^ 64"] unfolding i64_mod by linarith
  then show ?thesis by blast
qed

end
