(* ===== verification/GoStrings.thy ===== *)
theory GoStrings
  imports Prelude
begin

text \<open>
  What the program uses of the Go packages \<open>strings\<close>, \<open>strconv\<close>,
  \<open>math/big\<close>, \<open>encoding/hex\<close>, \<open>fmt\<close> and \<open>path/filepath\<close> (Unix
  separators), as executable functions on byte strings.
\<close>

section \<open>Substrings, prefixes and case\<close>

definition HasPrefix :: "string \<Rightarrow> string \<Rightarrow> bool" where
  "HasPrefix s p \<longleftrightarrow> take (length p) s = p"

definition TrimPrefix :: "string \<Rightarrow> string \<Rightarrow> string" where
  "TrimPrefix s p = (if HasPrefix s p then drop (length p) s else s)"

fun Contains :: "string \<Rightarrow> string \<Rightarrow> bool" where
  "Contains [] p = (p = [])"
| "Contains (c # s) p = (HasPrefix (c # s) p \<or> Contains s p)"

definition ascii_lower :: "char \<Rightarrow> char" where
  "ascii_lower c =
     (let n = (of_char c :: nat) in if 65 \<le> n \<and> n \<le> 90 then char_of (n + 32) else c)"

text \<open>
  \<open>strings.ToLower\<close>, as far as an ASCII search can observe it. ASCII letters are lowered byte by
  byte; the two non-ASCII runes whose lower case is ASCII (U+0130, bytes C4 B0, to \<open>i\<close>, and
  U+212A, bytes E2 84 AA, to \<open>k\<close>) are mapped. Any other non-ASCII rune is lowered to a
  non-ASCII rune by Go; here its bytes stay, which are non-ASCII as well.
\<close>

fun ToLower :: "string \<Rightarrow> string" where
  "ToLower [] = []"
| "ToLower (c # s) =
     (if of_char c = (196::nat) \<and> HasPrefix s [char_of (176::nat)] then CHR ''i'' # ToLower (drop 1 s)
      else if of_char c = (226::nat) \<and> HasPrefix s [char_of (132::nat), char_of (170::nat)]
      then CHR ''k'' # ToLower (drop 2 s)
      else ascii_lower c # ToLower s)"

lemma HasPrefix_append [simp]: "HasPrefix (p @ s) p"
  by (simp add: HasPrefix_def)

lemma HasPrefix_iff: "HasPrefix s p \<longleftrightarrow> (\<exists>t. s = p @ t)"
  by (metis HasPrefix_append HasPrefix_def append_take_drop_id)

lemma Contains_iff: "Contains s p \<longleftrightarrow> (\<exists>a b. s = a @ p @ b)"
proof (induction s)
  case Nil
  then show ?case by auto
next
  case (Cons c s)
  show ?case
  proof
    assume "Contains (c # s) p"
    then consider "HasPrefix (c # s) p" | "Contains s p" by (auto simp del: HasPrefix_append)
    then show "\<exists>a b. c # s = a @ p @ b"
    proof cases
      case 1
      then show ?thesis by (metis HasPrefix_iff append_Nil)
    next
      case 2
      with Cons.IH show ?thesis by (metis append_Cons)
    qed
  next
    assume "\<exists>a b. c # s = a @ p @ b"
    then obtain a b where ab: "c # s = a @ p @ b" by blast
    show "Contains (c # s) p"
    proof (cases a)
      case Nil
      with ab have "HasPrefix (c # s) p" by (metis HasPrefix_append append_Nil)
      then show ?thesis by simp
    next
      case (Cons x xs)
      with ab Cons.IH show ?thesis by auto
    qed
  qed
qed

lemma Contains_append: "Contains s p \<Longrightarrow> Contains (a @ s @ b) p"
  by (metis Contains_iff append_assoc)

section \<open>White space\<close>

text \<open>
  The UTF-8 encodings of the runes for which \<open>unicode.IsSpace\<close> holds.
  \<open>strings.TrimSpace\<close> removes them from both ends. A byte sequence that ends in one of these
  encodings decodes backwards to that rune, so trimming the right end is trimming the reversed string
  by the reversed encodings.
\<close>

definition space_runes :: "string list" where
  "space_runes = map (map char_of)
     ([[9], [10], [11], [12], [13], [32], [194, 133], [194, 160], [225, 154, 128],
       [226, 128, 128], [226, 128, 129], [226, 128, 130], [226, 128, 131], [226, 128, 132],
       [226, 128, 133], [226, 128, 134], [226, 128, 135], [226, 128, 136], [226, 128, 137],
       [226, 128, 138], [226, 128, 168], [226, 128, 169], [226, 128, 175], [226, 129, 159],
       [227, 128, 128]] :: nat list list)"

fun cut_any :: "string list \<Rightarrow> string \<Rightarrow> string option" where
  "cut_any [] s = None"
| "cut_any (p # ps) s =
     (if p \<noteq> [] \<and> HasPrefix s p then Some (drop (length p) s) else cut_any ps s)"

lemma cut_any_shorter: "cut_any ps s = Some t \<Longrightarrow> length t < length s"
proof (induction ps)
  case (Cons p ps)
  show ?case
  proof (cases "p \<noteq> [] \<and> HasPrefix s p")
    case True
    with Cons.prems have "t = drop (length p) s" by simp
    moreover from True have "s \<noteq> []" "p \<noteq> []" by (auto simp: HasPrefix_def)
    ultimately show ?thesis by simp
  next
    case False
    then have "cut_any ps s = Some t" using Cons.prems by (simp only: cut_any.simps if_False)
    then show ?thesis by (rule Cons.IH)
  qed
qed simp

function trim_left :: "string list \<Rightarrow> string \<Rightarrow> string" where
  "trim_left ps s = (case cut_any ps s of None \<Rightarrow> s | Some t \<Rightarrow> trim_left ps t)"
  by pat_completeness auto
termination
  by (relation "measure (\<lambda>(ps, s). length s)") (auto dest: cut_any_shorter)

declare trim_left.simps [simp del]

definition TrimSpace :: "string \<Rightarrow> string" where
  "TrimSpace s = rev (trim_left (map rev space_runes) (rev (trim_left space_runes s)))"

text \<open>A text that starts and ends with visible ASCII characters is not trimmed.\<close>

definition graphic :: "char \<Rightarrow> bool" where
  "graphic c \<longleftrightarrow> (let n = (of_char c :: nat) in 33 \<le> n \<and> n \<le> 126)"

lemma space_runes_ends: "list_all (\<lambda>r. r \<noteq> [] \<and> \<not> graphic (hd r) \<and> \<not> graphic (last r)) space_runes"
  by (simp add: space_runes_def graphic_def)

lemma cut_any_graphic:
  assumes "list_all (\<lambda>r. r \<noteq> [] \<and> \<not> graphic (hd r)) rs" and "graphic (hd s)"
  shows "cut_any rs s = None"
  using assms(1)
proof (induction rs)
  case (Cons r rs)
  have "\<not> HasPrefix s r"
  proof
    assume "HasPrefix s r"
    then have "take (length r) s = r" by (simp add: HasPrefix_def)
    moreover have "r \<noteq> []" using Cons.prems by simp
    ultimately have "hd r = hd s" by (metis hd_take length_greater_0_conv)
    with Cons.prems assms(2) show False by simp
  qed
  with Cons show ?case by simp
qed simp

lemma TrimSpace_graphic: "graphic (hd s) \<Longrightarrow> graphic (last s) \<Longrightarrow> TrimSpace s = s"
proof -
  assume s: "graphic (hd s)" "graphic (last s)"
  have "cut_any space_runes s = None"
    using space_runes_ends s(1) by (intro cut_any_graphic) (auto simp: list_all_iff)
  moreover have "cut_any (map rev space_runes) (rev s) = None"
    using space_runes_ends s(2) by (intro cut_any_graphic) (auto simp: list_all_iff hd_rev)
  ultimately show ?thesis by (simp add: TrimSpace_def trim_left.simps)
qed

lemma trim_left_suffix: "\<exists>p. s = p @ trim_left ps s"
proof (induction ps s rule: trim_left.induct)
  case (1 ps s)
  show ?case
  proof (cases "cut_any ps s")
    case None
    then show ?thesis by (simp add: trim_left.simps [of ps s])
  next
    case (Some t)
    have "\<exists>q. s = q @ t"
      using Some
    proof (induction ps)
      case (Cons p ps)
      then show ?case
        by (auto split: if_splits) (metis append_take_drop_id)
    qed simp
    with "1.IH" [OF Some] show ?thesis
      by (metis Some append_assoc option.simps(5) trim_left.simps)
  qed
qed

lemma trim_left_fixed: "cut_any ps s = None \<Longrightarrow> trim_left ps s = s"
  by (simp add: trim_left.simps)

section \<open>Splitting and joining\<close>

fun split_on :: "char \<Rightarrow> string \<Rightarrow> string list" where
  "split_on d [] = [[]]"
| "split_on d (c # s) =
     (if c = d then [] # split_on d s
      else (case split_on d s of [] \<Rightarrow> [[c]] | x # xs \<Rightarrow> (c # x) # xs))"

fun join_with :: "string \<Rightarrow> string list \<Rightarrow> string" where
  "join_with d [] = []"
| "join_with d [x] = x"
| "join_with d (x # y # xs) = x @ d @ join_with d (y # xs)"

lemma split_on_nonempty [simp]: "split_on d s \<noteq> []"
  by (induction d s rule: split_on.induct) (auto split: list.splits)

lemma split_on_no: "d \<notin> set s \<Longrightarrow> split_on d s = [s]"
  by (induction s) auto

lemma split_on_sep: "split_on d (s @ d # t) = split_on d s @ split_on d t"
proof (induction s)
  case (Cons c s)
  then show ?case
    by (cases "split_on d s") (auto split: list.splits)
qed simp

lemma split_on_pieces: "x \<in> set (split_on d s) \<Longrightarrow> d \<notin> set x"
proof (induction d s arbitrary: x rule: split_on.induct)
  case (2 d c s)
  then show ?case by (cases "split_on d s") (auto split: if_splits)
qed simp

lemma join_with_snoc: "xs \<noteq> [] \<Longrightarrow> join_with d (xs @ [y]) = join_with d xs @ d @ y"
  by (induction d xs rule: join_with.induct) auto

section \<open>Decimal and hexadecimal digits\<close>

definition is_digit :: "char \<Rightarrow> bool" where
  "is_digit c \<longleftrightarrow> (let n = (of_char c :: nat) in 48 \<le> n \<and> n \<le> 57)"

definition digit_val :: "char \<Rightarrow> nat" where
  "digit_val c = of_char c - 48"

fun digits_val :: "nat \<Rightarrow> string \<Rightarrow> nat" where
  "digits_val acc [] = acc"
| "digits_val acc (c # s) = digits_val (10 * acc + digit_val c) s"

text \<open>A sign followed by at least one decimal digit and nothing else.\<close>

definition parse_unsigned :: "string \<Rightarrow> nat option" where
  "parse_unsigned s = (if s \<noteq> [] \<and> list_all is_digit s then Some (digits_val 0 s) else None)"

definition parse_signed :: "string \<Rightarrow> int option" where
  "parse_signed s =
     (case s of
        [] \<Rightarrow> None
      | c # t \<Rightarrow>
          if c = CHR ''-'' then map_option (\<lambda>n. - int n) (parse_unsigned t)
          else if c = CHR ''+'' then map_option int (parse_unsigned t)
          else map_option int (parse_unsigned s))"

text \<open>\<open>strconv.ParseInt(s, 10, 64)\<close>; \<open>None\<close> is a syntax or a range error.\<close>

definition ParseInt :: "string \<Rightarrow> int option" where
  "ParseInt s =
     (case parse_signed s of
        None \<Rightarrow> None
      | Some n \<Rightarrow> if in_i64 n then Some n else None)"

text \<open>\<open>new(big.Int).SetString(s, 10)\<close>; \<open>None\<close> is \<open>ok = false\<close>.\<close>

definition SetString :: "string \<Rightarrow> int option" where
  "SetString s = parse_signed s"

fun show_nat :: "nat \<Rightarrow> string" where
  "show_nat n =
     (if n < 10 then [char_of (48 + n)] else show_nat (n div 10) @ [char_of (48 + n mod 10)])"

declare show_nat.simps [simp del]

text \<open>\<open>fmt.Sprintf("%d", n)\<close> and \<open>strconv.Itoa(n)\<close>.\<close>

definition show_int :: "int \<Rightarrow> string" where
  "show_int n = (if n < 0 then CHR ''-'' # show_nat (nat (- n)) else show_nat (nat n))"

definition hex_digit :: "nat \<Rightarrow> char" where
  "hex_digit n = char_of (if n < 10 then 48 + n else 87 + n)"

text \<open>\<open>hex.EncodeToString\<close>.\<close>

fun EncodeToString :: "string \<Rightarrow> string" where
  "EncodeToString [] = []"
| "EncodeToString (c # s) =
     hex_digit (of_char c div 16) # hex_digit (of_char c mod 16) # EncodeToString s"

lemma of_char_div16 [simp]: "of_char c div 16 < (16::nat)"
  using nat_of_char_less_256 [of c] by linarith

lemma is_digit_char: "(n::nat) < 10 \<Longrightarrow> is_digit (char_of (48 + n))"
  by (simp add: is_digit_def)

lemma digit_val_char: "n < 10 \<Longrightarrow> digit_val (char_of (48 + n)) = n"
  by (simp add: digit_val_def)

lemma digits_val_append: "digits_val acc (s @ t) = digits_val (digits_val acc s) t"
  by (induction acc s rule: digits_val.induct) auto

lemma show_nat_nonempty [simp]: "show_nat n \<noteq> []"
  by (subst show_nat.simps) simp

lemma show_nat_digits: "list_all is_digit (show_nat n)"
proof (induction n rule: show_nat.induct)
  case (1 n)
  show ?case
    by (cases "n < 10")
      (use "1.IH" in \<open>simp_all add: show_nat.simps [of n] is_digit_char\<close>)
qed

lemma digits_val_show_nat: "digits_val 0 (show_nat n) = n"
proof (induction n rule: show_nat.induct)
  case (1 n)
  show ?case
    by (cases "n < 10")
      (use "1.IH" in \<open>simp_all add: show_nat.simps [of n] digit_val_char digits_val_append\<close>)
qed

lemma parse_unsigned_show_nat [simp]: "parse_unsigned (show_nat n) = Some n"
  by (simp add: parse_unsigned_def show_nat_digits digits_val_show_nat)

lemma is_digit_not_sign: "is_digit c \<Longrightarrow> c \<noteq> CHR ''-'' \<and> c \<noteq> CHR ''+''"
  by (auto simp: is_digit_def)

lemma parse_signed_show_nat: "parse_signed (show_nat n) = Some (int n)"
proof -
  obtain c t where ct: "show_nat n = c # t" by (cases "show_nat n") auto
  have "is_digit c" using show_nat_digits [of n] by (simp add: ct)
  then show ?thesis
    using is_digit_not_sign [of c] parse_unsigned_show_nat [of n] by (simp add: parse_signed_def ct)
qed

text \<open>Printing a number and parsing it again gives the number back.\<close>

lemma parse_signed_show_int: "parse_signed (show_int n) = Some n"
  by (simp add: show_int_def parse_signed_show_nat) (simp add: parse_signed_def)

lemma ParseInt_show_int: "in_i64 n \<Longrightarrow> ParseInt (show_int n) = Some n"
  by (simp add: ParseInt_def parse_signed_show_int)

lemma ParseInt_range [res_elims]: "ParseInt s = Some n \<Longrightarrow> in_i64 n"
  by (auto simp: ParseInt_def split: option.splits if_splits)

lemma length_EncodeToString [simp]: "length (EncodeToString s) = 2 * length s"
  by (induction s rule: EncodeToString.induct) auto

lemma hex_digit_inj: "m < 16 \<Longrightarrow> n < 16 \<Longrightarrow> hex_digit m = hex_digit n \<Longrightarrow> m = n"
  using arg_cong [of "hex_digit m" "hex_digit n" "of_char :: char \<Rightarrow> nat"]
  by (simp add: hex_digit_def split: if_splits)

lemma EncodeToString_inj: "EncodeToString s = EncodeToString t \<Longrightarrow> s = t"
proof (induction s arbitrary: t rule: EncodeToString.induct)
  case 1
  then show ?case by (cases t) auto
next
  case (2 c s)
  from "2.prems" obtain d t' where t: "t = d # t'" by (cases t) auto
  from "2.prems" have "of_char c div 16 = (of_char d div 16 :: nat)"
    and "of_char c mod 16 = (of_char d mod 16 :: nat)" and "EncodeToString s = EncodeToString t'"
    by (auto simp: t intro!: hex_digit_inj)
  then have "of_char c = (of_char d :: nat)" and "s = t'"
    using "2.IH" by (metis div_mult_mod_eq)+
  then show ?case by (simp add: t)
qed

definition is_lower_hex :: "char \<Rightarrow> bool" where
  "is_lower_hex c \<longleftrightarrow> (let n = (of_char c :: nat) in (48 \<le> n \<and> n \<le> 57) \<or> (97 \<le> n \<and> n \<le> 102))"

lemma hex_digit_lower: "n < 16 \<Longrightarrow> is_lower_hex (hex_digit n)"
  by (simp add: is_lower_hex_def hex_digit_def)

lemma EncodeToString_lower: "list_all is_lower_hex (EncodeToString s)"
proof (induction s rule: EncodeToString.induct)
  case (2 c s)
  then show ?case by (simp add: hex_digit_lower)
qed simp

lemma ascii_lower_hex: "is_lower_hex c \<Longrightarrow> ascii_lower c = c"
  by (auto simp: ascii_lower_def is_lower_hex_def Let_def)

text \<open>Lower-casing the output of the hex encoder changes nothing.\<close>

lemma ToLower_lower_hex: "list_all is_lower_hex s \<Longrightarrow> ToLower s = s"
  by (induction s) (auto simp: ascii_lower_hex is_lower_hex_def Let_def)

end
