(* ===== verification/Platform.thy ===== *)
theory Platform
  imports GoStrings
begin

text \<open>
  The machine the service runs on, as far as the program observes it: the clock (\<open>time.Now\<close>,
  \<open>time.Time\<close> and \<open>time.Duration\<close> arithmetic), Unix paths (\<open>path/filepath\<close>)
  and the file system (\<open>os.ReadFile\<close>, \<open>os.WriteFile\<close>, \<open>os.MkdirAll\<close>,
  \<open>os.ReadDir\<close>). Every operation takes the platform state and returns the new one.
\<close>

section \<open>Time\<close>

text \<open>
  A \<open>time.Duration\<close> is a 64-bit number of nanoseconds. A \<open>time.Time\<close> is the number of
  nanoseconds since the Unix epoch; Go keeps the seconds in an \<open>int64\<close> counted from year 1,
  \<open>unixToInternal\<close> seconds before the epoch, so \<open>time.Unix\<close> wraps around there.
\<close>

type_synonym duration = int
type_synonym time = int

definition Millisecond :: duration where
  "Millisecond = 1000000"

definition Second :: duration where
  "Second = 1000000000"

definition unixToInternal :: int where
  "unixToInternal = 62135596800"

definition dur_mult :: "duration \<Rightarrow> duration \<Rightarrow> duration" where
  "dur_mult a b = i64 (a * b)"

definition time_Unix :: "int \<Rightarrow> time" where
  "time_Unix sec = (i64 (sec + unixToInternal) - unixToInternal) * Second"

text \<open>\<open>t.Sub(u)\<close> saturates at the largest and smallest duration.\<close>

definition time_Sub :: "time \<Rightarrow> time \<Rightarrow> duration" where
  "time_Sub t u = (if t - u > max_i64 then max_i64 else if t - u < min_i64 then min_i64 else t - u)"

text \<open>\<open>t.Add(d)\<close>: the second counter saturates at plus or minus \<open>2^63 - 1\<close>.\<close>

definition time_Add :: "time \<Rightarrow> duration \<Rightarrow> time" where
  "time_Add t d =
     (let s = (t + d) div Second + unixToInternal in
      if in_i64 s then t + d
      else ((if d > 0 then max_i64 else - max_i64) - unixToInternal) * Second + (t + d) mod Second)"

definition time_After :: "time \<Rightarrow> time \<Rightarrow> bool" where
  "time_After t u \<longleftrightarrow> t > u"

definition UnixNano :: "time \<Rightarrow> int" where
  "UnixNano t = i64 t"

text \<open>The seconds of a time as Go stores them do not overflow.\<close>

definition time_ok :: "time \<Rightarrow> bool" where
  "time_ok t \<longleftrightarrow> in_i64 (t div Second + unixToInternal)"

lemma time_Add_exact: "time_ok (t + d) \<Longrightarrow> time_Add t d = t + d"
  by (simp add: time_Add_def time_ok_def)

lemma time_ok_i64: "0 \<le> t \<Longrightarrow> t \<le> max_i64 \<Longrightarrow> time_ok t"
proof -
  assume t: "0 \<le> t" "t \<le> max_i64"
  then have "0 \<le> t div Second" "t div Second \<le> max_i64 div Second"
    by (simp_all add: Second_def zdiv_mono1)
  then show "time_ok t" by (simp add: time_ok_def in_i64_def unixToInternal_def Second_def)
qed

lemma time_Sub_le_iff: "min_i64 \<le> s \<Longrightarrow> s < max_i64 \<Longrightarrow> time_Sub t u > s \<longleftrightarrow> t - u > s"
  by (auto simp: time_Sub_def)

section \<open>Paths\<close>

text \<open>
  The lexical rules of \<open>filepath.Clean\<close>: the elements kept so far are a stack, last one first.
\<close>

fun clean_step :: "bool \<Rightarrow> string list \<Rightarrow> string \<Rightarrow> string list" where
  "clean_step rooted st x =
     (if x = [] \<or> x = ''.'' then st
      else if x = ''..'' then
        (case st of
           [] \<Rightarrow> if rooted then [] else [''..'']
         | y # ys \<Rightarrow> if y = ''..'' then ''..'' # st else ys)
      else x # st)"

definition is_rooted :: "string \<Rightarrow> bool" where
  "is_rooted p \<longleftrightarrow> HasPrefix p ''/''"

definition clean_stack :: "string \<Rightarrow> string list" where
  "clean_stack p = foldl (clean_step (is_rooted p)) [] (split_on (CHR ''/'') p)"

definition unstack :: "bool \<Rightarrow> string list \<Rightarrow> string" where
  "unstack rooted st =
     (if rooted then CHR ''/'' # join_with ''/'' (rev st)
      else if st = [] then ''.'' else join_with ''/'' (rev st))"

definition Clean :: "string \<Rightarrow> string" where
  "Clean p = unstack (is_rooted p) (clean_stack p)"

text \<open>\<open>filepath.Join(a, b)\<close> and \<open>filepath.Dir(p)\<close>.\<close>

definition Join :: "string \<Rightarrow> string \<Rightarrow> string" where
  "Join a b =
     (if a \<noteq> [] then Clean (a @ ''/'' @ b) else if b \<noteq> [] then Clean b else [])"

definition Dir :: "string \<Rightarrow> string" where
  "Dir p = Clean (rev (dropWhile (\<lambda>c. c \<noteq> CHR ''/'') (rev p)))"

lemma is_rooted_append: "a \<noteq> [] \<Longrightarrow> is_rooted (a @ b) = is_rooted a"
  by (cases a) (auto simp: is_rooted_def HasPrefix_def)

text \<open>A stack \<open>filepath.Clean\<close> can build: proper elements, and dot-dot at the bottom only.\<close>

definition plain_elem :: "string \<Rightarrow> bool" where
  "plain_elem x \<longleftrightarrow> x \<noteq> [] \<and> x \<noteq> ''.'' \<and> x \<noteq> ''..'' \<and> CHR ''/'' \<notin> set x"

fun stack_ok :: "bool \<Rightarrow> string list \<Rightarrow> bool" where
  "stack_ok rooted [] = True"
| "stack_ok rooted (x # xs) =
     ((plain_elem x \<and> stack_ok rooted xs) \<or> (x = ''..'' \<and> \<not> rooted \<and> (\<forall>y \<in> set xs. y = ''..'')))"

lemma stack_ok_dotdots: "\<forall>y \<in> set xs. y = ''..'' \<Longrightarrow> \<not> rooted \<Longrightarrow> stack_ok rooted xs"
  by (induction xs) auto

lemma stack_ok_tl: "stack_ok rooted (x # xs) \<Longrightarrow> stack_ok rooted xs"
  by (auto intro: stack_ok_dotdots)

lemma stack_ok_step:
  assumes "stack_ok rooted st" and "CHR ''/'' \<notin> set x"
  shows "stack_ok rooted (clean_step rooted st x)"
proof (cases "x = [] \<or> x = ''.'' \<or> x = ''..''")
  case True
  then show ?thesis
    using assms by (cases st) (auto simp: plain_elem_def intro: stack_ok_dotdots)
next
  case False
  with assms show ?thesis by (simp add: plain_elem_def)
qed

lemma stack_ok_foldl:
  "stack_ok rooted st \<Longrightarrow> \<forall>x \<in> set xs. CHR ''/'' \<notin> set x \<Longrightarrow>
   stack_ok rooted (foldl (clean_step rooted) st xs)"
  by (induction xs arbitrary: st) (auto simp del: clean_step.simps intro: stack_ok_step)

lemma stack_ok_clean_stack: "stack_ok (is_rooted p) (clean_stack p)"
  unfolding clean_stack_def by (rule stack_ok_foldl) (auto dest: split_on_pieces)

text \<open>Cleaning the elements of such a stack again rebuilds the stack.\<close>

lemma clean_step_same: "stack_ok rooted (x # xs) \<Longrightarrow> clean_step rooted xs x = x # xs"
  by (cases xs) (auto simp: plain_elem_def)

lemma foldl_clean_rev: "stack_ok rooted st \<Longrightarrow> foldl (clean_step rooted) [] (rev st) = st"
proof (induction st)
  case (Cons x xs)
  from Cons.prems have "stack_ok rooted xs" by (rule stack_ok_tl)
  with Cons.IH have "foldl (clean_step rooted) [] (rev xs) = xs" .
  with Cons.prems show ?case by (simp del: clean_step.simps add: clean_step_same)
qed simp

lemma stack_ok_elem: "stack_ok rooted st \<Longrightarrow> x \<in> set st \<Longrightarrow> x \<noteq> [] \<and> CHR ''/'' \<notin> set x"
proof (induction st)
  case (Cons y ys)
  show ?case
  proof (cases "x = y")
    case True
    with Cons.prems(1) show ?thesis by (elim stack_ok.elims) (auto simp: plain_elem_def)
  next
    case False
    with Cons.prems(2) have "x \<in> set ys" by simp
    with stack_ok_tl [OF Cons.prems(1)] show ?thesis by (rule Cons.IH)
  qed
qed simp

lemma split_join:
  "\<forall>x \<in> set xs. CHR ''/'' \<notin> set x \<Longrightarrow> xs \<noteq> [] \<Longrightarrow> split_on (CHR ''/'') (join_with ''/'' xs) = xs"
  by (induction xs rule: induct_list012) (simp_all add: split_on_no split_on_sep)

lemma not_rooted_join:
  assumes "stack_ok rooted st" and "st \<noteq> []"
  shows "\<not> is_rooted (join_with ''/'' (rev st) @ t)"
proof -
  obtain x xs where rev: "rev st = x # xs" using assms(2) by (cases "rev st") auto
  then have "x \<in> set st" by (metis list.set_intros(1) set_rev)
  then have "x \<noteq> []" "CHR ''/'' \<notin> set x" using stack_ok_elem [OF assms(1)] by auto
  then show ?thesis by (cases x; cases xs) (auto simp: rev is_rooted_def HasPrefix_def)
qed

lemma is_rooted_unstack: "stack_ok rooted st \<Longrightarrow> is_rooted (unstack rooted st) = rooted"
  using not_rooted_join [of rooted st "[]"]
  by (auto simp: unstack_def is_rooted_def HasPrefix_def)

text \<open>The directory part of a path built from a stack is the path of the stack's tail.\<close>

lemma Dir_unstack:
  assumes ok: "stack_ok rooted (x # xs)"
  shows "Dir (unstack rooted (x # xs)) = unstack rooted xs"
proof -
  have x: "CHR ''/'' \<notin> set x" using stack_ok_elem [OF ok] by simp
  have okxs: "stack_ok rooted xs" using ok by (rule stack_ok_tl)
  have noslash: "\<forall>y \<in> set (rev xs). CHR ''/'' \<notin> set y" using stack_ok_elem [OF okxs] by auto
  have strip: "rev (dropWhile (\<lambda>c. c \<noteq> CHR ''/'') (rev (p @ x))) =
      rev (dropWhile (\<lambda>c. c \<noteq> CHR ''/'') (rev p))" for p
    by (subst rev_append, subst dropWhile_append2) (use x in auto)
  show ?thesis
  proof (cases "xs = []")
    case True
    have nil: "dropWhile (\<lambda>c. c \<noteq> CHR ''/'') (rev x) = []" using x by auto
    show ?thesis
      using True strip [of "''/''"]
      by (cases rooted)
        (simp_all add: nil unstack_def Dir_def Clean_def clean_stack_def is_rooted_def HasPrefix_def)
  next
    case False
    let ?p = "(if rooted then ''/'' else []) @ join_with ''/'' (rev xs)"
    have "unstack rooted (x # xs) = (?p @ ''/'') @ x"
      using False by (simp add: unstack_def join_with_snoc)
    then have dir: "Dir (unstack rooted (x # xs)) = Clean (?p @ ''/'')"
      unfolding Dir_def by (simp only: strip) simp
    have rt: "is_rooted (?p @ ''/'') = rooted"
      using not_rooted_join [OF okxs False, of "''/''"] by (simp add: is_rooted_def HasPrefix_def)
    have "split_on (CHR ''/'') (?p @ ''/'') = (if rooted then [[]] else []) @ rev xs @ [[]]"
      using split_join [OF noslash] False by (simp add: split_on_sep)
    then have "clean_stack (?p @ ''/'') = xs"
      unfolding clean_stack_def rt using foldl_clean_rev [OF okxs] by (cases rooted) simp_all
    then show ?thesis by (simp only: dir Clean_def rt)
  qed
qed

text \<open>
  Joining a directory and a plain file name gives a path directly below the directory.
\<close>

lemma clean_stack_snoc:
  "a \<noteq> [] \<Longrightarrow> plain_elem f \<Longrightarrow> clean_stack (a @ ''/'' @ f) = f # clean_stack a"
  by (simp add: clean_stack_def is_rooted_append split_on_sep split_on_no plain_elem_def)

lemma Join_plain:
  "a \<noteq> [] \<Longrightarrow> plain_elem f \<Longrightarrow> Join a f = unstack (is_rooted a) (f # clean_stack a)"
  using clean_stack_snoc [of a f] by (simp add: Join_def Clean_def is_rooted_append)

lemma Dir_Join:
  assumes "a \<noteq> []" and "plain_elem f"
  shows "Dir (Join a f) = Clean a"
proof -
  have "stack_ok (is_rooted a) (f # clean_stack a)"
    using assms(2) stack_ok_clean_stack by simp
  then show ?thesis by (simp add: Join_plain assms Dir_unstack Clean_def)
qed

lemma Clean_unstack: "stack_ok rooted st \<Longrightarrow> Clean (unstack rooted st) = unstack rooted st"
proof -
  assume ok: "stack_ok rooted st"
  have noslash: "\<forall>y \<in> set (rev st). CHR ''/'' \<notin> set y" using stack_ok_elem [OF ok] by auto
  have "clean_stack (unstack rooted st) = st"
  proof (cases "st = []")
    case True
    then show ?thesis
      by (cases rooted) (simp_all add: unstack_def clean_stack_def is_rooted_def HasPrefix_def)
  next
    case False
    then have "split_on (CHR ''/'') (unstack rooted st) = (if rooted then [[]] else []) @ rev st"
      using split_join [OF noslash] by (simp add: unstack_def)
    then show ?thesis
      unfolding clean_stack_def is_rooted_unstack [OF ok]
      using foldl_clean_rev [OF ok] by (cases rooted) simp_all
  qed
  then show ?thesis by (simp add: Clean_def is_rooted_unstack [OF ok])
qed

lemma Clean_Clean [simp]: "Clean (Clean p) = Clean p"
  unfolding Clean_def [of p] by (rule Clean_unstack) (rule stack_ok_clean_stack)

lemma Clean_Join: "a \<noteq> [] \<Longrightarrow> Clean (Join a b) = Join a b"
  by (simp add: Join_def)

section \<open>The file system and the clock\<close>

text \<open>
  Regular files and directories are named by their cleaned path; directory permissions, links and
  mount points are not modelled. The operating system may fail any call: \<open>faults\<close> holds, for
  each coming call, \<open>None\<close> (it proceeds) or the failure it will meet; a write can also fail
  after a prefix of the data has replaced the file. \<open>clk n\<close> is what the \<open>n\<close>-th call
  of \<open>time.Now\<close> returns; \<open>timers\<close> lists the durations \<open>time.After\<close> has been
  called with, latest first.
\<close>

datatype fault = Fault string | Partial nat string

record platform =
  clk :: "nat \<Rightarrow> time"
  ticks :: nat
  files :: "(string \<times> string) list"
  dirs :: "string list"
  faults :: "fault option list"
  timers :: "duration list"

definition Now :: "platform \<Rightarrow> time \<times> platform" where
  "Now w = (clk w (ticks w), w\<lparr>ticks := Suc (ticks w)\<rparr>)"

definition pop_fault :: "platform \<Rightarrow> fault option \<times> platform" where
  "pop_fault w =
     (case faults w of [] \<Rightarrow> (None, w) | f # fs \<Rightarrow> (f, w\<lparr>faults := fs\<rparr>))"

definition ReadFile :: "platform \<Rightarrow> string \<Rightarrow> string res \<times> platform" where
  "ReadFile w p =
     (case pop_fault w of
        (Some (Fault m), w) \<Rightarrow> (Inl (ErrNew m), w)
      | (Some (Partial _ m), w) \<Rightarrow> (Inl (ErrNew m), w)
      | (None, w) \<Rightarrow>
          (case map_of (files w) (Clean p) of
             Some b \<Rightarrow> (Inr b, w)
           | None \<Rightarrow>
               if Clean p \<in> set (dirs w) then (Inl (ErrNew (''read '' @ p @ '': is a directory'')), w)
               else (Inl (ErrNotExist p), w)))"

definition WriteFile :: "platform \<Rightarrow> string \<Rightarrow> string \<Rightarrow> error option \<times> platform" where
  "WriteFile w p data =
     (case pop_fault w of
        (Some (Fault m), w) \<Rightarrow> (Some (ErrNew m), w)
      | (f, w) \<Rightarrow>
          if Clean p \<in> set (dirs w) then (Some (ErrNew (''open '' @ p @ '': is a directory'')), w)
          else if Dir (Clean p) \<notin> set (dirs w) then (Some (ErrNotExist p), w)
          else
            (case f of
               Some (Partial n m) \<Rightarrow>
                 (Some (ErrNew m), w\<lparr>files := AList.update (Clean p) (take n data) (files w)\<rparr>)
             | _ \<Rightarrow> (None, w\<lparr>files := AList.update (Clean p) data (files w)\<rparr>)))"

function path_up :: "string \<Rightarrow> string list" where
  "path_up p = (if length (Dir p) < length p then p # path_up (Dir p) else [p])"
  by pat_completeness auto
termination
  by (relation "measure length") auto

declare path_up.simps [simp del]

definition MkdirAll :: "platform \<Rightarrow> string \<Rightarrow> error option \<times> platform" where
  "MkdirAll w p =
     (case pop_fault w of
        (Some (Fault m), w) \<Rightarrow> (Some (ErrNew m), w)
      | (Some (Partial _ m), w) \<Rightarrow> (Some (ErrNew m), w)
      | (None, w) \<Rightarrow>
          if list_ex (\<lambda>q. map_of (files w) q \<noteq> None) (path_up (Clean p))
          then (Some (ErrNew (''mkdir '' @ p @ '': not a directory'')), w)
          else (None, w\<lparr>dirs := remdups (path_up (Clean p) @ dirs w)\<rparr>))"

definition dir_entries :: "platform \<Rightarrow> string \<Rightarrow> string list" where
  "dir_entries w d =
     filter (\<lambda>q. Dir q = d \<and> q \<noteq> d) (remdups (map fst (files w)) @ remdups (dirs w))"

definition ReadDir :: "platform \<Rightarrow> string \<Rightarrow> string list res \<times> platform" where
  "ReadDir w p =
     (case pop_fault w of
        (Some (Fault m), w) \<Rightarrow> (Inl (ErrNew m), w)
      | (Some (Partial _ m), w) \<Rightarrow> (Inl (ErrNew m), w)
      | (None, w) \<Rightarrow>
          if Clean p \<in> set (dirs w) then (Inr (dir_entries w (Clean p)), w)
          else if map_of (files w) (Clean p) \<noteq> None
          then (Inl (ErrNew (''fdopendir '' @ p @ '': not a directory'')), w)
          else (Inl (ErrNotExist p), w))"

text \<open>A platform on which no further call fails.\<close>

definition healthy :: "platform \<Rightarrow> bool" where
  "healthy w \<longleftrightarrow> list_all (\<lambda>f. f = None) (faults w)"

lemma pop_fault_healthy:
  "healthy w \<Longrightarrow> \<exists>fs. pop_fault w = (None, w\<lparr>faults := fs\<rparr>) \<and> list_all (\<lambda>f. f = None) fs"
  by (cases "faults w") (auto simp: pop_fault_def healthy_def intro: exI [of _ "faults w"])

text \<open>The file operations on a platform whose calls do not fail.\<close>

lemma pop_fault_ok:
  assumes "healthy w"
  obtains w' where "pop_fault w = (None, w')" "healthy w'" "files w' = files w" "dirs w' = dirs w"
    "clk w' = clk w" "ticks w' = ticks w"
  using pop_fault_healthy [OF assms] that by (auto simp: healthy_def)

lemma MkdirAll_ok:
  assumes "healthy w" and "\<forall>q \<in> set (path_up (Clean p)). map_of (files w) q = None"
  obtains w' where "MkdirAll w p = (None, w')" "healthy w'" "files w' = files w"
    "set (dirs w') = set (path_up (Clean p)) \<union> set (dirs w)" "clk w' = clk w" "ticks w' = ticks w"
proof -
  obtain v where v: "pop_fault w = (None, v)" "healthy v" "files v = files w" "dirs v = dirs w"
    "clk v = clk w" "ticks v = ticks w" using pop_fault_ok [OF assms(1)] .
  have "\<not> list_ex (\<lambda>q. map_of (files v) q \<noteq> None) (path_up (Clean p))"
    using assms(2) v(3) by (simp add: list_ex_iff)
  then show thesis
    using that [of "v\<lparr>dirs := remdups (path_up (Clean p) @ dirs v)\<rparr>"] v by (simp add: MkdirAll_def healthy_def)
qed

lemma WriteFile_ok:
  assumes "healthy w" and "Clean p \<notin> set (dirs w)" and "Dir (Clean p) \<in> set (dirs w)"
  obtains w' where "WriteFile w p data = (None, w')" "healthy w'"
    "files w' = AList.update (Clean p) data (files w)" "dirs w' = dirs w" "clk w' = clk w" "ticks w' = ticks w"
proof -
  obtain v where v: "pop_fault w = (None, v)" "healthy v" "files v = files w" "dirs v = dirs w"
    "clk v = clk w" "ticks v = ticks w" using pop_fault_ok [OF assms(1)] .
  show thesis
    using that [of "v\<lparr>files := AList.update (Clean p) data (files v)\<rparr>"] v assms
    by (simp add: WriteFile_def healthy_def)
qed

lemma ReadDir_ok:
  assumes "healthy w" and "Clean p \<in> set (dirs w)"
  obtains w' where "ReadDir w p = (Inr (dir_entries w (Clean p)), w')" "healthy w'" "files w' = files w"
    "dirs w' = dirs w" "clk w' = clk w" "ticks w' = ticks w"
proof -
  obtain v where v: "pop_fault w = (None, v)" "healthy v" "files v = files w" "dirs v = dirs w"
    "clk v = clk w" "ticks v = ticks w" using pop_fault_ok [OF assms(1)] .
  show thesis
    using that [of v] v assms by (simp add: ReadDir_def dir_entries_def)
qed

text \<open>The number of entries of a directory, and how a new file changes it.\<close>

lemma length_dir_entries:
  "length (dir_entries w d) =
     card {q \<in> fst ` set (files w). Dir q = d \<and> q \<noteq> d} + card {q \<in> set (dirs w). Dir q = d \<and> q \<noteq> d}"
proof -
  have "length (filter P (remdups xs)) = card {x \<in> set xs. P x}" for P and xs :: "string list"
    by (metis distinct_card distinct_filter distinct_remdups set_filter set_remdups)
  then show ?thesis by (simp add: dir_entries_def)
qed

lemma dir_entries_new_file:
  assumes "files w' = AList.update p data (files w)" and "set (dirs w') = set (dirs w)"
    and "map_of (files w) p = None" and "Dir p = d" and "p \<noteq> d"
  shows "length (dir_entries w' d) = Suc (length (dir_entries w d))"
proof -
  have "p \<notin> fst ` set (files w)" using assms(3) by (simp add: map_of_eq_None_iff)
  moreover have "fst ` set (files w') = insert p (fst ` set (files w))"
    by (simp add: assms(1) dom_update)
  moreover have "{q \<in> insert p A. Dir q = d \<and> q \<noteq> d} = insert p {q \<in> A. Dir q = d \<and> q \<noteq> d}" for A
    using assms(4,5) by auto
  ultimately show ?thesis by (simp add: length_dir_entries assms(2))
qed

text \<open>Time passes: the clock is the same and has been read no less often.\<close>

definition later :: "platform \<Rightarrow> platform \<Rightarrow> bool" where
  "later w w' \<longleftrightarrow> clk w' = clk w \<and> ticks w \<le> ticks w'"

lemma later_refl [simp, intro]: "later w w"
  by (simp add: later_def)

lemma later_trans [trans]: "later u v \<Longrightarrow> later v w \<Longrightarrow> later u w"
  by (simp add: later_def)

lemma later_Now: "later w (snd (Now w))"
  by (simp add: later_def Now_def)

lemma pop_fault_later: "pop_fault w = (f, w') \<Longrightarrow> later w w'"
  by (auto simp: pop_fault_def later_def split: list.splits)

lemma ReadDir_later: "ReadDir w p = (r, w') \<Longrightarrow> later w w'"
  by (auto simp: ReadDir_def split: prod.splits option.splits fault.splits if_splits dest: pop_fault_later)

lemma MkdirAll_later: "MkdirAll w p = (r, w') \<Longrightarrow> later w w'"
  by (auto simp: MkdirAll_def later_def split: prod.splits option.splits fault.splits if_splits
      dest: pop_fault_later [unfolded later_def])

lemma WriteFile_later: "WriteFile w p data = (r, w') \<Longrightarrow> later w w'"
  by (auto simp: WriteFile_def later_def split: prod.splits option.splits fault.splits if_splits
      dest: pop_fault_later [unfolded later_def])

end
