(* ===== verification/Json.thy ===== *)
theory Json
  imports GoStrings
begin

text \<open>
  What the program uses of \<open>encoding/json\<close> and \<open>unicode/utf8\<close>: the parser behind
  \<open>json.Decoder.Decode\<close> and \<open>json.Unmarshal\<close>, the decoding of string-valued struct
  fields, and the printers behind \<open>json.Marshal\<close> and \<open>json.MarshalIndent\<close>.
\<close>

section \<open>UTF-8\<close>

definition in_range :: "nat \<Rightarrow> nat \<Rightarrow> char \<Rightarrow> bool" where
  "in_range lo hi c \<longleftrightarrow> lo \<le> of_char c \<and> of_char c \<le> hi"

definition cont :: "char \<Rightarrow> bool" where
  "cont c \<longleftrightarrow> in_range 128 191 c"

text \<open>
  The number of bytes of the well-formed encoding at the start of a string, 0 if there is none:
  the accept ranges of \<open>utf8.DecodeRune\<close>.
\<close>

fun rune_len :: "string \<Rightarrow> nat" where
  "rune_len [] = 0"
| "rune_len (a # s) =
     (if in_range 0 127 a then 1
      else if in_range 194 223 a then
        (case s of b # _ \<Rightarrow> if cont b then 2 else 0 | _ \<Rightarrow> 0)
      else if in_range 224 239 a then
        (case s of
           b # c # _ \<Rightarrow>
             if in_range (if of_char a = (224::nat) then 160 else 128)
                  (if of_char a = (237::nat) then 159 else 191) b \<and> cont c then 3 else 0
         | _ \<Rightarrow> 0)
      else if in_range 240 244 a then
        (case s of
           b # c # d # _ \<Rightarrow>
             if in_range (if of_char a = (240::nat) then 144 else 128)
                  (if of_char a = (244::nat) then 143 else 191) b \<and> cont c \<and> cont d then 4 else 0
         | _ \<Rightarrow> 0)
      else 0)"

definition rune_error :: string where
  "rune_error = map char_of [239, 191, 189 :: nat]"

text \<open>\<open>utf8.AppendRune\<close> for a code point that is not a surrogate.\<close>

definition encode_rune :: "nat \<Rightarrow> string" where
  "encode_rune r = map char_of
     (if r < 128 then [r]
      else if r < 2048 then [192 + r div 64, 128 + r mod 64]
      else if r < 65536 then [224 + r div 4096, 128 + r div 64 mod 64, 128 + r mod 64]
      else [240 + r div 262144, 128 + r div 4096 mod 64, 128 + r div 64 mod 64, 128 + r mod 64])"

lemma rune_len_le: "rune_len s \<le> length s"
  by (cases s) (auto split: list.splits if_splits)

lemma rune_len_ascii [simp]: "of_char c < (128::nat) \<Longrightarrow> rune_len (c # s) = 1"
  by (simp add: in_range_def)

lemma rune_len_no_ascii_tail:
  "rune_len (c # s) = Suc n \<Longrightarrow> d \<in> set (take n s) \<Longrightarrow> 128 \<le> (of_char d :: nat)"
  by (auto simp: in_range_def cont_def split: if_splits list.splits)

section \<open>Lexical elements\<close>

datatype json =
    JNull
  | JBool bool
  | JNum string
  | JStr string
  | JArr "json list"
  | JObj "(string \<times> json) list"

definition is_ws :: "char \<Rightarrow> bool" where
  "is_ws c \<longleftrightarrow> of_char c \<in> {9, 10, 13, 32 :: nat}"

definition skip_ws :: "string \<Rightarrow> string" where
  "skip_ws = dropWhile is_ws"

definition hex_val :: "char \<Rightarrow> nat option" where
  "hex_val c =
     (let n = of_char c in
      if 48 \<le> n \<and> n \<le> 57 then Some (n - 48)
      else if 97 \<le> n \<and> n \<le> 102 then Some (n - 87)
      else if 65 \<le> n \<and> n \<le> 70 then Some (n - 55)
      else None)"

fun hex4 :: "string \<Rightarrow> (nat \<times> string) option" where
  "hex4 (a # b # c # d # s) =
     (case (hex_val a, hex_val b, hex_val c, hex_val d) of
        (Some w, Some x, Some y, Some z) \<Rightarrow> Some (((w * 16 + x) * 16 + y) * 16 + z, s)
      | _ \<Rightarrow> None)"
| "hex4 _ = None"

definition simple_escape :: "char \<Rightarrow> char option" where
  "simple_escape c =
     (if c = CHR ''n'' then Some (char_of (10::nat))
      else if c = CHR ''t'' then Some (char_of (9::nat))
      else if c = CHR ''r'' then Some (char_of (13::nat))
      else if c = CHR ''b'' then Some (char_of (8::nat))
      else if c = CHR ''f'' then Some (char_of (12::nat))
      else if c = CHR ''/'' \<or> c = CHR 0x5C \<or> c = CHR 0x22 then Some c
      else None)"

text \<open>
  The code point of a four-digit Unicode escape and what follows it. A high surrogate directly followed by
  the escape of a low one is a pair; any other surrogate is U+FFFD and only its own escape is
  consumed.
\<close>

definition unicode_escape :: "string \<Rightarrow> (nat \<times> string) option" where
  "unicode_escape s =
     (case hex4 s of
        None \<Rightarrow> None
      | Some (r, t) \<Rightarrow>
          if r < 55296 \<or> 57344 \<le> r then Some (r, t)
          else
            (case t of
               e # u # t' \<Rightarrow>
                 if r < 56320 \<and> e = CHR 0x5C \<and> u = CHR ''u'' then
                   (case hex4 t' of
                      None \<Rightarrow> None
                    | Some (r2, t'') \<Rightarrow>
                        if 56320 \<le> r2 \<and> r2 < 57344
                        then Some (65536 + (r - 55296) * 1024 + (r2 - 56320), t'')
                        else Some (65533, t))
                 else Some (65533, t)
             | _ \<Rightarrow> Some (65533, t)))"

text \<open>
  The rest of a string literal after its opening quote: the decoded bytes and what follows the
  closing quote. Bytes that are not well-formed UTF-8 are replaced by U+FFFD.
\<close>

lemma hex4_shorter: "hex4 s = Some (r, t) \<Longrightarrow> length t < length s"
  by (induction s rule: hex4.induct) (auto split: option.splits)

lemma unicode_escape_shorter: "unicode_escape s = Some (r, t) \<Longrightarrow> length t < length s"
  by (auto simp: unicode_escape_def dest!: hex4_shorter split: option.splits if_splits list.splits)

function str_body :: "string \<Rightarrow> (string \<times> string) option" where
  "str_body s =
     (case s of
        [] \<Rightarrow> None
      | c # t \<Rightarrow>
          if c = CHR 0x22 then Some ([], t)
          else if c = CHR 0x5C then
            (case t of
               [] \<Rightarrow> None
             | e # u \<Rightarrow>
                 if e = CHR ''u'' then
                   (case unicode_escape u of
                      None \<Rightarrow> None
                    | Some (r, v) \<Rightarrow> map_option (apfst ((@) (encode_rune r))) (str_body v))
                 else
                   (case simple_escape e of
                      None \<Rightarrow> None
                    | Some d \<Rightarrow> map_option (apfst ((#) d)) (str_body u)))
          else if of_char c < (32::nat) then None
          else if rune_len s = 0 then map_option (apfst ((@) rune_error)) (str_body t)
          else map_option (apfst ((@) (take (rune_len s) s))) (str_body (drop (rune_len s) s)))"
  by pat_completeness auto
termination
  by (relation "measure length") (auto dest!: unicode_escape_shorter simp del: rune_len.simps)

declare str_body.simps [simp del]

text \<open>A number literal and what follows it.\<close>

definition take_digits :: "string \<Rightarrow> string \<times> string" where
  "take_digits s = (takeWhile is_digit s, dropWhile is_digit s)"

definition num_int :: "string \<Rightarrow> (string \<times> string) option" where
  "num_int s =
     (case s of
        [] \<Rightarrow> None
      | c # t \<Rightarrow>
          if c = CHR ''0'' then Some ([c], t)
          else if is_digit c then Some (take_digits s)
          else None)"

definition num_frac :: "string \<Rightarrow> (string \<times> string) option" where
  "num_frac s =
     (case s of
        c # t \<Rightarrow>
          if c = CHR ''.'' then
            (if takeWhile is_digit t = [] then None
             else Some (c # takeWhile is_digit t, dropWhile is_digit t))
          else Some ([], s)
      | [] \<Rightarrow> Some ([], s))"

definition num_exp :: "string \<Rightarrow> (string \<times> string) option" where
  "num_exp s =
     (case s of
        c # t \<Rightarrow>
          if c = CHR ''e'' \<or> c = CHR ''E'' then
            (let (sg, u) = (case t of
                 d # u \<Rightarrow> if d = CHR ''+'' \<or> d = CHR ''-'' then ([d], u) else ([], t)
               | [] \<Rightarrow> ([], t))
             in if takeWhile is_digit u = [] then None
                else Some (c # sg @ takeWhile is_digit u, dropWhile is_digit u))
          else Some ([], s)
      | [] \<Rightarrow> Some ([], s))"

definition num_lit :: "string \<Rightarrow> (string \<times> string) option" where
  "num_lit s =
     (let (sg, t) = (case s of c # u \<Rightarrow> if c = CHR ''-'' then ([c], u) else ([], s) | [] \<Rightarrow> ([], s))
      in case num_int t of
           None \<Rightarrow> None
         | Some (i, t1) \<Rightarrow>
             (case num_frac t1 of
                None \<Rightarrow> None
              | Some (f, t2) \<Rightarrow>
                  (case num_exp t2 of
                     None \<Rightarrow> None
                   | Some (e, t3) \<Rightarrow> Some (sg @ i @ f @ e, t3))))"

section \<open>Values\<close>

text \<open>
  One value and what follows it. The first argument is fuel: every call of \<open>parse_value\<close>,
  \<open>parse_elems\<close> and \<open>parse_members\<close> either fails or hands the next one a shorter input,
  so the length of the input plus one is enough. The second argument is the number of arrays and
  objects that are open, of which Go allows 10000.
\<close>

definition max_depth :: nat where
  "max_depth = 10000"

fun parse_value :: "nat \<Rightarrow> nat \<Rightarrow> string \<Rightarrow> (json \<times> string) option"
  and parse_elems :: "nat \<Rightarrow> nat \<Rightarrow> string \<Rightarrow> (json list \<times> string) option"
  and parse_members :: "nat \<Rightarrow> nat \<Rightarrow> string \<Rightarrow> ((string \<times> json) list \<times> string) option"
where
  "parse_value 0 d s = None"
| "parse_value (Suc f) d s =
     (case skip_ws s of
        [] \<Rightarrow> None
      | c # t \<Rightarrow>
          if c = CHR 0x22 then map_option (apfst JStr) (str_body t)
          else if c = CHR ''{'' then
            (if max_depth < Suc d then None
             else
               (case skip_ws t of
                  [] \<Rightarrow> None
                | c' # u \<Rightarrow>
                    if c' = CHR ''}'' then Some (JObj [], u)
                    else map_option (apfst JObj) (parse_members f (Suc d) t)))
          else if c = CHR ''['' then
            (if max_depth < Suc d then None
             else
               (case skip_ws t of
                  [] \<Rightarrow> None
                | c' # u \<Rightarrow>
                    if c' = CHR '']'' then Some (JArr [], u)
                    else map_option (apfst JArr) (parse_elems f (Suc d) t)))
          else if HasPrefix (c # t) ''true'' then Some (JBool True, drop 4 (c # t))
          else if HasPrefix (c # t) ''false'' then Some (JBool False, drop 5 (c # t))
          else if HasPrefix (c # t) ''null'' then Some (JNull, drop 4 (c # t))
          else map_option (apfst JNum) (num_lit (c # t)))"
| "parse_elems 0 d s = None"
| "parse_elems (Suc f) d s =
     (case parse_value f d s of
        None \<Rightarrow> None
      | Some (v, t) \<Rightarrow>
          (case skip_ws t of
             [] \<Rightarrow> None
           | c # u \<Rightarrow>
               if c = CHR '','' then map_option (apfst ((#) v)) (parse_elems f d u)
               else if c = CHR '']'' then Some ([v], u)
               else None))"
| "parse_members 0 d s = None"
| "parse_members (Suc f) d s =
     (case skip_ws s of
        [] \<Rightarrow> None
      | q # r \<Rightarrow>
          if q \<noteq> CHR 0x22 then None
          else
            (case str_body r of
               None \<Rightarrow> None
             | Some (k, r1) \<Rightarrow>
                 (case skip_ws r1 of
                    [] \<Rightarrow> None
                  | c # r2 \<Rightarrow>
                      if c \<noteq> CHR '':'' then None
                      else
                        (case parse_value f d r2 of
                           None \<Rightarrow> None
                         | Some (v, t) \<Rightarrow>
                             (case skip_ws t of
                                [] \<Rightarrow> None
                              | e # u \<Rightarrow>
                                  if e = CHR '','' then
                                    map_option (apfst ((#) (k, v))) (parse_members f d u)
                                  else if e = CHR ''}'' then Some ([(k, v)], u)
                                  else None)))))"

text \<open>
  \<open>json.NewDecoder(r).Decode(&v)\<close> reads the first value and does not look at what follows it;
  \<open>json.Unmarshal\<close> wants white space only after the value. Two units of fuel per byte pay for
  the \<open>parse_value\<close> call and the \<open>parse_elems\<close> or \<open>parse_members\<close> call that consume it.
\<close>

definition decode_first :: "string \<Rightarrow> json option" where
  "decode_first s = map_option fst (parse_value (2 * length s + 2) 0 s)"

definition unmarshal :: "string \<Rightarrow> json option" where
  "unmarshal s =
     (case parse_value (2 * length s + 2) 0 s of
        None \<Rightarrow> None
      | Some (v, t) \<Rightarrow> if skip_ws t = [] then Some v else None)"

section \<open>Decoding into Go values\<close>

text \<open>
  A key names a field when it is the field's tag, or else when the two agree after case folding
  (\<open>foldName\<close>): ASCII letters fold to upper case, U+017F (bytes C5 BF) to \<open>S\<close> and U+212A
  (bytes E2 84 AA) to \<open>K\<close>; no other rune folds to an ASCII letter, and the tags are ASCII.
\<close>

definition ascii_upper :: "char \<Rightarrow> char" where
  "ascii_upper c =
     (let n = (of_char c :: nat) in if 97 \<le> n \<and> n \<le> 122 then char_of (n - 32) else c)"

fun foldName :: "string \<Rightarrow> string" where
  "foldName [] = []"
| "foldName (c # s) =
     (if of_char c = (197::nat) \<and> HasPrefix s [char_of (191::nat)] then CHR ''S'' # foldName (drop 1 s)
      else if of_char c = (226::nat) \<and> HasPrefix s [char_of (132::nat), char_of (170::nat)]
      then CHR ''K'' # foldName (drop 2 s)
      else ascii_upper c # foldName s)"

text \<open>The tag of the struct a key is decoded into, if any.\<close>

definition field_of :: "string list \<Rightarrow> string \<Rightarrow> string option" where
  "field_of tags k =
     (if k \<in> set tags then Some k else find (\<lambda>t. foldName t = foldName k) tags)"

text \<open>The Go types the program decodes into, with the JSON tags of struct fields, and their values.\<close>

datatype ty = TString | TInt | TBool | TStruct "(string \<times> ty) list"
datatype gval = GString string | GInt int | GBool bool | GStruct "(string \<times> gval) list"

fun zero_of :: "ty \<Rightarrow> gval" where
  "zero_of TString = GString []"
| "zero_of TInt = GInt 0"
| "zero_of TBool = GBool False"
| "zero_of (TStruct fs) = GStruct (map (\<lambda>(t, f). (t, zero_of f)) fs)"

text \<open>
  Decoding a JSON value over an existing Go value. \<open>null\<close> leaves the value as it is, unknown keys
  are skipped, later members overwrite earlier ones, and a value of the wrong kind is an error
  (\<open>None\<close>), which Go reports once all members have been read.
\<close>

fun decode_into :: "ty \<Rightarrow> gval \<Rightarrow> json \<Rightarrow> gval option"
  and decode_fields :: "(string \<times> ty) list \<Rightarrow> (string \<times> gval) list \<Rightarrow> (string \<times> json) list \<Rightarrow>
    (string \<times> gval) list option"
where
  "decode_into t old JNull = Some old"
| "decode_into TString old (JStr x) = Some (GString x)"
| "decode_into TInt old (JNum n) = map_option GInt (ParseInt n)"
| "decode_into TBool old (JBool b) = Some (GBool b)"
| "decode_into (TStruct fs) (GStruct old) (JObj ms) = map_option GStruct (decode_fields fs old ms)"
| "decode_into _ _ _ = None"
| "decode_fields fs old [] = Some old"
| "decode_fields fs old ((k, v) # ms) =
     (case field_of (map fst fs) k of
        None \<Rightarrow> decode_fields fs old ms
      | Some t \<Rightarrow>
          (case (map_of fs t, map_of old t) of
             (Some ft, Some ov) \<Rightarrow>
               (case decode_into ft ov v of
                  None \<Rightarrow> None
                | Some nv \<Rightarrow> decode_fields fs (AList.update t nv old) ms)
           | _ \<Rightarrow> None))"

definition decode_struct :: "(string \<times> ty) list \<Rightarrow> json \<Rightarrow> gval option" where
  "decode_struct fs v = decode_into (TStruct fs) (zero_of (TStruct fs)) v"

text \<open>Reading a decoded value by the tags on the way to a field.\<close>

fun gsub :: "gval \<Rightarrow> string list \<Rightarrow> gval option" where
  "gsub v [] = Some v"
| "gsub (GStruct fs) (t # ts) = (case map_of fs t of None \<Rightarrow> None | Some v \<Rightarrow> gsub v ts)"
| "gsub v (t # ts) = None"

definition gstring :: "gval \<Rightarrow> string list \<Rightarrow> string" where
  "gstring v p = (case gsub v p of Some (GString s) \<Rightarrow> s | _ \<Rightarrow> [])"

definition gint :: "gval \<Rightarrow> string list \<Rightarrow> int" where
  "gint v p = (case gsub v p of Some (GInt n) \<Rightarrow> n | _ \<Rightarrow> 0)"

definition gbool :: "gval \<Rightarrow> string list \<Rightarrow> bool" where
  "gbool v p = (case gsub v p of Some (GBool b) \<Rightarrow> b | _ \<Rightarrow> False)"

section \<open>Printing\<close>

definition hex2 :: "nat \<Rightarrow> string" where
  "hex2 n = [hex_digit (n div 16), hex_digit (n mod 16)]"

definition escape_ascii :: "char \<Rightarrow> string" where
  "escape_ascii c =
     (if c = CHR 0x5C \<or> c = CHR 0x22 then [CHR 0x5C, c]
      else if of_char c = (8::nat) then [CHR 0x5C, CHR ''b'']
      else if of_char c = (12::nat) then [CHR 0x5C, CHR ''f'']
      else if of_char c = (10::nat) then [CHR 0x5C, CHR ''n'']
      else if of_char c = (13::nat) then [CHR 0x5C, CHR ''r'']
      else if of_char c = (9::nat) then [CHR 0x5C, CHR ''t'']
      else if of_char c < (32::nat) \<or> c = CHR ''<'' \<or> c = CHR ''>'' \<or> c = CHR ''&''
      then CHR 0x5C # ''u00'' @ hex2 (of_char c)
      else [c])"

text \<open>The inside of a string literal, with HTML escaping as \<open>json.Marshal\<close> has it.\<close>

function escape :: "string \<Rightarrow> string" where
  "escape s =
     (case s of
        [] \<Rightarrow> []
      | c # t \<Rightarrow>
          if of_char c < (128::nat) then escape_ascii c @ escape t
          else if rune_len s = 0 then CHR 0x5C # ''ufffd'' @ escape t
          else if HasPrefix s (map char_of [226, 128, 168 :: nat])
          then CHR 0x5C # ''u2028'' @ escape (drop 3 s)
          else if HasPrefix s (map char_of [226, 128, 169 :: nat])
          then CHR 0x5C # ''u2029'' @ escape (drop 3 s)
          else take (rune_len s) s @ escape (drop (rune_len s) s))"
  by pat_completeness auto
termination
  by (relation "measure length") (auto simp del: rune_len.simps)

declare escape.simps [simp del]

definition quote :: "string \<Rightarrow> string" where
  "quote s = CHR 0x22 # escape s @ [CHR 0x22]"

fun marshal :: "json \<Rightarrow> string" where
  "marshal JNull = ''null''"
| "marshal (JBool b) = (if b then ''true'' else ''false'')"
| "marshal (JNum n) = n"
| "marshal (JStr s) = quote s"
| "marshal (JArr vs) = ''['' @ join_with '','' (map marshal vs) @ '']''"
| "marshal (JObj ms) = ''{'' @ join_with '','' (map (\<lambda>(k, v). quote k @ '':'' @ marshal v) ms) @ ''}''"

definition newline :: "nat \<Rightarrow> string" where
  "newline n = char_of (10::nat) # concat (replicate n ''  '')"

text \<open>\<open>json.MarshalIndent(v, "", "  ")\<close>, below \<open>n\<close> enclosing arrays or objects.\<close>

fun marshal_indent :: "nat \<Rightarrow> json \<Rightarrow> string" where
  "marshal_indent n (JArr vs) =
     (if vs = [] then ''[]''
      else ''['' @ newline (Suc n)
        @ join_with ('','' @ newline (Suc n)) (map (marshal_indent (Suc n)) vs) @ newline n @ '']'')"
| "marshal_indent n (JObj ms) =
     (if ms = [] then ''{}''
      else ''{'' @ newline (Suc n)
        @ join_with ('','' @ newline (Suc n))
            (map (\<lambda>(k, v). quote k @ '': '' @ marshal_indent (Suc n) v) ms) @ newline n @ ''}'')"
| "marshal_indent n v = marshal v"

end
