(* ===== verification/Http.thy ===== *)
theory Http
  imports Platform Json
begin

text \<open>
  The part of \<open>net/http\<close> the service touches: header access, request bodies, responses and
  \<open>http.Error\<close>.
\<close>

section \<open>Headers\<close>

text \<open>
  \<open>textproto.CanonicalMIMEHeaderKey\<close>: the letter at the start and after each hyphen is upper
  case, the others lower case; a key with a byte that is not a token character is left alone.
\<close>

definition is_token_char :: "char \<Rightarrow> bool" where
  "is_token_char c \<longleftrightarrow>
     (let n = (of_char c :: nat) in
      (48 \<le> n \<and> n \<le> 57) \<or> (65 \<le> n \<and> n \<le> 90) \<or> (97 \<le> n \<and> n \<le> 122)
      \<or> n \<in> {33, 35, 36, 37, 38, 39, 42, 43, 45, 46, 94, 95, 96, 124, 126})"

fun canon_from :: "bool \<Rightarrow> string \<Rightarrow> string" where
  "canon_from up [] = []"
| "canon_from up (c # s) =
     (if up then ascii_upper c else ascii_lower c) # canon_from (c = CHR ''-'') s"

definition CanonicalHeaderKey :: "string \<Rightarrow> string" where
  "CanonicalHeaderKey k = (if list_all is_token_char k then canon_from True k else k)"

text \<open>A header maps each canonical key to its values in order of arrival.\<close>

type_synonym header = "string \<Rightarrow> string list"

definition Header_Get :: "header \<Rightarrow> string \<Rightarrow> string" where
  "Header_Get h k = (case h (CanonicalHeaderKey k) of [] \<Rightarrow> [] | v # _ \<Rightarrow> v)"

definition Header_Set :: "header \<Rightarrow> string \<Rightarrow> string \<Rightarrow> header" where
  "Header_Set h k v = h(CanonicalHeaderKey k := [v])"

lemma Header_Get_Set [simp]: "Header_Get (Header_Set h k v) k = v"
  by (simp add: Header_Get_def Header_Set_def)

lemma Header_Get_Set_other:
  "CanonicalHeaderKey k \<noteq> CanonicalHeaderKey k' \<Longrightarrow> Header_Get (Header_Set h k v) k' = Header_Get h k'"
  by (simp add: Header_Get_def Header_Set_def)

section \<open>Requests\<close>

text \<open>
  A body yields its bytes and then either the end of the stream or a read error. \<open>NilBody\<close> is a
  nil \<open>r.Body\<close>, which the server never passes to a handler. A request's context is given by
  what each \<open>select\<close> on it observes: \<open>ctxDone i\<close> is \<open>Some e\<close> when the \<open>i\<close>-th wait
  of the request ends because the context is done with error \<open>e\<close>, and \<open>None\<close> when the timer fires
  first.
\<close>

datatype body = NilBody | Body string "error option"

record request =
  Method :: string
  Path :: string
  Header :: header
  rBody :: body
  ctxDone :: "nat \<Rightarrow> error option"

text \<open>\<open>io.ReadAll\<close>.\<close>

fun ReadAll :: "body \<Rightarrow> string res" where
  "ReadAll NilBody = Inr []"
| "ReadAll (Body bs None) = Inr bs"
| "ReadAll (Body bs (Some e)) = Inl e"

text \<open>
  \<open>json.NewDecoder(r.Body).Decode(&v)\<close> up to the value read. When the stream breaks, an object
  or array that was complete before is still decoded; a literal needs one more byte to be complete.
\<close>

fun decode_body :: "body \<Rightarrow> json option" where
  "decode_body NilBody = None"
| "decode_body (Body bs None) = decode_first bs"
| "decode_body (Body bs (Some e)) =
     (case parse_value (2 * length bs + 2) 0 bs of
        None \<Rightarrow> None
      | Some (v, t) \<Rightarrow>
          (case v of JObj _ \<Rightarrow> Some v | JArr _ \<Rightarrow> Some v | _ \<Rightarrow> if t = [] then None else Some v))"

section \<open>Responses\<close>

record response =
  Status :: int
  rHeader :: "(string \<times> string) list"
  rPayload :: string

definition StatusOK :: int where "StatusOK = 200"
definition StatusCreated :: int where "StatusCreated = 201"
definition StatusBadRequest :: int where "StatusBadRequest = 400"
definition StatusUnauthorized :: int where "StatusUnauthorized = 401"
definition StatusMethodNotAllowed :: int where "StatusMethodNotAllowed = 405"
definition StatusInternalServerError :: int where "StatusInternalServerError = 500"
definition StatusBadGateway :: int where "StatusBadGateway = 502"
definition StatusServiceUnavailable :: int where "StatusServiceUnavailable = 503"

lemmas status_defs = StatusOK_def StatusCreated_def StatusBadRequest_def StatusUnauthorized_def
  StatusMethodNotAllowed_def StatusInternalServerError_def StatusBadGateway_def
  StatusServiceUnavailable_def

text \<open>\<open>http.Error(w, msg, code)\<close>.\<close>

definition http_Error :: "string \<Rightarrow> int \<Rightarrow> response" where
  "http_Error msg code =
     \<lparr>Status = code,
      rHeader = [(''Content-Type'', ''text/plain; charset=utf-8''), (''X-Content-Type-Options'', ''nosniff'')],
      rPayload = msg @ [char_of (10::nat)]\<rparr>"

definition json_response :: "int \<Rightarrow> string \<Rightarrow> response" where
  "json_response code b =
     \<lparr>Status = code, rHeader = [(''Content-Type'', ''application/json'')], rPayload = b\<rparr>"

lemma Status_http_Error [simp]: "Status (http_Error m c) = c"
  by (simp add: http_Error_def)

lemma Status_json_response [simp]: "Status (json_response c b) = c"
  by (simp add: json_response_def)

end
