(* ===== verification/Hash.thy ===== *)
theory Hash
  imports GoStrings
begin

text \<open>
  \<open>crypto/sha256\<close> (FIPS 180-4) and \<open>crypto/hmac\<close> (FIPS 198-1) on byte strings, with
  32-bit words for the compression function.
\<close>

unbundle bit_operations_syntax

type_synonym w32 = "32 word"

section \<open>SHA-256\<close>

text \<open>The first 32 bits of the fractional parts of the cube roots (of the first 64 primes) and of the
  square roots (of the first 8), in decimal.\<close>

definition sha256_k :: "w32 list" where
  "sha256_k =
    [1116352408, 1899447441, 3049323471, 3921009573, 961987163, 1508970993,
     2453635748, 2870763221, 3624381080, 310598401, 607225278, 1426881987,
     1925078388, 2162078206, 2614888103, 3248222580, 3835390401, 4022224774,
     264347078, 604807628, 770255983, 1249150122, 1555081692, 1996064986,
     2554220882, 2821834349, 2952996808, 3210313671, 3336571891, 3584528711,
     113926993, 338241895, 666307205, 773529912, 1294757372, 1396182291,
     1695183700, 1986661051, 2177026350, 2456956037, 2730485921, 2820302411,
     3259730800, 3345764771, 3516065817, 3600352804, 4094571909, 275423344,
     430227734, 506948616, 659060556, 883997877, 958139571, 1322822218,
     1537002063, 1747873779, 1955562222, 2024104815, 2227730452, 2361852424,
     2428436474, 2756734187, 3204031479, 3329325298]"

definition sha256_init :: "w32 list" where
  "sha256_init =
    [1779033703, 3144134277, 1013904242, 2773480762,
     1359893119, 2600822924, 528734635, 1541459225]"

definition big_endian32 :: "char \<Rightarrow> char \<Rightarrow> char \<Rightarrow> char \<Rightarrow> w32" where
  "big_endian32 a b c d =
     push_bit 24 (of_char a) OR push_bit 16 (of_char b) OR push_bit 8 (of_char c) OR of_char d"

fun words_of :: "string \<Rightarrow> w32 list" where
  "words_of (a # b # c # d # s) = big_endian32 a b c d # words_of s"
| "words_of _ = []"

definition bytes_of_word :: "w32 \<Rightarrow> string" where
  "bytes_of_word w = map (\<lambda>k. char_of (unat (drop_bit k w AND 255))) [24, 16, 8, 0]"

fun bytes_be :: "nat \<Rightarrow> nat \<Rightarrow> string" where
  "bytes_be 0 n = []"
| "bytes_be (Suc k) n = bytes_be k (n div 256) @ [char_of (n mod 256)]"

definition sha256_pad :: "string \<Rightarrow> string" where
  "sha256_pad m =
     m @ [char_of (128::nat)] @ replicate ((119 - length m mod 64) mod 64) (char_of (0::nat))
       @ bytes_be 8 (8 * length m)"

definition small_sigma0 :: "w32 \<Rightarrow> w32" where
  "small_sigma0 x = word_rotr 7 x XOR word_rotr 18 x XOR drop_bit 3 x"

definition small_sigma1 :: "w32 \<Rightarrow> w32" where
  "small_sigma1 x = word_rotr 17 x XOR word_rotr 19 x XOR drop_bit 10 x"

definition big_sigma0 :: "w32 \<Rightarrow> w32" where
  "big_sigma0 x = word_rotr 2 x XOR word_rotr 13 x XOR word_rotr 22 x"

definition big_sigma1 :: "w32 \<Rightarrow> w32" where
  "big_sigma1 x = word_rotr 6 x XOR word_rotr 11 x XOR word_rotr 25 x"

text \<open>
  The message schedule: \<open>n\<close> more words after the window of the last sixteen, oldest first.
\<close>

fun schedule :: "nat \<Rightarrow> w32 list \<Rightarrow> w32 list" where
  "schedule 0 ws = ws"
| "schedule (Suc n) ws =
     hd ws # schedule n (tl ws @
       [small_sigma1 (ws ! 14) + ws ! 9 + small_sigma0 (ws ! 1) + ws ! 0])"

type_synonym sha_state = "w32 \<times> w32 \<times> w32 \<times> w32 \<times> w32 \<times> w32 \<times> w32 \<times> w32"

fun sha256_round :: "sha_state \<Rightarrow> w32 \<times> w32 \<Rightarrow> sha_state" where
  "sha256_round (a, b, c, d, e, f, g, h) (k, w) =
     (let t1 = h + big_sigma1 e + ((e AND f) XOR (NOT e AND g)) + k + w;
          t2 = big_sigma0 a + ((a AND b) XOR (a AND c) XOR (b AND c))
      in (t1 + t2, a, b, c, d + t1, e, f, g))"

fun state_of :: "w32 list \<Rightarrow> sha_state" where
  "state_of [a, b, c, d, e, f, g, h] = (a, b, c, d, e, f, g, h)"
| "state_of _ = (0, 0, 0, 0, 0, 0, 0, 0)"

fun list_of_state :: "sha_state \<Rightarrow> w32 list" where
  "list_of_state (a, b, c, d, e, f, g, h) = [a, b, c, d, e, f, g, h]"

definition sha256_block :: "w32 list \<Rightarrow> string \<Rightarrow> w32 list" where
  "sha256_block hs blk =
     map2 (+) hs (list_of_state
       (foldl sha256_round (state_of hs) (zip sha256_k (schedule 48 (words_of blk)))))"

function chunks64 :: "string \<Rightarrow> string list" where
  "chunks64 s = (if s = [] then [] else take 64 s # chunks64 (drop 64 s))"
  by pat_completeness auto
termination
  by (relation "measure length") auto

declare chunks64.simps [simp del]

definition Sum256 :: "string \<Rightarrow> string" where
  "Sum256 m =
     concat (map bytes_of_word (foldl sha256_block sha256_init (chunks64 (sha256_pad m))))"

section \<open>HMAC\<close>

text \<open>
  \<open>mac := hmac.New(sha256.New, key)\<close>, any number of \<open>mac.Write\<close> calls, then
  \<open>mac.Sum(nil)\<close>: the messages written are hashed as one.
\<close>

definition hmac_key :: "string \<Rightarrow> string" where
  "hmac_key k =
     (let k' = (if 64 < length k then Sum256 k else k)
      in k' @ replicate (64 - length k') (char_of (0::nat)))"

definition xor_byte :: "nat \<Rightarrow> char \<Rightarrow> char" where
  "xor_byte n c = char_of (of_char c XOR n)"

definition hmac_sha256 :: "string \<Rightarrow> string list \<Rightarrow> string" where
  "hmac_sha256 key msgs =
     Sum256 (map (xor_byte 92) (hmac_key key)
       @ Sum256 (map (xor_byte 54) (hmac_key key) @ concat msgs))"

section \<open>Sizes\<close>

lemma length_bytes_be [simp]: "length (bytes_be k n) = k"
  by (induction k n rule: bytes_be.induct) auto

lemma length_sha256_block:
  "length hs = 8 \<Longrightarrow> length (sha256_block hs blk) = 8"
proof -
  assume "length hs = 8"
  moreover have "length (list_of_state st) = 8" for st
    by (cases st) auto
  ultimately show ?thesis by (simp add: sha256_block_def)
qed

lemma length_Sum256 [simp]: "length (Sum256 m) = 32"
proof -
  have len: "length (foldl sha256_block hs cs) = 8" if "length hs = 8" for hs cs
    using that by (induction cs arbitrary: hs) (auto simp: length_sha256_block)
  have sum: "length (concat (map bytes_of_word ws)) = 4 * length ws" for ws
    by (induction ws) (auto simp: bytes_of_word_def)
  show ?thesis by (simp add: Sum256_def sum len sha256_init_def)
qed

lemma length_hmac_sha256 [simp]: "length (hmac_sha256 k ms) = 32"
  by (simp add: hmac_sha256_def)

text \<open>Writing a message in pieces is writing their concatenation.\<close>

lemma hmac_sha256_concat: "hmac_sha256 k ms = hmac_sha256 k [concat ms]"
  by (simp add: hmac_sha256_def)

lemma padded_length: "length (sha256_pad m) mod 64 = 0"
proof -
  define q r where "q = length m div 64" and "r = length m mod 64"
  have len: "length m = 64 * q + r" and r: "r < 64" by (simp_all add: q_def r_def)
  have "(r + 9 + (119 - r) mod 64) mod 64 = 0"
  proof (cases "r \<le> 55")
    case True
    then have "(119 - r) mod 64 = 55 - r"
      using mod_add_self2 [of "55 - r" 64] by simp
    with True show ?thesis by simp
  next
    case False
    with r have "(119 - r) mod 64 = 119 - r" by simp
    with False r show ?thesis by simp
  qed
  moreover have "length (sha256_pad m) = 64 * q + (r + 9 + (119 - r) mod 64)"
    using len r by (simp add: sha256_pad_def)
  ultimately show ?thesis by simp
qed

end
