(* ===== verification/HmacAuth.thy ===== *)
theory HmacAuth
  imports Http Hash
begin

text \<open>
  Model of \<open>api/internal/hmacauth/middleware.go\<close>: request authentication by an HMAC over the
  timestamp header and the body, with a freshness window.
\<close>

section \<open>The verifier\<close>

definition defaultSignatureHeader :: string where
  "defaultSignatureHeader = ''X-Request-Signature''"

definition defaultTimestampHeader :: string where
  "defaultTimestampHeader = ''X-Request-Timestamp''"

definition ErrMissingSignature :: error where
  "ErrMissingSignature = ErrNew ''missing request signature''"

definition ErrMissingTimestamp :: error where
  "ErrMissingTimestamp = ErrNew ''missing request timestamp''"

definition ErrStaleTimestamp :: error where
  "ErrStaleTimestamp = ErrNew ''stale request timestamp''"

definition ErrInvalidSignature :: error where
  "ErrInvalidSignature = ErrNew ''invalid request signature''"

lemmas hmac_error_defs =
  ErrMissingSignature_def ErrMissingTimestamp_def ErrStaleTimestamp_def ErrInvalidSignature_def

text \<open>\<open>NowFn\<close> is the optional \<open>Now\<close> hook, given by the time it returns on this call.\<close>

record verifier =
  Secret :: string
  MaxSkew :: duration
  NowFn :: "time option"
  BodyCopy :: bool
  SignatureHeader :: string
  TimestampHeader :: string

definition computeSignature :: "string \<Rightarrow> string \<Rightarrow> string \<Rightarrow> string" where
  "computeSignature secret timestamp body =
     ToLower (EncodeToString (hmac_sha256 secret [timestamp, body]))"

definition readBody :: "request \<Rightarrow> string res \<times> request" where
  "readBody r =
     (case rBody r of
        NilBody \<Rightarrow> (Inr [], r)
      | Body bs e \<Rightarrow>
          (case ReadAll (Body bs e) of
             Inl err \<Rightarrow> (Inl err, r)
           | Inr b \<Rightarrow> (Inr b, r\<lparr>rBody := Body b None\<rparr>)))"

definition verify :: "verifier \<Rightarrow> request \<Rightarrow> platform \<Rightarrow> error option \<times> request \<times> platform" where
  "verify v r w =
     (if Secret v = [] then (None, r, w)
      else
        let sigHeader = (if SignatureHeader v = [] then defaultSignatureHeader else SignatureHeader v);
            tsHeaderName = (if TimestampHeader v = [] then defaultTimestampHeader else TimestampHeader v);
            sig = Header_Get (Header r) sigHeader;
            tsHeader = Header_Get (Header r) tsHeaderName
        in if sig = [] then (Some ErrMissingSignature, r, w)
           else if tsHeader = [] then (Some ErrMissingTimestamp, r, w)
           else
             (case ParseInt tsHeader of
                None \<Rightarrow> (Some ErrMissingTimestamp, r, w)
              | Some ts \<Rightarrow>
                  let (wall, w) = Now w;
                      now = (case NowFn v of None \<Rightarrow> wall | Some t \<Rightarrow> t);
                      reqTime = time_Unix ts
                  in if time_Sub now reqTime > MaxSkew v \<or> time_Sub reqTime now > MaxSkew v
                     then (Some ErrStaleTimestamp, r, w)
                     else
                       (case readBody r of
                          (Inl err, r) \<Rightarrow> (Some err, r, w)
                        | (Inr bodyBytes, r) \<Rightarrow>
                            if computeSignature (Secret v) tsHeader bodyBytes \<noteq> sig
                            then (Some ErrInvalidSignature, r, w)
                            else (None, r, w))))"

text \<open>
  \<open>Middleware\<close> guards a handler whose state contains the platform: \<open>plat_of\<close> reads it and
  \<open>set_plat\<close> writes it back.
\<close>

type_synonym 's handler = "request \<Rightarrow> 's \<Rightarrow> response \<times> 's"

definition Middleware ::
  "('s \<Rightarrow> platform) \<Rightarrow> (platform \<Rightarrow> 's \<Rightarrow> 's) \<Rightarrow> verifier \<Rightarrow> 's handler \<Rightarrow> 's handler"
where
  "Middleware plat_of set_plat v nxt r s =
     (case verify v r (plat_of s) of
        (Some err, r, w) \<Rightarrow> (http_Error (Error err) StatusUnauthorized, set_plat w s)
      | (None, r, w) \<Rightarrow> nxt r (set_plat w s))"

section \<open>Signatures\<close>

lemma computeSignature_hex:
  "computeSignature k ts b = EncodeToString (hmac_sha256 k [ts, b])"
  by (simp add: computeSignature_def ToLower_lower_hex EncodeToString_lower)

lemma length_computeSignature [simp]: "length (computeSignature k ts b) = 64"
  by (simp add: computeSignature_hex)

lemma computeSignature_nonempty [simp]: "computeSignature k ts b \<noteq> []"
  using length_computeSignature [of k ts b] by (metis list.size(3) zero_neq_numeral)

lemmas Nil_neq_computeSignature [simp] = computeSignature_nonempty [symmetric]

section \<open>Freshness\<close>

text \<open>The times the clock can show: those whose nanosecond count fits 64 bits (years 1678 to 2262).\<close>

lemma time_Unix_no_wrap:
  "in_i64 (n + unixToInternal) \<Longrightarrow> time_Unix n = n * Second"
  by (simp add: time_Unix_def)

lemma time_Unix_wrap:
  assumes "in_i64 n" and "\<not> in_i64 (n + unixToInternal)"
  shows "time_Unix n = (n - 2 ^ 64) * Second"
proof -
  define x where "x = n + unixToInternal + 2 ^ 63 - 2 ^ 64"
  have "0 \<le> x" "x < 2 ^ 64"
    using assms by (auto simp: x_def in_i64_def unixToInternal_def)
  then have "x mod 2 ^ 64 = x" by (rule mod_pos_pos_trivial)
  then have "(n + unixToInternal + 2 ^ 63) mod 2 ^ 64 = x"
    using minus_mod_self2 [of "n + unixToInternal + 2 ^ 63" "2 ^ 64"] by (simp only: x_def)
  then show ?thesis by (simp add: time_Unix_def i64_mod x_def)
qed

lemma stale_exact:
  assumes now: "in_i64 now" and n: "in_i64 n" and skew: "0 \<le> skew" "skew < max_i64"
  shows "(time_Sub now (time_Unix n) > skew \<or> time_Sub (time_Unix n) now > skew) \<longleftrightarrow>
         \<bar>now - n * Second\<bar> > skew"
proof (cases "in_i64 (n + unixToInternal)")
  case True
  then show ?thesis
    using skew by (auto simp: time_Unix_no_wrap time_Sub_le_iff)
next
  case False
  then have u: "time_Unix n = (n - 2 ^ 64) * Second" using n by (rule time_Unix_wrap [rotated])
  have "n \<ge> 9223371974719179008"
    using False n by (auto simp: in_i64_def unixToInternal_def)
  then have "now - n * Second < - max_i64" and "now - (n - 2 ^ 64) * Second > max_i64"
    using now n by (auto simp: in_i64_def Second_def)
  then show ?thesis using skew by (auto simp: u time_Sub_le_iff)
qed


section \<open>What the verifier accepts\<close>

text \<open>The header names in force and the time the verifier compares with.\<close>

definition sig_header :: "verifier \<Rightarrow> string" where
  "sig_header v = (if SignatureHeader v = [] then defaultSignatureHeader else SignatureHeader v)"

definition ts_header :: "verifier \<Rightarrow> string" where
  "ts_header v = (if TimestampHeader v = [] then defaultTimestampHeader else TimestampHeader v)"

definition verifier_now :: "verifier \<Rightarrow> platform \<Rightarrow> time" where
  "verifier_now v w = (case NowFn v of None \<Rightarrow> clk w (ticks w) | Some t \<Rightarrow> t)"

definition body_bytes :: "request \<Rightarrow> string res" where
  "body_bytes r = ReadAll (rBody r)"

text \<open>The specification: a fresh decimal timestamp and the HMAC of timestamp and body.\<close>

definition authentic :: "verifier \<Rightarrow> request \<Rightarrow> time \<Rightarrow> bool" where
  "authentic v r now \<longleftrightarrow>
     (\<exists>ts b. ParseInt (Header_Get (Header r) (ts_header v)) = Some ts
        \<and> \<bar>now - ts * Second\<bar> \<le> MaxSkew v
        \<and> body_bytes r = Inr b
        \<and> Header_Get (Header r) (sig_header v) =
            EncodeToString (hmac_sha256 (Secret v) [Header_Get (Header r) (ts_header v) @ b]))"

lemma ParseInt_Nil [simp]: "ParseInt [] = None"
  by (simp add: ParseInt_def parse_signed_def)

lemma readBody_cases:
  "readBody r = (case body_bytes r of
      Inl e \<Rightarrow> (Inl e, r)
    | Inr b \<Rightarrow> (Inr b, if rBody r = NilBody then r else r\<lparr>rBody := Body b None\<rparr>))"
  by (cases "rBody r") (auto simp: readBody_def body_bytes_def split: sum.splits)

lemma readBody_request: "readBody r = (Inr b, r') \<Longrightarrow> body_bytes r' = Inr b"
  by (cases "rBody r") (auto simp: readBody_def body_bytes_def split: sum.splits)

lemma computeSignature_concat:
  "computeSignature k ts b = EncodeToString (hmac_sha256 k [ts @ b])"
  by (simp add: computeSignature_hex hmac_sha256_concat [of k "[ts, b]"])

lemma verify_no_secret: "Secret v = [] \<Longrightarrow> verify v r w = (None, r, w)"
  by (simp add: verify_def)

text \<open>The checks in the order the code makes them.\<close>

lemma verify_unfold:
  assumes "Secret v \<noteq> []"
  shows "fst (verify v r w) =
     (if Header_Get (Header r) (sig_header v) = [] then Some ErrMissingSignature
      else if Header_Get (Header r) (ts_header v) = [] then Some ErrMissingTimestamp
      else case ParseInt (Header_Get (Header r) (ts_header v)) of
         None \<Rightarrow> Some ErrMissingTimestamp
       | Some n \<Rightarrow>
          if time_Sub (verifier_now v w) (time_Unix n) > MaxSkew v
             \<or> time_Sub (time_Unix n) (verifier_now v w) > MaxSkew v
          then Some ErrStaleTimestamp
          else case body_bytes r of
             Inl e \<Rightarrow> Some e
           | Inr b \<Rightarrow>
               if computeSignature (Secret v) (Header_Get (Header r) (ts_header v)) b
                  \<noteq> Header_Get (Header r) (sig_header v)
               then Some ErrInvalidSignature else None)"
proof -
  define sg ts where "sg = Header_Get (Header r) (sig_header v)"
    and "ts = Header_Get (Header r) (ts_header v)"
  show ?thesis
    unfolding verify_def sig_header_def [symmetric] ts_header_def [symmetric]
      sg_def [symmetric] ts_def [symmetric] Let_def Now_def readBody_cases
    using assms
    by (cases "ParseInt ts"; cases "body_bytes r") (simp_all add: verifier_now_def)
qed

lemma verify_accepts_iff:
  assumes "Secret v \<noteq> []" and "in_i64 (verifier_now v w)"
    and "0 \<le> MaxSkew v" "MaxSkew v < max_i64"
  shows "fst (verify v r w) = None \<longleftrightarrow> authentic v r (verifier_now v w)"
proof -
  let ?sig = "Header_Get (Header r) (sig_header v)"
  let ?ts = "Header_Get (Header r) (ts_header v)"
  let ?now = "verifier_now v w"
  have sig_ne: "?sig = [] \<Longrightarrow> \<not> authentic v r ?now"
    by (auto simp: authentic_def computeSignature_concat [symmetric])
  have fresh: "(time_Sub ?now (time_Unix n) > MaxSkew v \<or> time_Sub (time_Unix n) ?now > MaxSkew v)
      \<longleftrightarrow> \<not> \<bar>?now - n * Second\<bar> \<le> MaxSkew v" if "ParseInt ?ts = Some n" for n
    using stale_exact [OF assms(2) ParseInt_range [OF that] assms(3,4)] by (simp only: not_le)
  note unfold = verify_unfold [OF assms(1), of r w]
  show ?thesis
  proof (cases "?sig = [] \<or> ParseInt ?ts = None")
    case True
    then show ?thesis using sig_ne by (auto simp: unfold authentic_def split: option.splits)
  next
    case False
    then obtain n where n: "ParseInt ?ts = Some n" by auto
    then have "?ts \<noteq> []" by auto
    then show ?thesis
      using False n fresh [OF n]
      by (auto simp: unfold authentic_def computeSignature_concat split: sum.splits)
  qed
qed

section \<open>What the verifier leaves alone\<close>

lemma readBody_same:
  "readBody r = (x, r') \<Longrightarrow>
     Method r' = Method r \<and> Path r' = Path r \<and> Header r' = Header r \<and> ctxDone r' = ctxDone r"
  by (auto simp: readBody_cases split: sum.splits if_splits)

lemma verify_cases:
  assumes "verify v r w = (e, r', w')"
  shows "(r', w') = (r, w) \<or> w' = snd (Now w) \<and> (r' = r \<or> (\<exists>x. readBody r = (x, r')))"
  using assms
  by (auto simp: verify_def Let_def split: if_splits option.splits prod.splits sum.splits)

lemma verify_later: "verify v r w = (e, r', w') \<Longrightarrow> later w w'"
  using verify_cases [of v r w e r' w'] later_Now [of w] by auto

lemma verify_same_request:
  "verify v r w = (e, r', w') \<Longrightarrow>
     Method r' = Method r \<and> Path r' = Path r \<and> Header r' = Header r \<and> ctxDone r' = ctxDone r"
  using verify_cases [of v r w e r' w'] readBody_same [of r _ r'] by auto

text \<open>A handler behind the middleware can still read the whole body that was authenticated.\<close>

lemma readBody_kept: "readBody r = (x, r') \<Longrightarrow> body_bytes r' = body_bytes r"
  by (cases "rBody r") (auto simp: readBody_def body_bytes_def split: sum.splits)

lemma verify_keeps_body: "verify v r w = (e, r', w') \<Longrightarrow> body_bytes r' = body_bytes r"
  using verify_cases [of v r w e r' w'] readBody_kept [of r _ r'] by auto

section \<open>The boundary between timestamp and body\<close>

text \<open>
  The HMAC covers the timestamp text followed by the body with nothing in between. Extending a
  timestamp by further digits multiplies it by at least ten.
\<close>

lemma digits_val_ge: "10 ^ length t * acc \<le> digits_val acc t"
  by (induction acc t rule: digits_val.induct) (auto simp: algebra_simps intro: order_trans [rotated])

lemma parse_unsigned_extend:
  assumes "parse_unsigned u = Some n" and "parse_unsigned (u @ t) = Some m"
  shows "10 ^ length t * n \<le> m"
  using assms digits_val_ge [of t "digits_val 0 u"]
  by (auto simp: parse_unsigned_def digits_val_append split: if_splits)

lemma ParseInt_extend:
  assumes "ParseInt u = Some n" and "ParseInt (u @ t) = Some m" and "0 < n" and "t \<noteq> []"
  shows "10 * n \<le> m"
proof -
  have "(10::nat) \<le> 10 ^ length t" using assms(4) by (cases t) auto
  then have ten: "10 * int k \<le> int l" if "10 ^ length t * k \<le> l" for k l
    using that by (metis mult_le_mono1 of_nat_le_iff of_nat_mult of_nat_numeral order_trans)
  obtain c v where u: "u = c # v" using assms(1) by (cases u) (auto simp: ParseInt_def parse_signed_def)
  show ?thesis
    using assms(1-3) ten parse_unsigned_extend [of v _ t] parse_unsigned_extend [of "c # v" _ t]
    by (auto simp: ParseInt_def parse_signed_def u split: if_splits option.splits)
qed

lemma fresh_extension:
  assumes "ParseInt u = Some n" and "ParseInt (u @ t) = Some m"
    and "\<bar>now - n * Second\<bar> \<le> skew" and "\<bar>now - m * Second\<bar> \<le> skew"
    and "11 * skew < 9 * now"
  shows "t = []"
proof (rule ccontr)
  assume t: "t \<noteq> []"
  have "0 \<le> skew" using assms(3) by linarith
  then have "0 < n * Second" using assms(3,5) by linarith
  then have "0 < n" by (simp add: Second_def)
  then have "10 * (n * Second) \<le> m * Second"
    using ParseInt_extend [OF assms(1,2) _ t] by (simp add: Second_def)
  with assms(3-5) show False by linarith
qed

text \<open>
  (C2) The verifier accepts exactly the authentic requests: a decimal Unix timestamp within
  \<open>MaxSkew\<close> of the clock on either side, a readable body, and a signature header that is the
  lower-case hexadecimal HMAC-SHA256, under the secret, of the timestamp text followed by the body.
  The comparison is exact for all 64-bit timestamps, including those for which \<open>time.Unix\<close>
  overflows.
\<close>

theorem verify_iff_authentic:
  assumes "Secret v \<noteq> []" and "in_i64 (verifier_now v w)"
    and "0 \<le> MaxSkew v" and "MaxSkew v < max_i64"
  shows "fst (verify v r w) = None \<longleftrightarrow> authentic v r (verifier_now v w)"
  using assms by (rule verify_accepts_iff)


text \<open>A signed request, for the examples: signed at second 1700000000, read at the same time.\<close>

definition sample_verifier :: verifier where
  "sample_verifier =
     \<lparr>Secret = ''k'', MaxSkew = 60 * Second, NowFn = Some (1700000000 * Second), BodyCopy = False,
      SignatureHeader = [], TimestampHeader = []\<rparr>"

definition sample_signed :: request where
  "sample_signed =
     \<lparr>Method = ''POST'', Path = ''/'',
      Header = Header_Set (Header_Set (\<lambda>_. []) ''X-Request-Timestamp'' ''1700000000'')
        ''X-Request-Signature'' (computeSignature ''k'' ''1700000000'' ''{}''),
      rBody = Body ''{}'' None, ctxDone = (\<lambda>_. None)\<rparr>"

lemma sample_header_keys:
  "CanonicalHeaderKey ''X-Request-Signature'' \<noteq> CanonicalHeaderKey ''X-Request-Timestamp''"
  by code_simp

lemma sample_parse: "ParseInt ''1700000000'' = Some 1700000000"
  by (simp add: ParseInt_def parse_signed_def parse_unsigned_def is_digit_def digit_val_def in_i64_def)

lemma sample_authentic: "authentic sample_verifier sample_signed (1700000000 * Second)"
  by (simp add: authentic_def sample_verifier_def sample_signed_def ts_header_def sig_header_def
      defaultSignatureHeader_def defaultTimestampHeader_def Header_Get_Set_other sample_header_keys
      sample_parse body_bytes_def Second_def computeSignature_concat)

definition sample_platform :: platform where
  "sample_platform =
     \<lparr>clk = (\<lambda>n. 1700000000 * Second), ticks = 0, files = [], dirs = [''/'', ''.'', ''..'', ''../dlq''], faults = [], timers = []\<rparr>"

theorem verify_iff_authentic_witness:
  "fst (verify sample_verifier sample_signed sample_platform) = None"
  using verify_iff_authentic [of sample_verifier sample_platform sample_signed] sample_authentic
  by (simp add: sample_verifier_def verifier_now_def in_i64_def Second_def)


end
