(* ===== verification/Idempotency.thy ===== *)
theory Idempotency
  imports Platform
begin

text \<open>
  Model of \<open>api/internal/idempotency\<close>: the stored record, the \<open>Store\<close> interface, and its
  in-memory and PostgreSQL implementations. The locale \<open>idempotency_store\<close> states what the
  server relies on.
\<close>

section \<open>Records and the store interface\<close>

record Record =
  StatusCode :: int
  Response :: string
  CreatedAt :: time
  ExpiresAt :: time

text \<open>
  A value of the Go interface \<open>Store\<close> is the record of its methods, each taking and returning the
  state of the implementation. \<open>Get\<close> returns \<open>(*Record, error)\<close>: \<open>Inr None\<close> is
  \<open>(nil, nil)\<close>. \<open>store_Ping\<close> is present when the implementation also has a \<open>Ping\<close>
  method.
\<close>

record 's Store =
  store_Get :: "'s \<Rightarrow> platform \<Rightarrow> string \<Rightarrow> Record option res \<times> 's \<times> platform"
  store_Save :: "'s \<Rightarrow> platform \<Rightarrow> string \<Rightarrow> Record \<Rightarrow> error option \<times> 's \<times> platform"
  store_Ping :: "('s \<Rightarrow> error option) option"

definition expired :: "platform \<Rightarrow> Record \<Rightarrow> bool" where
  "expired w r \<longleftrightarrow> time_After (clk w (ticks w)) (ExpiresAt r)"

section \<open>MemoryStore\<close>

record MemoryStore =
  mem_data :: "string \<rightharpoonup> Record"

definition NewMemoryStore :: MemoryStore where
  "NewMemoryStore = \<lparr>mem_data = Map.empty\<rparr>"

definition memory_Get ::
  "MemoryStore \<Rightarrow> platform \<Rightarrow> string \<Rightarrow> Record option res \<times> MemoryStore \<times> platform"
where
  "memory_Get m w key =
     (case mem_data m key of
        None \<Rightarrow> (Inr None, m, w)
      | Some rec \<Rightarrow>
          let (now, w) = Now w
          in if time_After now (ExpiresAt rec) then (Inr None, m, w) else (Inr (Some rec), m, w))"

definition memory_Save ::
  "MemoryStore \<Rightarrow> platform \<Rightarrow> string \<Rightarrow> Record \<Rightarrow> error option \<times> MemoryStore \<times> platform"
where
  "memory_Save m w key record = (None, m\<lparr>mem_data := (mem_data m)(key \<mapsto> record)\<rparr>, w)"

definition memory_store :: "MemoryStore Store" where
  "memory_store = \<lparr>store_Get = memory_Get, store_Save = memory_Save, store_Ping = None\<rparr>"

section \<open>PostgresStore\<close>

text \<open>
  The connection pool is \<open>pgxpool.Pool\<close>, a third-party package: a parameter. A pool executes the
  statements of the store; \<open>pool_QueryRow\<close> is the SELECT together with \<open>row.Scan\<close>.
\<close>

datatype sql =
    CreateTable
  | Upsert string Record
  | DeleteKey string

record 'db Pool =
  pool_New :: "string \<Rightarrow> 'db res"
  pool_Ping :: "'db \<Rightarrow> error option"
  pool_Exec :: "'db \<Rightarrow> sql \<Rightarrow> error option \<times> 'db"
  pool_QueryRow :: "'db \<Rightarrow> string \<Rightarrow> Record res"
  pool_Close :: "'db \<Rightarrow> 'db"

text \<open>
  \<open>pending\<close> holds the keys of the \<open>deleteKey\<close> goroutines that have been started and have not
  run yet.
\<close>

record 'db PostgresStore =
  pool :: 'db
  pending :: "string list"

definition NewPostgresStore :: "'db Pool \<Rightarrow> string \<Rightarrow> 'db PostgresStore res" where
  "NewPostgresStore P dsn =
     (if dsn = [] then Inl (ErrNew ''postgres dsn is empty'')
      else
        (case pool_New P dsn of
           Inl err \<Rightarrow> Inl err
         | Inr db \<Rightarrow>
             (case pool_Ping P db of
                Some err \<Rightarrow> Inl err
              | None \<Rightarrow>
                  (case pool_Exec P db CreateTable of
                     (Some err, db) \<Rightarrow> Inl err
                   | (None, db) \<Rightarrow> Inr \<lparr>pool = db, pending = []\<rparr>))))"

definition postgres_Close :: "'db Pool \<Rightarrow> 'db PostgresStore \<Rightarrow> 'db PostgresStore" where
  "postgres_Close P p = p\<lparr>pool := pool_Close P (pool p)\<rparr>"

definition postgres_Ping :: "'db Pool \<Rightarrow> 'db PostgresStore \<Rightarrow> error option" where
  "postgres_Ping P p = pool_Ping P (pool p)"

definition postgres_Get ::
  "'db Pool \<Rightarrow> 'db PostgresStore \<Rightarrow> platform \<Rightarrow> string \<Rightarrow>
   Record option res \<times> 'db PostgresStore \<times> platform"
where
  "postgres_Get P p w key =
     (case pool_QueryRow P (pool p) key of
        Inl err \<Rightarrow> if is_no_rows err then (Inr None, p, w) else (Inl err, p, w)
      | Inr rec \<Rightarrow>
          let (now, w) = Now w
          in if time_After now (ExpiresAt rec)
             then (Inr None, p\<lparr>pending := key # pending p\<rparr>, w)
             else (Inr (Some rec), p, w))"

definition postgres_Save ::
  "'db Pool \<Rightarrow> 'db PostgresStore \<Rightarrow> platform \<Rightarrow> string \<Rightarrow> Record \<Rightarrow>
   error option \<times> 'db PostgresStore \<times> platform"
where
  "postgres_Save P p w key record =
     (case pool_Exec P (pool p) (Upsert key record) of
        (err, db) \<Rightarrow> (err, p\<lparr>pool := db\<rparr>, w))"

text \<open>One of the started goroutines runs: the \<open>i\<close>-th pending \<open>deleteKey\<close>.\<close>

definition postgres_deleteKey :: "'db Pool \<Rightarrow> nat \<Rightarrow> 'db PostgresStore \<Rightarrow> 'db PostgresStore" where
  "postgres_deleteKey P i p =
     (if i < length (pending p)
      then p\<lparr>pool := snd (pool_Exec P (pool p) (DeleteKey (pending p ! i))),
             pending := take i (pending p) @ drop (Suc i) (pending p)\<rparr>
      else p)"

definition postgres_store :: "'db Pool \<Rightarrow> 'db PostgresStore Store" where
  "postgres_store P =
     \<lparr>store_Get = postgres_Get P, store_Save = postgres_Save P, store_Ping = Some (postgres_Ping P)\<rparr>"

section \<open>The contract of a store\<close>

text \<open>
  \<open>contents\<close> is the map a store holds, \<open>up\<close> says that its backend answers, and \<open>stored\<close> is
  the form in which a record is kept: PostgreSQL keeps times to the microsecond.
\<close>

locale idempotency_store =
  fixes get :: "'s \<Rightarrow> platform \<Rightarrow> string \<Rightarrow> Record option res \<times> 's \<times> platform"
    and save :: "'s \<Rightarrow> platform \<Rightarrow> string \<Rightarrow> Record \<Rightarrow> error option \<times> 's \<times> platform"
    and contents :: "'s \<Rightarrow> string \<Rightarrow> Record option"
    and up :: "'s \<Rightarrow> bool"
    and stored :: "Record \<Rightarrow> Record"
  assumes get_live:
      "up s \<Longrightarrow> contents s k = Some r \<Longrightarrow> \<not> expired w r \<Longrightarrow> get s w k = (a, s', w') \<Longrightarrow>
       a = Inr (Some r) \<and> contents s' = contents s"
    and get_dead:
      "up s \<Longrightarrow> contents s k = None \<or> (\<exists>r. contents s k = Some r \<and> expired w r) \<Longrightarrow>
       get s w k = (a, s', w') \<Longrightarrow> a = Inr None \<and> (\<forall>k'. k' \<noteq> k \<longrightarrow> contents s' k' = contents s k')"
    and get_up: "up s \<Longrightarrow> get s w k = (a, s', w') \<Longrightarrow> up s'"
    and save_stores:
      "up s \<Longrightarrow> save s w k r = (e, s', w') \<Longrightarrow> contents s' = (contents s)(k \<mapsto> stored r)"
    and save_up: "up s \<Longrightarrow> save s w k r = (e, s', w') \<Longrightarrow> up s'"
    and get_later: "get s w k = (a, s', w') \<Longrightarrow> later w w'"
    and save_later: "save s w k r = (e, s', w') \<Longrightarrow> later w w'"
    and stored_answer [simp]: "StatusCode (stored r) = StatusCode r" "Response (stored r) = Response r"
    and stored_expiry: "ExpiresAt r - 1000 < ExpiresAt (stored r)" "ExpiresAt (stored r) \<le> ExpiresAt r"
begin

text \<open>An abstract store: a map in which a lookup sees exactly the records that have not expired.\<close>

definition lookup :: "'s \<Rightarrow> platform \<Rightarrow> string \<Rightarrow> Record option" where
  "lookup s w k = (case contents s k of None \<Rightarrow> None | Some r \<Rightarrow> if expired w r then None else Some r)"

lemma get_refines:
  assumes "up s"
  shows "fst (get s w k) = Inr (lookup s w k)"
proof (cases "get s w k")
  case (fields a s' w')
  with get_live [OF assms _ _ fields] get_dead [OF assms _ fields] show ?thesis
    by (cases "contents s k") (auto simp: lookup_def)
qed

lemma get_frame:
  assumes "up s" and "get s w k = (a, s', w')" and "k' \<noteq> k \<or> lookup s w k \<noteq> None"
  shows "contents s' k' = contents s k'"
proof (cases "lookup s w k")
  case None
  then have "contents s k = None \<or> (\<exists>r. contents s k = Some r \<and> expired w r)"
    by (auto simp: lookup_def split: option.splits if_splits)
  with get_dead [OF assms(1) _ assms(2)] assms(3) None show ?thesis by simp
next
  case (Some r)
  then have "contents s k = Some r" "\<not> expired w r"
    by (auto simp: lookup_def split: option.splits if_splits)
  with get_live [OF assms(1) _ _ assms(2)] show ?thesis by simp
qed

lemma get_after_save:
  assumes "up s" and "save s w k r = (e, s', w')" and "\<not> expired v (stored r)"
  shows "fst (get s' v k) = Inr (Some (stored r))"
  using assms save_up [OF assms(1,2)] save_stores [OF assms(1,2)]
  by (simp add: get_refines lookup_def)

end

interpretation memory: idempotency_store memory_Get memory_Save mem_data "\<lambda>_. True" id
  by unfold_locales (auto simp: memory_Get_def memory_Save_def expired_def Now_def later_def
      split: if_splits option.splits)

section \<open>The contract of the connection pool\<close>

text \<open>
  What the store relies on in PostgreSQL and \<open>pgx\<close>, while the database answers: the SELECT returns
  the row or \<open>pgx.ErrNoRows\<close>; the upsert and the DELETE are atomic and touch one key; times are
  kept to the microsecond. \<open>rows\<close> is the table \<open>idempotency_records\<close>.
\<close>

definition pg_time :: "time \<Rightarrow> time" where
  "pg_time t = t div 1000 * 1000"

definition pg_record :: "Record \<Rightarrow> Record" where
  "pg_record r = r\<lparr>CreatedAt := pg_time (CreatedAt r), ExpiresAt := pg_time (ExpiresAt r)\<rparr>"

lemma pg_time_bounds: "t - 1000 < pg_time t" "pg_time t \<le> t"
  by (simp_all add: pg_time_def)

locale pg_pool =
  fixes P :: "'db Pool"
    and rows :: "'db \<Rightarrow> string \<Rightarrow> Record option"
    and alive :: "'db \<Rightarrow> bool"
  assumes query_row: "alive db \<Longrightarrow> rows db k = Some r \<Longrightarrow> pool_QueryRow P db k = Inr r"
    and query_none: "alive db \<Longrightarrow> rows db k = None \<Longrightarrow> \<exists>e. pool_QueryRow P db k = Inl e \<and> is_no_rows e"
    and exec_upsert: "alive db \<Longrightarrow> pool_Exec P db (Upsert k r) = (e, db') \<Longrightarrow>
       e = None \<and> alive db' \<and> rows db' = (rows db)(k \<mapsto> pg_record r)"
    and exec_delete: "alive db \<Longrightarrow> pool_Exec P db (DeleteKey k) = (e, db') \<Longrightarrow>
       e = None \<and> alive db' \<and> rows db' = (rows db)(k := None)"
    and exec_create: "alive db \<Longrightarrow> pool_Exec P db CreateTable = (e, db') \<Longrightarrow>
       e = None \<and> alive db' \<and> rows db' = rows db"
    and ping_alive: "alive db \<Longrightarrow> pool_Ping P db = None"
begin

lemma postgres_Get_cases:
  assumes "alive (pool p)"
  shows "postgres_Get P p w k =
     (case rows (pool p) k of
        None \<Rightarrow> (Inr None, p, w)
      | Some r \<Rightarrow>
          if expired w r then (Inr None, p\<lparr>pending := k # pending p\<rparr>, snd (Now w))
          else (Inr (Some r), p, snd (Now w)))"
proof (cases "rows (pool p) k")
  case None
  then obtain e where "pool_QueryRow P (pool p) k = Inl e" "is_no_rows e"
    using query_none [OF assms] by blast
  with None show ?thesis by (simp add: postgres_Get_def)
next
  case (Some r)
  then show ?thesis
    using query_row [OF assms] by (simp add: postgres_Get_def expired_def Now_def)
qed

lemma postgres_Save_rows:
  assumes "alive (pool p)" and "postgres_Save P p w k r = (e, p', w')"
  shows "e = None \<and> alive (pool p') \<and> rows (pool p') = (rows (pool p))(k \<mapsto> pg_record r)
         \<and> pending p' = pending p \<and> w' = w"
  using assms exec_upsert [OF assms(1)] by (auto simp: postgres_Save_def split: prod.splits)

text \<open>A delayed delete removes whatever the key holds when it runs.\<close>

lemma postgres_deleteKey_rows:
  assumes "alive (pool p)" and "i < length (pending p)"
  shows "rows (pool (postgres_deleteKey P i p)) = (rows (pool p))(pending p ! i := None)"
  using assms exec_delete [OF assms(1), of "pending p ! i"]
  by (cases "pool_Exec P (pool p) (DeleteKey (pending p ! i))") (auto simp: postgres_deleteKey_def)

end

sublocale pg_pool \<subseteq> pg: idempotency_store "postgres_Get P" "postgres_Save P"
  "\<lambda>p. rows (pool p)" "\<lambda>p. alive (pool p)" pg_record
proof unfold_locales
  fix s s' k k' w w' a r
  assume "alive (pool s)" "rows (pool s) k = Some r" "\<not> expired w r" "postgres_Get P s w k = (a, s', w')"
  then show "a = Inr (Some r) \<and> rows (pool s') = rows (pool s)"
    by (auto simp: postgres_Get_cases)
next
  fix s s' k w w' a
  assume "alive (pool s)" "rows (pool s) k = None \<or> (\<exists>r. rows (pool s) k = Some r \<and> expired w r)"
    "postgres_Get P s w k = (a, s', w')"
  then show "a = Inr None \<and> (\<forall>k'. k' \<noteq> k \<longrightarrow> rows (pool s') k' = rows (pool s) k')"
    by (auto simp: postgres_Get_cases)
next
  fix s s' k w w' a
  assume "alive (pool s)" "postgres_Get P s w k = (a, s', w')"
  then show "alive (pool s')"
    by (auto simp: postgres_Get_cases split: option.splits if_splits)
next
  fix s s' k w w' a
  assume "postgres_Get P s w k = (a, s', w')"
  then show "later w w'"
    by (auto simp: postgres_Get_def later_def Now_def Let_def split: sum.splits if_splits)
next
  fix s s' k w w' r e
  assume "postgres_Save P s w k r = (e, s', w')"
  then show "later w w'"
    by (auto simp: postgres_Save_def split: prod.splits)
qed (use postgres_Save_rows in \<open>auto simp: pg_record_def pg_time_bounds\<close>)

text \<open>A table that answers every statement is such a pool.\<close>

type_synonym pg_table = "string \<rightharpoonup> Record"

fun table_exec :: "pg_table \<Rightarrow> sql \<Rightarrow> error option \<times> pg_table" where
  "table_exec t CreateTable = (None, t)"
| "table_exec t (Upsert k r) = (None, t(k \<mapsto> pg_record r))"
| "table_exec t (DeleteKey k) = (None, t(k := None))"

definition table_pool :: "pg_table Pool" where
  "table_pool =
     \<lparr>pool_New = (\<lambda>dsn. Inr Map.empty), pool_Ping = (\<lambda>t. None), pool_Exec = table_exec,
      pool_QueryRow = (\<lambda>t k. case t k of None \<Rightarrow> Inl ErrNoRows | Some r \<Rightarrow> Inr r),
      pool_Close = (\<lambda>t. t)\<rparr>"

interpretation table: pg_pool table_pool "\<lambda>t. t" "\<lambda>t. True"
  by unfold_locales (auto simp: table_pool_def)

section \<open>Lookups after a save\<close>

text \<open>
  (C27) The in-memory store is a map with expiry: after a save, the key holds exactly the saved record
  until its expiry has passed, and every other key is as before.
\<close>

theorem memory_get_after_save:
  "fst (memory_Get (fst (snd (memory_Save m w k r))) v k') =
     (if k' = k then (if expired v r then Inr None else Inr (Some r)) else fst (memory_Get m v k'))"
  using memory.get_refines [of "fst (snd (memory_Save m w k r))" v k'] memory.get_refines [of m v k']
  by (auto simp: memory.lookup_def memory_Save_def)



end
