(* ===== verification/Escrow.thy ===== *)
theory Escrow
  imports Platform Hash
begin

text \<open>
  Model of \<open>api/internal/escrow\<close>: the \<open>Client\<close> interface, the deterministic
  \<open>FakeClient\<close>, and \<open>EthClient\<close>, which submits transactions to the MintEscrow contract
  through go-ethereum.
\<close>

section \<open>The client interface\<close>

record SubmitIntentRequest =
  sr_UserAddress :: string
  sr_Amount :: string
  sr_CountryCode :: string
  sr_TxRef :: string

record SubmitIntentResponse =
  sres_IntentID :: string
  sres_TxHash :: string

record ExecuteMintResponse =
  eres_TxHash :: string

text \<open>
  A value of the Go interface: its methods over the state behind it (for \<open>EthClient\<close>, the chain).
  \<open>client_Ping\<close> is present when the implementation is also a \<open>HealthChecker\<close>.
\<close>

record 'c Client =
  client_SubmitIntent :: "'c \<Rightarrow> SubmitIntentRequest \<Rightarrow> SubmitIntentResponse res \<times> 'c"
  client_ExecuteMint :: "'c \<Rightarrow> string \<Rightarrow> ExecuteMintResponse res \<times> 'c"
  client_Ping :: "('c \<Rightarrow> error option \<times> 'c) option"

section \<open>FakeClient\<close>

definition fakeHash :: "string \<Rightarrow> string" where
  "fakeHash input = ''0x'' @ EncodeToString (Sum256 input)"

definition fake_SubmitIntent :: "unit \<Rightarrow> SubmitIntentRequest \<Rightarrow> SubmitIntentResponse res \<times> unit" where
  "fake_SubmitIntent c req =
     (if sr_UserAddress req = [] then (Inl (ErrNew ''missing user address''), c)
      else
        let hash = Sum256 (sr_UserAddress req @ sr_Amount req @ sr_CountryCode req @ sr_TxRef req)
        in (Inr \<lparr>sres_IntentID = ''0x'' @ EncodeToString hash, sres_TxHash = []\<rparr>, c))"

definition fake_ExecuteMint :: "unit \<Rightarrow> string \<Rightarrow> ExecuteMintResponse res \<times> unit" where
  "fake_ExecuteMint c intentID = (Inr \<lparr>eres_TxHash = fakeHash intentID\<rparr>, c)"

definition fake_Ping :: "unit \<Rightarrow> error option \<times> unit" where
  "fake_Ping c = (None, c)"

definition FakeClient :: "unit Client" where
  "FakeClient =
     \<lparr>client_SubmitIntent = fake_SubmitIntent, client_ExecuteMint = fake_ExecuteMint,
      client_Ping = Some fake_Ping\<rparr>"

section \<open>go-ethereum\<close>

text \<open>
  The functions of go-ethereum the client calls, a parameter: \<open>'e\<close> is the node connection
  together with the chain behind it. \<open>geth_Transact\<close> is \<open>BoundContract.Transact\<close> followed by
  \<open>tx.Hash().Hex()\<close>; byte arrays are byte strings.
\<close>

datatype txcall =
    CallSubmitIntent int string string
  | CallExecuteMint string

record 'e Geth =
  geth_Dial :: "string \<Rightarrow> 'e res"
  geth_ParseABI :: "string \<Rightarrow> error option"
  geth_HexToAddress :: "string \<Rightarrow> string"
  geth_IsHexAddress :: "string \<Rightarrow> bool"
  geth_HexToHash :: "string \<Rightarrow> string"
  geth_HexToECDSA :: "string \<Rightarrow> string res"
  geth_ChainID :: "'e \<Rightarrow> int res"
  geth_NewTransactor :: "string \<Rightarrow> int \<Rightarrow> error option"
  geth_Transact :: "'e \<Rightarrow> string \<Rightarrow> txcall \<Rightarrow> string res \<times> 'e"
  geth_BlockNumber :: "'e \<Rightarrow> error option"
  geth_Keccak256Hash :: "string list \<Rightarrow> string"
  geth_LeftPadBytes :: "string \<Rightarrow> nat \<Rightarrow> string"
  geth_HashHex :: "string \<Rightarrow> string"

section \<open>EthClient\<close>

text \<open>
  \<open>eth_chain\<close> is the connection that the bound contract and the RPC client share;
  \<open>eth_client_nil\<close> and \<open>eth_transacts_nil\<close> say whether the pointers are nil, and
  \<open>eth_key\<close> is the signing key inside the transactor.
\<close>

record 'e EthClient =
  eth_chain :: 'e
  eth_client_nil :: bool
  eth_address :: string
  eth_chainID :: int
  eth_transacts_nil :: bool
  eth_key :: string

record EthClientConfig =
  RPCURL :: string
  PrivateKeyHex :: string
  ContractMintEscrow :: string

definition parsePrivateKey :: "'e Geth \<Rightarrow> string \<Rightarrow> string res" where
  "parsePrivateKey G hexKey =
     (case geth_HexToECDSA G (TrimPrefix hexKey ''0x'') of
        Inl err \<Rightarrow> Inl (ErrWrap ''parse private key: '' err)
      | Inr key \<Rightarrow> Inr key)"

definition NewEthClient :: "'e Geth \<Rightarrow> string \<Rightarrow> EthClientConfig \<Rightarrow> 'e EthClient res" where
  "NewEthClient G abi cfg =
     (if RPCURL cfg = [] then Inl (ErrNew ''rpc url is required'')
      else if ContractMintEscrow cfg = [] then Inl (ErrNew ''mint escrow address is required'')
      else
        (case geth_Dial G (RPCURL cfg) of
           Inl err \<Rightarrow> Inl (ErrWrap ''dial rpc: '' err)
         | Inr cli \<Rightarrow>
             (case geth_ParseABI G abi of
                Some err \<Rightarrow> Inl (ErrWrap ''parse abi: '' err)
              | None \<Rightarrow>
                  let address = geth_HexToAddress G (ContractMintEscrow cfg)
                  in if PrivateKeyHex cfg \<noteq> [] then
                       (case parsePrivateKey G (PrivateKeyHex cfg) of
                          Inl err \<Rightarrow> Inl err
                        | Inr pk \<Rightarrow>
                            (case geth_ChainID G cli of
                               Inl err \<Rightarrow> Inl (ErrWrap ''fetch chain id: '' err)
                             | Inr chainID \<Rightarrow>
                                 (case geth_NewTransactor G pk chainID of
                                    Some err \<Rightarrow> Inl (ErrWrap ''transactor: '' err)
                                  | None \<Rightarrow>
                                      Inr \<lparr>eth_chain = cli, eth_client_nil = False, eth_address = address,
                                        eth_chainID = chainID, eth_transacts_nil = False, eth_key = pk\<rparr>)))
                     else Inl (ErrNew ''private key is required for submitting intents''))))"

definition validateSubmitRequest :: "'e Geth \<Rightarrow> SubmitIntentRequest \<Rightarrow> error option" where
  "validateSubmitRequest G req =
     (if \<not> geth_IsHexAddress G (sr_UserAddress req) then Some (ErrNew ''invalid user address'')
      else if TrimSpace (sr_Amount req) = [] then Some (ErrNew ''amount required'')
      else if TrimSpace (sr_CountryCode req) = [] then Some (ErrNew ''country code required'')
      else if TrimSpace (sr_TxRef req) = [] then Some (ErrNew ''txRef required'')
      else None)"

text \<open>\<open>copy\<close> into a zeroed \<open>[32]byte\<close>.\<close>

definition toBytes32 :: "string \<Rightarrow> string" where
  "toBytes32 s = take 32 s @ replicate (32 - length s) (char_of (0::nat))"

text \<open>\<open>big.Int.Bytes\<close>: the absolute value, big endian, with no leading zero byte.\<close>

fun nat_bytes :: "nat \<Rightarrow> string" where
  "nat_bytes n = (if n = 0 then [] else nat_bytes (n div 256) @ [char_of (n mod 256)])"

declare nat_bytes.simps [simp del]

definition big_Bytes :: "int \<Rightarrow> string" where
  "big_Bytes n = nat_bytes (nat \<bar>n\<bar>)"

definition computeIntentID :: "'e Geth \<Rightarrow> SubmitIntentRequest \<Rightarrow> string res" where
  "computeIntentID G req =
     (case SetString (sr_Amount req) of
        None \<Rightarrow> Inl (ErrNew (''invalid amount '' @ sr_Amount req))
      | Some amount \<Rightarrow>
          let country = toBytes32 (sr_CountryCode req);
              txRef = toBytes32 (sr_TxRef req)
          in Inr (geth_HashHex G (geth_Keccak256Hash G
               [geth_HexToAddress G (sr_UserAddress req),
                geth_LeftPadBytes G (big_Bytes amount) 32,
                country, txRef])))"

definition eth_SubmitIntent ::
  "'e Geth \<Rightarrow> 'e EthClient \<Rightarrow> SubmitIntentRequest \<Rightarrow> SubmitIntentResponse res \<times> 'e EthClient"
where
  "eth_SubmitIntent G c req =
     (if eth_transacts_nil c then (Inl (ErrNew ''client is read-only''), c)
      else
        (case validateSubmitRequest G req of
           Some err \<Rightarrow> (Inl err, c)
         | None \<Rightarrow>
             (case SetString (sr_Amount req) of
                None \<Rightarrow> (Inl (ErrNew (''invalid amount: '' @ sr_Amount req)), c)
              | Some amount \<Rightarrow>
                  let countryCodeBytes = toBytes32 (sr_CountryCode req);
                      txRefBytes = toBytes32 (sr_TxRef req)
                  in (case geth_Transact G (eth_chain c) (eth_key c)
                            (CallSubmitIntent amount countryCodeBytes txRefBytes) of
                        (Inl err, ch) \<Rightarrow>
                          (Inl (ErrWrap ''submit intent tx: '' err), c\<lparr>eth_chain := ch\<rparr>)
                      | (Inr tx, ch) \<Rightarrow>
                          (case computeIntentID G req of
                             Inl err \<Rightarrow> (Inl err, c\<lparr>eth_chain := ch\<rparr>)
                           | Inr intentID \<Rightarrow>
                               (Inr \<lparr>sres_IntentID = intentID, sres_TxHash = tx\<rparr>, c\<lparr>eth_chain := ch\<rparr>))))))"

definition eth_ExecuteMint ::
  "'e Geth \<Rightarrow> 'e EthClient \<Rightarrow> string \<Rightarrow> ExecuteMintResponse res \<times> 'e EthClient"
where
  "eth_ExecuteMint G c intentID =
     (if eth_transacts_nil c then (Inl (ErrNew ''client is read-only''), c)
      else if length intentID \<noteq> 66 \<or> \<not> HasPrefix intentID ''0x''
      then (Inl (ErrNew ''invalid intent id''), c)
      else
        let hash = geth_HexToHash G intentID
        in (case geth_Transact G (eth_chain c) (eth_key c) (CallExecuteMint hash) of
              (Inl err, ch) \<Rightarrow> (Inl (ErrWrap ''execute mint tx: '' err), c\<lparr>eth_chain := ch\<rparr>)
            | (Inr tx, ch) \<Rightarrow> (Inr \<lparr>eres_TxHash = tx\<rparr>, c\<lparr>eth_chain := ch\<rparr>)))"

definition eth_Ping :: "'e Geth \<Rightarrow> 'e EthClient \<Rightarrow> error option \<times> 'e EthClient" where
  "eth_Ping G c =
     (if eth_client_nil c then (Some (ErrNew ''rpc client not configured''), c)
      else (geth_BlockNumber G (eth_chain c), c))"

definition eth_client :: "'e Geth \<Rightarrow> 'e EthClient Client" where
  "eth_client G =
     \<lparr>client_SubmitIntent = eth_SubmitIntent G, client_ExecuteMint = eth_ExecuteMint G,
      client_Ping = Some (eth_Ping G)\<rparr>"

text \<open>
  \<open>WaitForReceipt\<close> polls every two seconds until the node has a receipt, the node fails with
  anything but \<open>not found\<close>, or the context is done. \<open>receipt i\<close> is the node's answer to the
  \<open>i\<close>-th poll (receipt and error), \<open>done i\<close> what the wait after it observes. The loop need not
  end.
\<close>

partial_function (option) wait_for_receipt ::
  "(nat \<Rightarrow> 'r option \<times> error option) \<Rightarrow> (nat \<Rightarrow> error option) \<Rightarrow> nat \<Rightarrow> 'r res option"
where
  "wait_for_receipt receipt ctx i =
     (case fst (receipt i) of
        Some rc \<Rightarrow> Some (Inr rc)
      | None \<Rightarrow>
          (case snd (receipt i) of
             Some err \<Rightarrow>
               if Error err \<noteq> ''not found'' then Some (Inl err)
               else (case ctx i of
                       Some e \<Rightarrow> Some (Inl e)
                     | None \<Rightarrow> wait_for_receipt receipt ctx (Suc i))
           | None \<Rightarrow>
               (case ctx i of
                  Some e \<Rightarrow> Some (Inl e)
                | None \<Rightarrow> wait_for_receipt receipt ctx (Suc i))))"

definition WaitForReceipt ::
  "(nat \<Rightarrow> 'r option \<times> error option) \<Rightarrow> (nat \<Rightarrow> error option) \<Rightarrow> 'r res option"
where
  "WaitForReceipt receipt ctx = wait_for_receipt receipt ctx 0"

section \<open>Byte encodings\<close>

lemma length_toBytes32 [simp]: "length (toBytes32 s) = 32"
  by (simp add: toBytes32_def)

lemma toBytes32_take: "toBytes32 (take 32 s) = toBytes32 s"
  by (cases "length s \<le> 32") (simp_all add: toBytes32_def)

text \<open>Texts of at most 32 bytes without a zero byte are recovered from their encoding.\<close>

definition short_text :: "string \<Rightarrow> bool" where
  "short_text s \<longleftrightarrow> length s \<le> 32 \<and> char_of (0::nat) \<notin> set s"

lemma toBytes32_decode: "short_text s \<Longrightarrow> takeWhile (\<lambda>c. c \<noteq> char_of (0::nat)) (toBytes32 s) = s"
  by (auto simp: short_text_def toBytes32_def takeWhile_append)

lemma toBytes32_inj: "short_text s \<Longrightarrow> short_text t \<Longrightarrow> toBytes32 s = toBytes32 t \<longleftrightarrow> s = t"
  by (metis toBytes32_decode)

text \<open>The value of a big-endian byte string; \<open>nat_bytes\<close> writes it, padding does not change it.\<close>

definition bytes_val :: "string \<Rightarrow> nat" where
  "bytes_val = foldl (\<lambda>a c. 256 * a + of_char c) 0"

lemma nat_bytes_0 [simp]: "nat_bytes 0 = []"
  by (simp add: nat_bytes.simps)

lemma bytes_val_Nil [simp]: "bytes_val [] = 0"
  by (simp add: bytes_val_def)

lemma bytes_val_snoc [simp]: "bytes_val (s @ [c]) = 256 * bytes_val s + of_char c"
  by (simp add: bytes_val_def)

lemma bytes_val_nat_bytes [simp]: "bytes_val (nat_bytes n) = n"
proof (induction n rule: nat_bytes.induct)
  case (1 n)
  then show ?case
    by (cases "n = 0") (simp_all add: nat_bytes.simps [of n])
qed

lemma bytes_val_pad: "bytes_val (replicate k (char_of (0::nat)) @ b) = bytes_val b"
  by (induction k) (simp_all add: bytes_val_def)

lemma length_nat_bytes: "n < 256 ^ k \<Longrightarrow> length (nat_bytes n) \<le> k"
proof (induction k arbitrary: n)
  case 0
  then show ?case by simp
next
  case (Suc k)
  have "n div 256 < 256 ^ k" using Suc.prems by (simp add: less_mult_imp_div_less)
  with Suc.IH show ?case by (cases "n = 0") (simp_all add: nat_bytes.simps [of n])
qed

section \<open>Intent identifiers\<close>

text \<open>
  What the client relies on in go-ethereum: an address is 20 bytes, and \<open>LeftPadBytes\<close> fills with
  zero bytes on the left up to a length.
\<close>

locale geth_bytes =
  fixes G :: "'e Geth"
  assumes address_length: "length (geth_HexToAddress G s) = 20"
    and left_pad: "length b \<le> n \<Longrightarrow>
      geth_LeftPadBytes G b n = replicate (n - length b) (char_of (0::nat)) @ b"
begin

lemma pad_amount:
  assumes "0 \<le> a" and "a < 256 ^ 32"
  shows "length (geth_LeftPadBytes G (big_Bytes a) 32) = 32"
    "bytes_val (geth_LeftPadBytes G (big_Bytes a) 32) = nat a"
proof -
  have "nat \<bar>a\<bar> < 256 ^ 32" using assms by (simp add: nat_less_iff)
  then have "length (big_Bytes a) \<le> 32" unfolding big_Bytes_def by (rule length_nat_bytes)
  then show "length (geth_LeftPadBytes G (big_Bytes a) 32) = 32"
    "bytes_val (geth_LeftPadBytes G (big_Bytes a) 32) = nat a"
    using assms by (simp_all add: left_pad bytes_val_pad) (simp add: big_Bytes_def)
qed

text \<open>The bytes that are hashed determine the request.\<close>

lemma preimage_inj:
  assumes "0 \<le> a" "a < 256 ^ 32" "0 \<le> a'" "a' < 256 ^ 32"
    and "short_text cc" "short_text cc'" "short_text tx" "short_text tx'"
    and "concat [geth_HexToAddress G u, geth_LeftPadBytes G (big_Bytes a) 32, toBytes32 cc, toBytes32 tx] =
         concat [geth_HexToAddress G u', geth_LeftPadBytes G (big_Bytes a') 32, toBytes32 cc', toBytes32 tx']"
  shows "geth_HexToAddress G u = geth_HexToAddress G u' \<and> a = a' \<and> cc = cc' \<and> tx = tx'"
proof -
  note pads = pad_amount [OF assms(1,2)] pad_amount [OF assms(3,4)]
  have parts: "geth_HexToAddress G u = geth_HexToAddress G u'"
    "geth_LeftPadBytes G (big_Bytes a) 32 = geth_LeftPadBytes G (big_Bytes a') 32"
    "toBytes32 cc = toBytes32 cc'" "toBytes32 tx = toBytes32 tx'"
    using assms(9) by (simp_all add: append_eq_append_conv address_length pads(1,3))
  from arg_cong [OF parts(2), of bytes_val] have "nat a = nat a'" by (simp only: pads)
  with assms parts show ?thesis by (simp add: toBytes32_inj eq_nat_nat_iff)
qed

end


text \<open>A go-ethereum stand-in: addresses are cut or filled to 20 bytes, and the hash is the identity.\<close>

definition sample_geth :: "nat Geth" where
  "sample_geth =
     \<lparr>geth_Dial = (\<lambda>url. Inr 0), geth_ParseABI = (\<lambda>abi. None),
      geth_HexToAddress = (\<lambda>s. take 20 (s @ replicate 20 (char_of (0::nat)))),
      geth_IsHexAddress = (\<lambda>s. True), geth_HexToHash = (\<lambda>s. s), geth_HexToECDSA = (\<lambda>s. Inr s),
      geth_ChainID = (\<lambda>e. Inr 1), geth_NewTransactor = (\<lambda>k c. None),
      geth_Transact = (\<lambda>n k c. (Inr ''0x0'', Suc n)), geth_BlockNumber = (\<lambda>e. None),
      geth_Keccak256Hash = concat,
      geth_LeftPadBytes = (\<lambda>b n. replicate (n - length b) (char_of (0::nat)) @ b),
      geth_HashHex = (\<lambda>s. s)\<rparr>"

interpretation sample: geth_bytes sample_geth
  by unfold_locales (simp_all add: sample_geth_def)

definition sample_submit :: SubmitIntentRequest where
  "sample_submit = \<lparr>sr_UserAddress = ''u'', sr_Amount = ''7'', sr_CountryCode = ''KES'', sr_TxRef = ''T''\<rparr>"

lemma sample_amount: "SetString ''7'' = Some 7"
  by (simp add: SetString_def parse_signed_def parse_unsigned_def is_digit_def digit_val_def)



definition sample_eth :: "nat EthClient" where
  "sample_eth = \<lparr>eth_chain = 0, eth_client_nil = False, eth_address = [], eth_chainID = 1,
     eth_transacts_nil = False, eth_key = []\<rparr>"


section \<open>Waiting for a receipt\<close>

text \<open>A poll after which the loop stops, and what it returns then.\<close>

definition poll_stops :: "(nat \<Rightarrow> 'r option \<times> error option) \<Rightarrow> (nat \<Rightarrow> error option) \<Rightarrow> nat \<Rightarrow> bool" where
  "poll_stops receipt ctx n \<longleftrightarrow>
     fst (receipt n) \<noteq> None \<or> (\<exists>e. snd (receipt n) = Some e \<and> Error e \<noteq> ''not found'') \<or> ctx n \<noteq> None"

definition poll_answer :: "(nat \<Rightarrow> 'r option \<times> error option) \<Rightarrow> (nat \<Rightarrow> error option) \<Rightarrow> nat \<Rightarrow> 'r res" where
  "poll_answer receipt ctx n =
     (case receipt n of
        (Some rc, _) \<Rightarrow> Inr rc
      | (None, Some e) \<Rightarrow> if Error e \<noteq> ''not found'' then Inl e else Inl (the (ctx n))
      | (None, None) \<Rightarrow> Inl (the (ctx n)))"

lemma wait_step:
  "wait_for_receipt receipt ctx i =
     (if poll_stops receipt ctx i then Some (poll_answer receipt ctx i)
      else wait_for_receipt receipt ctx (Suc i))"
  by (subst wait_for_receipt.simps)
    (auto simp: poll_stops_def poll_answer_def split: option.splits prod.splits)

lemma wait_stops:
  assumes "poll_stops receipt ctx (i + n)" and "\<forall>j<n. \<not> poll_stops receipt ctx (i + j)"
  shows "wait_for_receipt receipt ctx i = Some (poll_answer receipt ctx (i + n))"
  using assms
proof (induction n arbitrary: i)
  case 0
  then show ?case by (simp add: wait_step [of receipt ctx i])
next
  case (Suc n)
  have "\<not> poll_stops receipt ctx i" using Suc.prems(2) by force
  moreover have "wait_for_receipt receipt ctx (Suc i) = Some (poll_answer receipt ctx (Suc i + n))"
    by (rule Suc.IH) (use Suc.prems in force)+
  ultimately show ?case by (simp add: wait_step [of receipt ctx i])
qed

lemma wait_returns:
  assumes "wait_for_receipt receipt ctx i = Some y"
  shows "\<exists>n. poll_stops receipt ctx n"
proof (rule wait_for_receipt.raw_induct [OF _ assms, where P = "\<lambda>receipt ctx i y. \<exists>n. poll_stops receipt ctx n"])
  fix w :: "(nat \<Rightarrow> 'b option \<times> error option) \<Rightarrow> (nat \<Rightarrow> error option) \<Rightarrow> nat \<Rightarrow> 'b res option"
    and receipt ctx i y
  assume IH: "\<And>receipt ctx i y. w receipt ctx i = Some y \<Longrightarrow> \<exists>n. poll_stops receipt ctx n"
    and body: "(case fst (receipt i) of
        Some rc \<Rightarrow> Some (Inr rc)
      | None \<Rightarrow>
          (case snd (receipt i) of
             Some err \<Rightarrow>
               if Error err \<noteq> ''not found'' then Some (Inl err)
               else (case ctx i of Some e \<Rightarrow> Some (Inl e) | None \<Rightarrow> w receipt ctx (Suc i))
           | None \<Rightarrow> (case ctx i of Some e \<Rightarrow> Some (Inl e) | None \<Rightarrow> w receipt ctx (Suc i)))) = Some y"
  show "\<exists>n. poll_stops receipt ctx n"
  proof (cases "poll_stops receipt ctx i")
    case False
    with body have "w receipt ctx (Suc i) = Some y"
      by (auto simp: poll_stops_def split: option.splits if_splits)
    then show ?thesis by (rule IH)
  qed blast
qed

text \<open>
  (C23) \<open>WaitForReceipt\<close> returns the answer of the first poll that finds a receipt, meets an error
  other than \<open>not found\<close>, or is followed by the end of the context; it waits for ever exactly when
  there is no such poll.
\<close>

theorem WaitForReceipt_first_stop:
  "WaitForReceipt receipt ctx =
     (if \<exists>n. poll_stops receipt ctx n
      then Some (poll_answer receipt ctx (LEAST n. poll_stops receipt ctx n)) else None)"
proof (cases "\<exists>n. poll_stops receipt ctx n")
  case True
  then have "poll_stops receipt ctx (0 + (LEAST n. poll_stops receipt ctx n))" by (simp add: LeastI_ex)
  moreover have "\<forall>j<(LEAST n. poll_stops receipt ctx n). \<not> poll_stops receipt ctx (0 + j)"
    by (auto dest: not_less_Least)
  ultimately have "WaitForReceipt receipt ctx =
      Some (poll_answer receipt ctx (0 + (LEAST n. poll_stops receipt ctx n)))"
    unfolding WaitForReceipt_def by (rule wait_stops)
  then show ?thesis using True by (simp only: if_True add_0)
next
  case False
  then have "wait_for_receipt receipt ctx 0 = None"
    using wait_returns [of receipt ctx 0] by (cases "wait_for_receipt receipt ctx 0") auto
  with False show ?thesis by (simp add: WaitForReceipt_def)
qed

end
