(* ===== verification/Config.thy ===== *)
theory Config
  imports Platform Json
begin

text \<open>
  Model of \<open>api/internal/config/config.go\<close>: configuration from \<open>seed.json\<close>,
  \<open>deployments.json\<close> and the environment.
\<close>

section \<open>Data\<close>

record SeedChain =
  sc_ChainID :: int
  sc_RPCURL :: string
  sc_BlockTime :: int

record SeedStablecoin =
  st_Symbol :: string
  st_Name :: string
  st_Decimals :: int

record SeedCountry =
  ct_Symbol :: string
  ct_Name :: string
  ct_CountryCode :: string
  ct_Decimals :: int

record SeedSecrets =
  HMACSalt :: string
  IdempotencyKeySalt :: string
  MpesaWebhookSecret :: string

record SeedCompliance =
  MaxRiskScore :: int
  RequireAttestation :: bool
  MinAttestationAge :: int

record SeedLimits =
  MinMintAmount :: string
  MaxMintAmount :: string
  DailyMintLimit :: string

record SeedRetry =
  sr_MaxAttempts :: int
  sr_InitialBackoffMs :: int
  sr_MaxBackoffMs :: int
  sr_BackoffMultiplier :: int

record SeedTimeouts =
  RPCTimeoutMs :: int
  WebhookTimeoutMs :: int
  IdempotencyWindowSecs :: int

record SeedConfig =
  CandidateID :: string
  seed_Chain :: SeedChain
  seed_Stablecoin :: SeedStablecoin
  seed_Country :: SeedCountry
  seed_Secrets :: SeedSecrets
  seed_Compliance :: SeedCompliance
  seed_Limits :: SeedLimits
  seed_Retry :: SeedRetry
  seed_Timeouts :: SeedTimeouts

record DeploymentConfig =
  dep_ChainID :: int
  dep_Deployer :: string
  dep_Admin :: string
  dep_Executor :: string
  dep_USDStablecoin :: string
  dep_CountryToken :: string
  dep_UserRegistry :: string
  dep_ComplianceManager :: string
  dep_MintEscrow :: string

record ServiceConfig =
  HTTPPort :: int
  HMACClockSkew :: duration
  IdempotencyWindow :: duration
  IdempotencyStorePath :: string
  DLQPath :: string

record RetryConfig =
  MaxAttempts :: int
  InitialBackoff :: duration
  MaxBackoff :: duration
  BackoffMultiplier :: int

record ChainConfig =
  chain_RPCURL :: string
  chain_PrivateKey :: string

record DatabaseConfig =
  db_URL :: string

record AppConfig =
  Seed :: SeedConfig
  Deployment :: DeploymentConfig
  Service :: ServiceConfig
  Retry :: RetryConfig
  Chain :: ChainConfig
  Database :: DatabaseConfig

section \<open>Environment\<close>

text \<open>The environment is a partial map, as \<open>os.LookupEnv\<close> sees it.\<close>

type_synonym env = "string \<rightharpoonup> string"

definition envOr :: "env \<Rightarrow> string \<Rightarrow> string \<Rightarrow> string" where
  "envOr env key fallback =
     (case env key of Some val \<Rightarrow> if val \<noteq> [] then val else fallback | None \<Rightarrow> fallback)"

text \<open>
  \<open>fmt.Sscanf(val, "%d", &parsed)\<close>: leading blanks are skipped, a newline among them is an error,
  then a sign and the longest run of digits; what follows is not looked at.
\<close>

function scan_blanks :: "string \<Rightarrow> string option" where
  "scan_blanks s =
     (if HasPrefix s [char_of (10::nat)] then None
      else (case cut_any space_runes s of None \<Rightarrow> Some s | Some t \<Rightarrow> scan_blanks t))"
  by pat_completeness auto
termination
  by (relation "measure length") (auto dest: cut_any_shorter)

declare scan_blanks.simps [simp del]

definition scan_int :: "string \<Rightarrow> int option" where
  "scan_int s =
     (case scan_blanks s of
        None \<Rightarrow> None
      | Some t \<Rightarrow>
          let (sg, u) = (case t of
                c # u \<Rightarrow> if c = CHR ''+'' \<or> c = CHR ''-'' then ([c], u) else ([], t)
              | [] \<Rightarrow> ([], t));
              digits = takeWhile is_digit u
          in if digits = [] then None else ParseInt (sg @ digits))"

definition envOrInt :: "env \<Rightarrow> string \<Rightarrow> int \<Rightarrow> int" where
  "envOrInt env key fallback =
     (case env key of
        Some val \<Rightarrow>
          if val \<noteq> [] then (case scan_int val of Some parsed \<Rightarrow> parsed | None \<Rightarrow> fallback)
          else fallback
      | None \<Rightarrow> fallback)"

text \<open>\<open>os.TempDir\<close>.\<close>

definition TempDir :: "env \<Rightarrow> string" where
  "TempDir env = envOr env ''TMPDIR'' ''/tmp''"

section \<open>Files\<close>

definition seed_fields :: "(string \<times> ty) list" where
  "seed_fields =
     [(''candidateId'', TString),
      (''chain'', TStruct [(''chainId'', TInt), (''rpcUrl'', TString), (''blockTime'', TInt)]),
      (''tokens'', TStruct
        [(''stablecoin'', TStruct [(''symbol'', TString), (''name'', TString), (''decimals'', TInt)]),
         (''country'', TStruct
           [(''symbol'', TString), (''name'', TString), (''countryCode'', TString), (''decimals'', TInt)])]),
      (''secrets'', TStruct
        [(''hmacSalt'', TString), (''idempotencyKeySalt'', TString), (''mpesaWebhookSecret'', TString)]),
      (''compliance'', TStruct
        [(''maxRiskScore'', TInt), (''requireAttestation'', TBool), (''minAttestationAge'', TInt)]),
      (''limits'', TStruct
        [(''minMintAmount'', TString), (''maxMintAmount'', TString), (''dailyMintLimit'', TString)]),
      (''retry'', TStruct
        [(''maxAttempts'', TInt), (''initialBackoffMs'', TInt), (''maxBackoffMs'', TInt),
         (''backoffMultiplier'', TInt)]),
      (''timeouts'', TStruct
        [(''rpcTimeoutMs'', TInt), (''webhookTimeoutMs'', TInt), (''idempotencyWindowSeconds'', TInt)])]"

definition seed_of :: "gval \<Rightarrow> SeedConfig" where
  "seed_of v =
     \<lparr>CandidateID = gstring v [''candidateId''],
      seed_Chain = \<lparr>sc_ChainID = gint v [''chain'', ''chainId''], sc_RPCURL = gstring v [''chain'', ''rpcUrl''],
        sc_BlockTime = gint v [''chain'', ''blockTime'']\<rparr>,
      seed_Stablecoin = \<lparr>st_Symbol = gstring v [''tokens'', ''stablecoin'', ''symbol''],
        st_Name = gstring v [''tokens'', ''stablecoin'', ''name''],
        st_Decimals = gint v [''tokens'', ''stablecoin'', ''decimals'']\<rparr>,
      seed_Country = \<lparr>ct_Symbol = gstring v [''tokens'', ''country'', ''symbol''],
        ct_Name = gstring v [''tokens'', ''country'', ''name''],
        ct_CountryCode = gstring v [''tokens'', ''country'', ''countryCode''],
        ct_Decimals = gint v [''tokens'', ''country'', ''decimals'']\<rparr>,
      seed_Secrets = \<lparr>HMACSalt = gstring v [''secrets'', ''hmacSalt''],
        IdempotencyKeySalt = gstring v [''secrets'', ''idempotencyKeySalt''],
        MpesaWebhookSecret = gstring v [''secrets'', ''mpesaWebhookSecret'']\<rparr>,
      seed_Compliance = \<lparr>MaxRiskScore = gint v [''compliance'', ''maxRiskScore''],
        RequireAttestation = gbool v [''compliance'', ''requireAttestation''],
        MinAttestationAge = gint v [''compliance'', ''minAttestationAge'']\<rparr>,
      seed_Limits = \<lparr>MinMintAmount = gstring v [''limits'', ''minMintAmount''],
        MaxMintAmount = gstring v [''limits'', ''maxMintAmount''],
        DailyMintLimit = gstring v [''limits'', ''dailyMintLimit'']\<rparr>,
      seed_Retry = \<lparr>sr_MaxAttempts = gint v [''retry'', ''maxAttempts''],
        sr_InitialBackoffMs = gint v [''retry'', ''initialBackoffMs''],
        sr_MaxBackoffMs = gint v [''retry'', ''maxBackoffMs''],
        sr_BackoffMultiplier = gint v [''retry'', ''backoffMultiplier'']\<rparr>,
      seed_Timeouts = \<lparr>RPCTimeoutMs = gint v [''timeouts'', ''rpcTimeoutMs''],
        WebhookTimeoutMs = gint v [''timeouts'', ''webhookTimeoutMs''],
        IdempotencyWindowSecs = gint v [''timeouts'', ''idempotencyWindowSeconds'']\<rparr>\<rparr>"

definition deployment_fields :: "(string \<times> ty) list" where
  "deployment_fields =
     [(''chainId'', TInt), (''deployer'', TString), (''admin'', TString), (''executor'', TString),
      (''contracts'', TStruct
        [(''USDStablecoin'', TString), (''CountryToken'', TString), (''UserRegistry'', TString),
         (''ComplianceManager'', TString), (''MintEscrow'', TString)])]"

definition deployment_of :: "gval \<Rightarrow> DeploymentConfig" where
  "deployment_of v =
     \<lparr>dep_ChainID = gint v [''chainId''], dep_Deployer = gstring v [''deployer''],
      dep_Admin = gstring v [''admin''], dep_Executor = gstring v [''executor''],
      dep_USDStablecoin = gstring v [''contracts'', ''USDStablecoin''],
      dep_CountryToken = gstring v [''contracts'', ''CountryToken''],
      dep_UserRegistry = gstring v [''contracts'', ''UserRegistry''],
      dep_ComplianceManager = gstring v [''contracts'', ''ComplianceManager''],
      dep_MintEscrow = gstring v [''contracts'', ''MintEscrow'']\<rparr>"

definition loadSeed :: "platform \<Rightarrow> string \<Rightarrow> SeedConfig res \<times> platform" where
  "loadSeed w path =
     (case ReadFile w path of
        (Inl err, w) \<Rightarrow> (Inl err, w)
      | (Inr raw, w) \<Rightarrow>
          (case Option.bind (unmarshal raw) (decode_struct seed_fields) of
             None \<Rightarrow> (Inl ErrJson, w)
           | Some v \<Rightarrow> (Inr (seed_of v), w)))"

definition loadDeployments :: "platform \<Rightarrow> string \<Rightarrow> DeploymentConfig res \<times> platform" where
  "loadDeployments w path =
     (case ReadFile w path of
        (Inl err, w) \<Rightarrow> (Inl err, w)
      | (Inr raw, w) \<Rightarrow>
          (case Option.bind (unmarshal raw) (decode_struct deployment_fields) of
             None \<Rightarrow> (Inl ErrJson, w)
           | Some v \<Rightarrow> (Inr (deployment_of v), w)))"

definition defaultSeedPath :: string where
  "defaultSeedPath = ''../seed.json''"

definition defaultDeploymentsPath :: string where
  "defaultDeploymentsPath = ''../deployments.json''"

definition defaultDLQPath :: string where
  "defaultDLQPath = ''../dlq''"

definition Load :: "env \<Rightarrow> platform \<Rightarrow> AppConfig res \<times> platform" where
  "Load env w =
     (let seedPath = envOr env ''SEED_PATH'' defaultSeedPath;
          deploymentsPath = envOr env ''DEPLOYMENTS_PATH'' defaultDeploymentsPath
      in case loadSeed w seedPath of
           (Inl err, w) \<Rightarrow> (Inl (ErrWrap ''load seed: '' err), w)
         | (Inr seedCfg, w) \<Rightarrow>
             (case loadDeployments w deploymentsPath of
                (Inl err, w) \<Rightarrow> (Inl (ErrWrap ''load deployments: '' err), w)
              | (Inr deployCfg, w) \<Rightarrow>
                  (Inr \<lparr>Seed = seedCfg,
                     Deployment = deployCfg,
                     Service = \<lparr>
                       HTTPPort = envOrInt env ''API_HTTP_PORT'' 3000,
                       HMACClockSkew = dur_mult (envOrInt env ''HMAC_CLOCK_SKEW_SECONDS'' 60) Second,
                       IdempotencyWindow =
                         dur_mult (IdempotencyWindowSecs (seed_Timeouts seedCfg)) Second,
                       IdempotencyStorePath =
                         envOr env ''IDEMPOTENCY_STORE_PATH'' (Join (TempDir env) ''fiatrails-idem.json''),
                       DLQPath = envOr env ''DLQ_PATH'' defaultDLQPath\<rparr>,
                     Retry = \<lparr>
                       MaxAttempts = sr_MaxAttempts (seed_Retry seedCfg),
                       InitialBackoff = dur_mult (sr_InitialBackoffMs (seed_Retry seedCfg)) Millisecond,
                       MaxBackoff = dur_mult (sr_MaxBackoffMs (seed_Retry seedCfg)) Millisecond,
                       BackoffMultiplier = sr_BackoffMultiplier (seed_Retry seedCfg)\<rparr>,
                     Chain = \<lparr>
                       chain_RPCURL = envOr env ''CHAIN_RPC_URL'' (sc_RPCURL (seed_Chain seedCfg)),
                       chain_PrivateKey = envOr env ''CHAIN_PRIVATE_KEY'' []\<rparr>,
                     Database = \<lparr>db_URL = envOr env ''DATABASE_URL'' []\<rparr>\<rparr>, w)))"

section \<open>The configuration of the repository\<close>

text \<open>What \<open>seed.json\<close> and \<open>deployments.json\<close> of the repository hold.\<close>

definition repo_seed :: SeedConfig where
  "repo_seed =
     \<lparr>CandidateID = ''Munene'',
      seed_Chain = \<lparr>sc_ChainID = 31430, sc_RPCURL = ''http://localhost:8545'', sc_BlockTime = 2\<rparr>,
      seed_Stablecoin = \<lparr>st_Symbol = ''DAI'', st_Name = ''Dai Stablecoin'', st_Decimals = 18\<rparr>,
      seed_Country = \<lparr>ct_Symbol = ''KES'', ct_Name = ''Kenya Shilling Token'', ct_CountryCode = ''KES'',
        ct_Decimals = 18\<rparr>,
      seed_Secrets = \<lparr>HMACSalt = ''fiatrails_hmac_salt_8e29eb8ea24c6b2d'',
        IdempotencyKeySalt = ''fiatrails_idem_salt_469c5e8ee1a6dcd7'',
        MpesaWebhookSecret = ''mpesa_webhook_secret_f23c1bc0945032a8''\<rparr>,
      seed_Compliance = \<lparr>MaxRiskScore = 91, RequireAttestation = True, MinAttestationAge = 0\<rparr>,
      seed_Limits = \<lparr>MinMintAmount = ''1000000000000000000'', MaxMintAmount = ''1000000000000000000000'',
        DailyMintLimit = ''10000000000000000000000''\<rparr>,
      seed_Retry = \<lparr>sr_MaxAttempts = 6, sr_InitialBackoffMs = 751, sr_MaxBackoffMs = 30000,
        sr_BackoffMultiplier = 2\<rparr>,
      seed_Timeouts = \<lparr>RPCTimeoutMs = 20109, WebhookTimeoutMs = 3038, IdempotencyWindowSecs = 86400\<rparr>\<rparr>"

definition repo_deployment :: DeploymentConfig where
  "repo_deployment =
     \<lparr>dep_ChainID = 31430, dep_Deployer = ''0xf39Fd6e51aad88F6F4ce6aB8827279cffFb92266'',
      dep_Admin = ''0xf39Fd6e51aad88F6F4ce6aB8827279cffFb92266'',
      dep_Executor = ''0xf39Fd6e51aad88F6F4ce6aB8827279cffFb92266'',
      dep_USDStablecoin = ''0x5FbDB2315678afecb367f032d93F642f64180aa3'',
      dep_CountryToken = ''0xe7f1725E7734CE288F8367e1Bb143E90bb3F0512'',
      dep_UserRegistry = ''0x9fE46736679d2D9a65F0992F2272dE9f3c7fa6e0'',
      dep_ComplianceManager = ''0xDc64a140Aa3E981100a9becA4E685f962f0cF6C9'',
      dep_MintEscrow = ''0x0165878A594ca255338adfa4d48449f69242Eb8F''\<rparr>"

text \<open>The settings \<open>Load\<close> derives from them with no environment variable set.\<close>

definition repo_config :: AppConfig where
  "repo_config =
     \<lparr>Seed = repo_seed, Deployment = repo_deployment,
      Service = \<lparr>HTTPPort = 3000, HMACClockSkew = 60 * Second, IdempotencyWindow = 86400 * Second,
        IdempotencyStorePath = ''/tmp/fiatrails-idem.json'', DLQPath = ''../dlq''\<rparr>,
      Retry = \<lparr>MaxAttempts = 6, InitialBackoff = 751 * Millisecond, MaxBackoff = 30000 * Millisecond,
        BackoffMultiplier = 2\<rparr>,
      Chain = \<lparr>chain_RPCURL = ''http://localhost:8545'', chain_PrivateKey = []\<rparr>,
      Database = \<lparr>db_URL = []\<rparr>\<rparr>"

section \<open>Numbers in the environment\<close>

lemma show_nat_hd: "is_digit (hd (show_nat n))"
  using show_nat_digits [of n] by (cases "show_nat n") (auto simp: list_all_iff)

lemma is_digit_graphic: "is_digit c \<Longrightarrow> graphic c"
  by (simp add: is_digit_def graphic_def Let_def)

lemma show_int_graphic: "graphic (hd (show_int n @ t))"
proof -
  have "show_int n \<noteq> []" by (simp add: show_int_def)
  then have "hd (show_int n @ t) = hd (show_int n)" by simp
  moreover have "graphic (hd (show_int n))"
    using show_nat_hd [THEN is_digit_graphic] by (simp add: show_int_def graphic_def)
  ultimately show ?thesis by simp
qed

lemma scan_blanks_graphic: "graphic (hd s) \<Longrightarrow> scan_blanks s = Some s"
proof -
  assume s: "graphic (hd s)"
  have "\<not> HasPrefix s [char_of (10::nat)]"
    using s by (cases s) (auto simp: HasPrefix_def graphic_def)
  moreover have "cut_any space_runes s = None"
    using space_runes_ends s by (intro cut_any_graphic) (auto simp: list_all_iff)
  ultimately show ?thesis by (simp add: scan_blanks.simps)
qed

lemma takeWhile_digits:
  "t = [] \<or> \<not> is_digit (hd t) \<Longrightarrow> takeWhile is_digit (show_nat n @ t) = show_nat n"
  using show_nat_digits [of n] by (cases t) (auto simp: takeWhile_append list_all_iff)

lemma scan_int_show:
  assumes "in_i64 n" and "t = [] \<or> \<not> is_digit (hd t)"
  shows "scan_int (show_int n @ t) = Some n"
proof -
  have "scan_blanks (show_int n @ t) = Some (show_int n @ t)"
    by (rule scan_blanks_graphic) (rule show_int_graphic)
  moreover obtain c u where cu: "show_nat (nat n) = c # u" by (cases "show_nat (nat n)") auto
  moreover have "c \<noteq> CHR ''+''" "c \<noteq> CHR ''-''"
    using is_digit_not_sign [of c] show_nat_hd [of "nat n"] by (simp_all add: cu)
  moreover have "is_digit c" "takeWhile is_digit (u @ t) = u"
    using show_nat_hd [of "nat n"] takeWhile_digits [OF assms(2), of "nat n"] by (simp_all add: cu)
  ultimately show ?thesis
    using takeWhile_digits [OF assms(2)] ParseInt_show_int [OF assms(1)]
    by (cases "n < 0") (simp_all add: scan_int_def show_int_def)
qed

text \<open>
  (C30) A decimal 64-bit number in the environment is read back exactly, and whatever follows its last
  digit is ignored (\<open>60s\<close> is 60).
\<close>

theorem envOrInt_reads_number:
  assumes "in_i64 n" and "t = [] \<or> \<not> is_digit (hd t)"
  shows "envOrInt (env(key \<mapsto> show_int n @ t)) key fallback = n"
  using scan_int_show [OF assms] by (simp add: envOrInt_def show_int_def)

theorem envOrInt_reads_number_witness:
  "envOrInt [''HMAC_CLOCK_SKEW_SECONDS'' \<mapsto> show_int (- 5) @ ''s''] ''HMAC_CLOCK_SKEW_SECONDS'' 60 = - 5"
  using envOrInt_reads_number [of "- 5" "''s''" Map.empty] by (simp add: in_i64_def is_digit_def)

end
