(* ===== verification/Metrics.thy ===== *)
theory Metrics
  imports Prelude
begin

text \<open>
  Model of \<open>api/internal/server/metrics.go\<close>. The Prometheus client library is third-party
  code; the registry is modelled by the calls the program makes on its collectors, in order, and the
  value of a counter is the number of its increments.
\<close>

datatype metric_call =
    Inc string string
  | SetGauge string int

record metricsRegistry =
  registered :: "string list"
  prom_calls :: "metric_call list"

definition mintIntentsTotal :: string where
  "mintIntentsTotal = ''fiatrails_mint_intents_total''"

definition callbacksTotal :: string where
  "callbacksTotal = ''fiatrails_callbacks_total''"

definition retryAttemptsTotal :: string where
  "retryAttemptsTotal = ''fiatrails_retry_attempts_total''"

definition dlqDepth :: string where
  "dlqDepth = ''fiatrails_dlq_depth''"

lemmas metric_names = mintIntentsTotal_def callbacksTotal_def retryAttemptsTotal_def dlqDepth_def

definition newMetricsRegistry :: metricsRegistry where
  "newMetricsRegistry =
     \<lparr>registered = [mintIntentsTotal, callbacksTotal, retryAttemptsTotal, dlqDepth], prom_calls = []\<rparr>"

definition incMint :: "string \<Rightarrow> metricsRegistry \<Rightarrow> metricsRegistry" where
  "incMint status m = m\<lparr>prom_calls := prom_calls m @ [Inc mintIntentsTotal status]\<rparr>"

definition incCallback :: "string \<Rightarrow> metricsRegistry \<Rightarrow> metricsRegistry" where
  "incCallback status m = m\<lparr>prom_calls := prom_calls m @ [Inc callbacksTotal status]\<rparr>"

definition incRetry :: "string \<Rightarrow> metricsRegistry \<Rightarrow> metricsRegistry" where
  "incRetry result m = m\<lparr>prom_calls := prom_calls m @ [Inc retryAttemptsTotal result]\<rparr>"

definition setDLQDepth :: "int \<Rightarrow> metricsRegistry \<Rightarrow> metricsRegistry" where
  "setDLQDepth depth m = m\<lparr>prom_calls := prom_calls m @ [SetGauge dlqDepth depth]\<rparr>"

definition counter :: "metricsRegistry \<Rightarrow> string \<Rightarrow> string \<Rightarrow> nat" where
  "counter m name label = count_list (prom_calls m) (Inc name label)"

lemma metric_names_distinct [simp]:
  "mintIntentsTotal \<noteq> callbacksTotal" "callbacksTotal \<noteq> mintIntentsTotal"
  "mintIntentsTotal \<noteq> retryAttemptsTotal" "retryAttemptsTotal \<noteq> mintIntentsTotal"
  "callbacksTotal \<noteq> retryAttemptsTotal" "retryAttemptsTotal \<noteq> callbacksTotal"
  by (simp_all add: metric_names)

lemma counter_incMint [simp]:
  "counter (incMint s m) n l = counter m n l + (if n = mintIntentsTotal \<and> l = s then 1 else 0)"
  by (simp add: counter_def incMint_def)

lemma counter_incCallback [simp]:
  "counter (incCallback s m) n l = counter m n l + (if n = callbacksTotal \<and> l = s then 1 else 0)"
  by (simp add: counter_def incCallback_def)

lemma counter_incRetry [simp]:
  "counter (incRetry s m) n l = counter m n l + (if n = retryAttemptsTotal \<and> l = s then 1 else 0)"
  by (simp add: counter_def incRetry_def)

lemma counter_setDLQDepth [simp]: "counter (setDLQDepth d m) n l = counter m n l"
  by (simp add: counter_def setDLQDepth_def)

end
