(* ===== verification/Codec.thy ===== *)
theory Codec
  imports Platform
begin

text \<open>
  Text forms inside the JSON the program writes: \<open>time.Time\<close> as RFC 3339 with nanoseconds
  (\<open>Time.MarshalJSON\<close>) and \<open>[]byte\<close> as base64.
\<close>

section \<open>The calendar\<close>

text \<open>Days from 1 January of year 1 to 1 January of a year, in the proleptic Gregorian calendar.\<close>

definition days_before_year :: "int \<Rightarrow> int" where
  "days_before_year y = 365 * (y - 1) + (y - 1) div 4 - (y - 1) div 100 + (y - 1) div 400"

definition is_leap :: "int \<Rightarrow> bool" where
  "is_leap y \<longleftrightarrow> y mod 4 = 0 \<and> (y mod 100 \<noteq> 0 \<or> y mod 400 = 0)"

definition month_lengths :: "bool \<Rightarrow> int list" where
  "month_lengths leap = [31, if leap then 29 else 28, 31, 30, 31, 30, 31, 31, 30, 31, 30, 31]"

lemma days_before_year_step: "days_before_year y < days_before_year (y + 1)"
proof -
  have "y div 4 \<ge> (y - 1) div 4" "y div 400 \<ge> (y - 1) div 400" "y div 100 \<le> (y - 1) div 100 + 1"
    by linarith+
  then show ?thesis unfolding days_before_year_def by simp
qed

text \<open>The year a day lies in, searched upwards from a year that is not later.\<close>

function year_search :: "int \<Rightarrow> int \<Rightarrow> int" where
  "year_search y d = (if days_before_year (y + 1) \<le> d then year_search (y + 1) d else y)"
  by pat_completeness auto
termination
proof (relation "measure (\<lambda>(y, d). nat (d - days_before_year y))")
  fix y d :: int
  assume "days_before_year (y + 1) \<le> d"
  with days_before_year_step [of y] show "((y + 1, d), y, d) \<in> measure (\<lambda>(y, d). nat (d - days_before_year y))"
    by simp
qed simp

declare year_search.simps [simp del]

definition year_of :: "int \<Rightarrow> int" where
  "year_of d = year_search (d div 366) d"

fun month_day :: "int \<Rightarrow> int list \<Rightarrow> int \<Rightarrow> int \<times> int" where
  "month_day m [] d = (m, d)"
| "month_day m (l # ls) d = (if d < l then (m, d) else month_day (m + 1) ls (d - l))"

section \<open>RFC 3339\<close>

definition pad_int :: "nat \<Rightarrow> int \<Rightarrow> string" where
  "pad_int k n = replicate (k - length (show_int n)) (CHR ''0'') @ show_int n"

definition strip_zeros :: "string \<Rightarrow> string" where
  "strip_zeros s = rev (dropWhile (\<lambda>c. c = CHR ''0'') (rev s))"

text \<open>
  A time in the zone \<open>z\<close> minutes east of UTC; \<open>None\<close> is the error for a year outside 0 to 9999
  or a zone of a day or more.
\<close>

definition rfc3339 :: "int \<Rightarrow> time \<Rightarrow> string option" where
  "rfc3339 z t =
     (let secs = t div Second + z * 60;
          nsec = t mod Second;
          days = secs div 86400 + 719162;
          sod = secs mod 86400;
          y = year_of days;
          (m, d) = month_day 1 (month_lengths (is_leap y)) (days - days_before_year y);
          zone = (if z = 0 then ''Z''
                  else (if z < 0 then ''-'' else ''+'') @ pad_int 2 (\<bar>z\<bar> div 60) @ '':'' @ pad_int 2 (\<bar>z\<bar> mod 60))
      in if y < 0 \<or> 9999 < y \<or> 24 * 60 \<le> \<bar>z\<bar> then None
         else Some (pad_int 4 y @ ''-'' @ pad_int 2 m @ ''-'' @ pad_int 2 (d + 1) @ ''T''
           @ pad_int 2 (sod div 3600) @ '':'' @ pad_int 2 (sod div 60 mod 60) @ '':'' @ pad_int 2 (sod mod 60)
           @ (if nsec = 0 then [] else ''.'' @ strip_zeros (pad_int 9 nsec)) @ zone))"

lemma year_search_bounds:
  "days_before_year y \<le> d \<Longrightarrow>
   days_before_year (year_search y d) \<le> d \<and> d < days_before_year (year_search y d + 1)"
proof (induction y d rule: year_search.induct)
  case (1 y d)
  then show ?case by (cases "days_before_year (y + 1) \<le> d") (simp_all add: year_search.simps [of y d])
qed

lemma year_search_ge: "y \<le> year_search y d"
proof (induction y d rule: year_search.induct)
  case (1 y d)
  then show ?case by (cases "days_before_year (y + 1) \<le> d") (simp_all add: year_search.simps [of y d])
qed

text \<open>The search starts early enough for every day of year 1 or later.\<close>

lemma year_of_bounds:
  assumes "0 \<le> d"
  shows "days_before_year (year_of d) \<le> d" "d < days_before_year (year_of d + 1)"
proof -
  define q where "q = d div 366"
  have "0 \<le> q" "366 * q \<le> d" using assms by (auto simp: q_def)
  moreover have "days_before_year q \<le> 366 * q"
  proof -
    define a b c where "a = (q - 1) div 4" and "b = (q - 1) div 100" and "c = (q - 1) div 400"
    have "a \<le> q" "c \<le> b + 1" using \<open>0 \<le> q\<close> by (auto simp: a_def b_def c_def)
    then show ?thesis
      unfolding days_before_year_def a_def [symmetric] b_def [symmetric] c_def [symmetric]
      using \<open>0 \<le> q\<close> by (simp add: algebra_simps)
  qed
  ultimately have "days_before_year q \<le> d" by linarith
  from year_search_bounds [OF this]
  show "days_before_year (year_of d) \<le> d" "d < days_before_year (year_of d + 1)"
    by (simp_all add: year_of_def q_def)
qed

lemma days_before_year_mono: "y \<le> z \<Longrightarrow> days_before_year y \<le> days_before_year z"
proof (induction "nat (z - y)" arbitrary: z)
  case (Suc n)
  then have "n = nat (z - 1 - y)" "y \<le> z - 1" by simp_all
  then have "days_before_year y \<le> days_before_year (z - 1)" by (rule Suc.hyps(1))
  with days_before_year_step [of "z - 1"] show ?case by simp
qed simp

text \<open>Every time from the epoch to the year 2262 can be printed.\<close>

lemma rfc3339_printable:
  assumes "0 \<le> t" and "t \<le> max_i64"
  shows "\<exists>ts. rfc3339 0 t = Some ts"
proof -
  define d where "d = t div Second div 86400 + 719162"
  have "0 \<le> t div Second div 86400" "t div Second div 86400 \<le> max_i64 div Second div 86400"
    using assms by (simp_all add: Second_def zdiv_mono1)
  then have d: "0 \<le> d" "d < days_before_year 10000" 
    by (simp_all add: d_def Second_def days_before_year_def)
  have "0 \<le> year_of d"
    using year_search_ge [of "d div 366" d] d(1) by (simp add: year_of_def)
  moreover have "year_of d \<le> 9999"
  proof (rule ccontr)
    assume "\<not> year_of d \<le> 9999"
    then have "days_before_year 10000 \<le> days_before_year (year_of d)" by (intro days_before_year_mono) simp
    with year_of_bounds(1) [OF d(1)] d(2) show False by simp
  qed
  ultimately show ?thesis by (simp add: rfc3339_def d_def Let_def split: prod.splits)
qed

end
