(* ===== verification/ServerState.thy ===== *)
theory ServerState
  imports HmacAuth Idempotency Escrow Config Metrics Codec
begin

text \<open>
  The state of the server (\<open>api/internal/server/server.go\<close>, type \<open>Server\<close>), the calls the
  handlers make on the objects in it, and the request and response types of the two endpoints with
  their validation.
\<close>

section \<open>State\<close>

text \<open>
  An interface value is its methods (\<open>escrow_ops\<close>, \<open>store_ops\<close>) and the state behind them
  (\<open>escrow\<close>, \<open>store\<close>). \<open>plat\<close> is the machine: clock, timers and file system.
\<close>

record ('s, 'c) Server =
  cfg :: AppConfig
  escrow_ops :: "'c Client"
  escrow :: 'c
  store_ops :: "'s Store"
  store :: 's
  hmac :: verifier
  mpesaHMAC :: verifier
  metrics :: metricsRegistry
  dbHealthFn :: "('s \<Rightarrow> error option) option"
  rpcHealthFn :: "('c \<Rightarrow> error option \<times> 'c) option"
  plat :: platform

definition set_plat :: "platform \<Rightarrow> ('s, 'c) Server \<Rightarrow> ('s, 'c) Server" where
  "set_plat w s = s\<lparr>plat := w\<rparr>"

definition with_metrics :: "(metricsRegistry \<Rightarrow> metricsRegistry) \<Rightarrow> ('s, 'c) Server \<Rightarrow> ('s, 'c) Server" where
  "with_metrics f s = s\<lparr>metrics := f (metrics s)\<rparr>"

definition server_now :: "('s, 'c) Server \<Rightarrow> time \<times> ('s, 'c) Server" where
  "server_now s = (case Now (plat s) of (t, w) \<Rightarrow> (t, s\<lparr>plat := w\<rparr>))"

definition get_record :: "('s, 'c) Server \<Rightarrow> string \<Rightarrow> Record option res \<times> ('s, 'c) Server" where
  "get_record s key =
     (case store_Get (store_ops s) (store s) (plat s) key of
        (r, st, w) \<Rightarrow> (r, s\<lparr>store := st, plat := w\<rparr>))"

definition save_record :: "('s, 'c) Server \<Rightarrow> string \<Rightarrow> Record \<Rightarrow> error option \<times> ('s, 'c) Server" where
  "save_record s key rec =
     (case store_Save (store_ops s) (store s) (plat s) key rec of
        (e, st, w) \<Rightarrow> (e, s\<lparr>store := st, plat := w\<rparr>))"

definition submit_intent ::
  "('s, 'c) Server \<Rightarrow> SubmitIntentRequest \<Rightarrow> SubmitIntentResponse res \<times> ('s, 'c) Server"
where
  "submit_intent s req =
     (case client_SubmitIntent (escrow_ops s) (escrow s) req of (r, c) \<Rightarrow> (r, s\<lparr>escrow := c\<rparr>))"

definition execute_mint ::
  "('s, 'c) Server \<Rightarrow> string \<Rightarrow> ExecuteMintResponse res \<times> ('s, 'c) Server"
where
  "execute_mint s intentID =
     (case client_ExecuteMint (escrow_ops s) (escrow s) intentID of (r, c) \<Rightarrow> (r, s\<lparr>escrow := c\<rparr>))"

definition start_timer :: "duration \<Rightarrow> ('s, 'c) Server \<Rightarrow> ('s, 'c) Server" where
  "start_timer d s = s\<lparr>plat := (plat s)\<lparr>timers := d # timers (plat s)\<rparr>\<rparr>"

section \<open>Requests and responses\<close>

record mintIntentRequest =
  mi_UserAddress :: string
  mi_Amount :: string
  mi_CountryCode :: string
  mi_TxRef :: string

record mpesaCallbackRequest =
  mp_IntentID :: string
  mp_TxRef :: string
  mp_UserAddress :: string
  mp_Amount :: string

definition decode_mintIntentRequest :: "request \<Rightarrow> mintIntentRequest option" where
  "decode_mintIntentRequest r =
     map_option (\<lambda>v. \<lparr>mi_UserAddress = gstring v [''userAddress''], mi_Amount = gstring v [''amount''],
         mi_CountryCode = gstring v [''countryCode''], mi_TxRef = gstring v [''txRef'']\<rparr>)
       (Option.bind (decode_body (rBody r))
         (decode_struct [(''userAddress'', TString), (''amount'', TString), (''countryCode'', TString),
           (''txRef'', TString)]))"

definition decode_mpesaCallbackRequest :: "request \<Rightarrow> mpesaCallbackRequest option" where
  "decode_mpesaCallbackRequest r =
     map_option (\<lambda>v. \<lparr>mp_IntentID = gstring v [''intentId''], mp_TxRef = gstring v [''txRef''],
         mp_UserAddress = gstring v [''userAddress''], mp_Amount = gstring v [''amount'']\<rparr>)
       (Option.bind (decode_body (rBody r))
         (decode_struct [(''intentId'', TString), (''txRef'', TString), (''userAddress'', TString),
           (''amount'', TString)]))"

text \<open>A field tagged \<open>omitempty\<close>.\<close>

definition omitempty :: "string \<Rightarrow> string \<Rightarrow> (string \<times> json) list" where
  "omitempty tag v = (if v = [] then [] else [(tag, JStr v)])"

definition mintIntentResponse :: "string \<Rightarrow> string \<Rightarrow> string \<Rightarrow> json" where
  "mintIntentResponse intentID status txHash =
     JObj ([(''intentId'', JStr intentID), (''status'', JStr status)] @ omitempty ''txHash'' txHash)"

definition mpesaCallbackResponse :: "string \<Rightarrow> string \<Rightarrow> string \<Rightarrow> json" where
  "mpesaCallbackResponse status intentID txHash =
     JObj ([(''status'', JStr status), (''intentId'', JStr intentID)] @ omitempty ''txHash'' txHash)"

definition mpesaKeyPrefix :: string where
  "mpesaKeyPrefix = ''mpesa:''"

definition validateMintIntentRequest :: "mintIntentRequest \<Rightarrow> error option" where
  "validateMintIntentRequest req =
     (if mi_UserAddress req = [] then Some (ErrNew ''userAddress is required'')
      else if mi_Amount req = [] then Some (ErrNew ''amount is required'')
      else if mi_CountryCode req = [] then Some (ErrNew ''countryCode is required'')
      else if mi_TxRef req = [] then Some (ErrNew ''txRef is required'')
      else None)"

definition validateMpesaRequest :: "mpesaCallbackRequest \<Rightarrow> error option" where
  "validateMpesaRequest req =
     (if mp_IntentID req = [] then Some (ErrNew ''intentId is required'')
      else if mp_TxRef req = [] then Some (ErrNew ''txRef is required'')
      else if mp_UserAddress req = [] then Some (ErrNew ''userAddress is required'')
      else if mp_Amount req = [] then Some (ErrNew ''amount is required'')
      else None)"

section \<open>What the steps of a handler leave alone\<close>

text \<open>
  \<open>same_setup\<close>: nothing that \<open>NewServer\<close> fixed has changed, and time has passed.
  \<open>same_store\<close>: nor has the idempotency store.
\<close>

definition same_setup :: "('s, 'c) Server \<Rightarrow> ('s, 'c) Server \<Rightarrow> bool" where
  "same_setup s s' \<longleftrightarrow>
     cfg s' = cfg s \<and> escrow_ops s' = escrow_ops s \<and> store_ops s' = store_ops s \<and> hmac s' = hmac s \<and>
     mpesaHMAC s' = mpesaHMAC s \<and> dbHealthFn s' = dbHealthFn s \<and> rpcHealthFn s' = rpcHealthFn s \<and>
     later (plat s) (plat s')"

definition same_store :: "('s, 'c) Server \<Rightarrow> ('s, 'c) Server \<Rightarrow> bool" where
  "same_store s s' \<longleftrightarrow> same_setup s s' \<and> store s' = store s"

lemma same_setup_refl [simp]: "same_setup s s"
  by (simp add: same_setup_def)

lemma same_store_refl [simp]: "same_store s s"
  by (simp add: same_store_def)

lemma same_setup_trans: "same_setup s t \<Longrightarrow> same_setup t u \<Longrightarrow> same_setup s u"
  by (auto simp: same_setup_def intro: later_trans)

lemma same_store_trans: "same_store s t \<Longrightarrow> same_store t u \<Longrightarrow> same_store s u"
  by (auto simp: same_store_def intro: same_setup_trans)

lemma same_store_setup: "same_store s t \<Longrightarrow> same_setup s t"
  by (simp add: same_store_def)

lemma same_store_metrics [simp]: "same_store s (with_metrics f t) = same_store s t"
  by (simp add: same_store_def same_setup_def with_metrics_def)

lemma same_setup_metrics [simp]: "same_setup s (with_metrics f t) = same_setup s t"
  by (simp add: same_setup_def with_metrics_def)

lemma same_store_plat: "later (plat s) w \<Longrightarrow> same_store s (s\<lparr>plat := w\<rparr>)"
  by (simp add: same_store_def same_setup_def)

lemma same_store_escrow [simp]: "same_store s (s\<lparr>escrow := c\<rparr>)"
  by (simp add: same_store_def same_setup_def)

lemma same_store_set_plat: "later (plat s) w \<Longrightarrow> same_store s (set_plat w s)"
  by (simp add: set_plat_def same_store_plat)

lemma server_now_same: "server_now s = (t, s') \<Longrightarrow> same_store s s'"
  by (auto simp: server_now_def Now_def same_store_def same_setup_def later_def)

lemma submit_intent_same: "submit_intent s req = (r, s') \<Longrightarrow> same_store s s'"
  by (auto simp: submit_intent_def split: prod.splits)

lemma with_metrics_fields [simp]:
  "plat (with_metrics f s) = plat s" "store (with_metrics f s) = store s" "escrow (with_metrics f s) = escrow s"
  "cfg (with_metrics f s) = cfg s" "escrow_ops (with_metrics f s) = escrow_ops s"
  "store_ops (with_metrics f s) = store_ops s" "metrics (with_metrics f s) = f (metrics s)"
  "hmac (with_metrics f s) = hmac s" "mpesaHMAC (with_metrics f s) = mpesaHMAC s"
  by (simp_all add: with_metrics_def)

end
