(* ===== verification/Dlq.thy ===== *)
theory Dlq
  imports ServerState
begin

text \<open>
  The dead-letter queue of \<open>api/internal/server/server.go\<close>: a directory with one JSON file per
  callback that could not be executed.
\<close>

section \<open>Dead-letter queue\<close>

definition currentDLQDepth :: "('s, 'c) Server \<Rightarrow> int \<times> ('s, 'c) Server" where
  "currentDLQDepth s =
     (if DLQPath (Service (cfg s)) = [] then (0, s)
      else
        (case ReadDir (plat s) (DLQPath (Service (cfg s))) of
           (Inl err, w) \<Rightarrow> (0, s\<lparr>plat := w\<rparr>)
         | (Inr entries, w) \<Rightarrow> (int (length entries), s\<lparr>plat := w\<rparr>)))"

definition updateDLQDepth :: "('s, 'c) Server \<Rightarrow> int \<times> ('s, 'c) Server" where
  "updateDLQDepth s =
     (let (depth, s) = currentDLQDepth s in (depth, with_metrics (setDLQDepth depth) s))"

definition dlq_entry :: "string \<Rightarrow> mpesaCallbackRequest \<Rightarrow> error \<Rightarrow> json" where
  "dlq_entry timestamp payload execErr =
     JObj [(''timestamp'', JStr timestamp),
           (''payload'', JObj [(''intentId'', JStr (mp_IntentID payload)), (''txRef'', JStr (mp_TxRef payload)),
              (''userAddress'', JStr (mp_UserAddress payload)), (''amount'', JStr (mp_Amount payload))]),
           (''error'', JStr (Error execErr))]"

definition dlq_filename :: "time \<Rightarrow> string \<Rightarrow> string" where
  "dlq_filename t txRef = show_int (UnixNano t) @ ''-'' @ txRef @ ''.json''"

definition writeDLQ :: "mpesaCallbackRequest \<Rightarrow> error \<Rightarrow> ('s, 'c) Server \<Rightarrow> ('s, 'c) Server" where
  "writeDLQ payload execErr s =
     (if DLQPath (Service (cfg s)) = [] then s
      else
        let (stamp, s) = server_now s in
        (case rfc3339 0 stamp of
           None \<Rightarrow> s
         | Some ts \<Rightarrow>
             let data = marshal_indent 0 (dlq_entry ts payload execErr) in
             (case MkdirAll (plat s) (DLQPath (Service (cfg s))) of
                (Some err, w) \<Rightarrow> s\<lparr>plat := w\<rparr>
              | (None, w) \<Rightarrow>
                  let s = s\<lparr>plat := w\<rparr>;
                      (t, s) = server_now s;
                      path = Join (DLQPath (Service (cfg s))) (dlq_filename t (mp_TxRef payload));
                      (err, w) = WriteFile (plat s) path data
                  in snd (updateDLQDepth (s\<lparr>plat := w\<rparr>)))))"

section \<open>What the queue touches\<close>

lemma currentDLQDepth_same: "currentDLQDepth s = (d, s') \<Longrightarrow> same_store s s' \<and> escrow s' = escrow s"
  by (auto simp: currentDLQDepth_def same_store_plat dest: ReadDir_later
      split: if_splits prod.splits sum.splits)

lemma updateDLQDepth_same: "updateDLQDepth s = (d, s') \<Longrightarrow> same_store s s' \<and> escrow s' = escrow s"
  by (auto simp: updateDLQDepth_def dest: currentDLQDepth_same split: prod.splits)

lemma writeDLQ_same: "same_store s (writeDLQ payload err s) \<and> escrow (writeDLQ payload err s) = escrow s"
proof -
  obtain stamp s1 where s1: "server_now s = (stamp, s1)" by fastforce
  obtain e w where mk: "MkdirAll (plat s1) (DLQPath (Service (cfg s1))) = (e, w)" by fastforce
  let ?s2 = "s1\<lparr>plat := w\<rparr>"
  obtain t s3 where s3: "server_now ?s2 = (t, s3)" by fastforce
  have 1: "same_store s s1" using s1 by (rule server_now_same)
  have 2: "same_store s ?s2"
    by (rule same_store_trans [OF 1 same_store_plat]) (rule MkdirAll_later [OF mk])
  have 3: "same_store s s3" by (rule same_store_trans [OF 2 server_now_same [OF s3]])
  have e: "escrow s1 = escrow s" "escrow s3 = escrow s" 
    using s1 s3 by (auto simp: server_now_def Now_def)
  have 4: "same_store s (s3\<lparr>plat := w'\<rparr>)" if "WriteFile (plat s3) p d = (err, w')" for p d err w'
    by (rule same_store_trans [OF 3 same_store_plat]) (rule WriteFile_later [OF that])
  have 5: "same_store s (snd (updateDLQDepth (s3\<lparr>plat := w'\<rparr>))) \<and>
      escrow (snd (updateDLQDepth (s3\<lparr>plat := w'\<rparr>))) = escrow s"
    if "WriteFile (plat s3) p d = (err, w')" for p d err w'
    using updateDLQDepth_same [of "s3\<lparr>plat := w'\<rparr>"] same_store_trans [OF 4 [OF that]] e
    by (cases "updateDLQDepth (s3\<lparr>plat := w'\<rparr>)") auto
  show ?thesis
    unfolding writeDLQ_def s1 prod.case Let_def
    using 1 2 5 e by (auto simp: mk s3 split: option.splits prod.splits)
qed

section \<open>Where an entry goes\<close>

lemma show_int_no_slash: "CHR ''/'' \<notin> set (show_int n)"
proof -
  have "\<not> is_digit (CHR ''/'')" by (simp add: is_digit_def)
  then have "CHR ''/'' \<notin> set (show_nat k)" for k
    using show_nat_digits [of k] by (auto simp: list_all_iff)
  then show ?thesis by (simp add: show_int_def)
qed

lemma dlq_filename_plain: "CHR ''/'' \<notin> set txRef \<Longrightarrow> plain_elem (dlq_filename t txRef)"
proof -
  assume "CHR ''/'' \<notin> set txRef"
  then have "CHR ''/'' \<notin> set (dlq_filename t txRef)"
    using show_int_no_slash [of "UnixNano t"] by (simp add: dlq_filename_def)
  moreover have "6 \<le> length (dlq_filename t txRef)" by (simp add: dlq_filename_def)
  ultimately show ?thesis by (auto simp: plain_elem_def)
qed

text \<open>The file of an entry written when the clock has been read \<open>n\<close> times.\<close>

definition dlq_file :: "('s, 'c) Server \<Rightarrow> string \<Rightarrow> string" where
  "dlq_file s txRef =
     Join (DLQPath (Service (cfg s))) (dlq_filename (clk (plat s) (Suc (ticks (plat s)))) txRef)"

lemma dlq_file_below:
  assumes "DLQPath (Service (cfg s)) \<noteq> []" and "CHR ''/'' \<notin> set txRef"
  shows "Dir (dlq_file s txRef) = Clean (DLQPath (Service (cfg s)))" "Clean (dlq_file s txRef) = dlq_file s txRef"
  using assms dlq_filename_plain by (simp_all add: dlq_file_def Dir_Join Clean_Join)

text \<open>The queue directory can be made and the name of the entry is not a directory.\<close>

definition dlq_ready :: "('s, 'c) Server \<Rightarrow> string \<Rightarrow> bool" where
  "dlq_ready s txRef \<longleftrightarrow>
     healthy (plat s) \<and> DLQPath (Service (cfg s)) \<noteq> [] \<and> CHR ''/'' \<notin> set txRef \<and>
     (\<forall>q \<in> set (path_up (Clean (DLQPath (Service (cfg s))))). map_of (files (plat s)) q = None \<and> q \<noteq> dlq_file s txRef) \<and>
     dlq_file s txRef \<notin> set (dirs (plat s)) \<and>
     0 \<le> clk (plat s) (ticks (plat s)) \<and> clk (plat s) (ticks (plat s)) \<le> max_i64"

lemma path_up_head: "p \<in> set (path_up p)"
  by (subst path_up.simps) simp

lemma writeDLQ_writes:
  assumes "dlq_ready s (mp_TxRef p)"
  obtains ts w where "rfc3339 0 (clk (plat s) (ticks (plat s))) = Some ts"
    "plat (writeDLQ p err s) = w"
    "files w = AList.update (dlq_file s (mp_TxRef p)) (marshal_indent 0 (dlq_entry ts p err)) (files (plat s))"
    "set (dirs w) = set (path_up (Clean (DLQPath (Service (cfg s))))) \<union> set (dirs (plat s))"
    "metrics (writeDLQ p err s) =
       setDLQDepth (int (length (dir_entries w (Clean (DLQPath (Service (cfg s))))))) (metrics s)"
proof -
  let ?dlq = "DLQPath (Service (cfg s))"
  let ?file = "dlq_file s (mp_TxRef p)"
  have ready: "healthy (plat s)" "?dlq \<noteq> []" "CHR ''/'' \<notin> set (mp_TxRef p)" "?file \<notin> set (dirs (plat s))"
    "\<forall>q \<in> set (path_up (Clean ?dlq)). map_of (files (plat s)) q = None"
    "?file \<notin> set (path_up (Clean ?dlq))"
    using assms by (auto simp: dlq_ready_def)
  obtain ts where ts: "rfc3339 0 (clk (plat s) (ticks (plat s))) = Some ts"
    using rfc3339_printable assms by (auto simp: dlq_ready_def)
  let ?w1 = "(plat s)\<lparr>ticks := Suc (ticks (plat s))\<rparr>"
  have "healthy ?w1" using ready(1) by (simp add: healthy_def)
  then obtain w2 where w2: "MkdirAll ?w1 ?dlq = (None, w2)" "healthy w2" "files w2 = files (plat s)"
    "set (dirs w2) = set (path_up (Clean ?dlq)) \<union> set (dirs (plat s))" "clk w2 = clk (plat s)"
    "ticks w2 = Suc (ticks (plat s))"
    by (rule MkdirAll_ok [of ?w1 ?dlq]) (use ready(5) in simp_all)
  let ?w3 = "w2\<lparr>ticks := Suc (ticks w2)\<rparr>"
  let ?data = "marshal_indent 0 (dlq_entry ts p err)"
  note below = dlq_file_below [OF ready(2,3)]
  have "healthy ?w3" using w2(2) by (simp add: healthy_def)
  moreover have "Clean ?file \<notin> set (dirs ?w3)" "Dir (Clean ?file) \<in> set (dirs ?w3)"
    using ready(4,6) w2(4) path_up_head [of "Clean ?dlq"] by (simp_all add: below)
  ultimately obtain w4 where w4: "WriteFile ?w3 ?file ?data = (None, w4)" "healthy w4"
    "files w4 = AList.update (Clean ?file) ?data (files ?w3)" "dirs w4 = dirs ?w3"
    by (rule WriteFile_ok)
  have "Clean ?dlq \<in> set (dirs w4)" using w2(4) w4(4) path_up_head [of "Clean ?dlq"] by simp
  then obtain w5 where w5: "ReadDir w4 ?dlq = (Inr (dir_entries w4 (Clean ?dlq)), w5)" "files w5 = files w4"
    "dirs w5 = dirs w4"
    by (rule ReadDir_ok [OF w4(2)])
  have "writeDLQ p err s =
     with_metrics (setDLQDepth (int (length (dir_entries w4 (Clean ?dlq))))) (s\<lparr>plat := w5\<rparr>)"
    using ready(2) ts w2(1,5,6) w4(1) w5(1)
    by (simp add: writeDLQ_def server_now_def Now_def dlq_file_def updateDLQDepth_def currentDLQDepth_def Let_def)
  moreover have "dir_entries w5 d = dir_entries w4 d" for d using w5 by (simp add: dir_entries_def)
  ultimately show thesis
    using that [of ts w5] ts w2 w4 w5 below by simp
qed

text \<open>
  (C17) When the queue directory exists, no call of the operating system fails and the payment
  reference contains no slash, a failed callback becomes exactly one new file directly in the queue
  directory, with the time, the payload and the error; no other file changes, and the depth gauge is
  set to the number of entries, one more than before.
\<close>

theorem dlq_entry_written:
  assumes "dlq_ready s (mp_TxRef p)" and "map_of (files (plat s)) (dlq_file s (mp_TxRef p)) = None"
    and "set (path_up (Clean (DLQPath (Service (cfg s))))) \<subseteq> set (dirs (plat s))"
  shows "\<exists>ts. rfc3339 0 (clk (plat s) (ticks (plat s))) = Some ts \<and>
     Dir (dlq_file s (mp_TxRef p)) = Clean (DLQPath (Service (cfg s))) \<and>
     map_of (files (plat (writeDLQ p err s))) =
       (map_of (files (plat s)))(dlq_file s (mp_TxRef p) \<mapsto> marshal_indent 0 (dlq_entry ts p err)) \<and>
     metrics (writeDLQ p err s) =
       setDLQDepth (int (length (dir_entries (plat s) (Clean (DLQPath (Service (cfg s)))))) + 1) (metrics s)"
proof -
  let ?dlq = "Clean (DLQPath (Service (cfg s)))"
  let ?file = "dlq_file s (mp_TxRef p)"
  obtain ts w where w: "rfc3339 0 (clk (plat s) (ticks (plat s))) = Some ts" "plat (writeDLQ p err s) = w"
    "files w = AList.update ?file (marshal_indent 0 (dlq_entry ts p err)) (files (plat s))"
    "set (dirs w) = set (path_up ?dlq) \<union> set (dirs (plat s))"
    "metrics (writeDLQ p err s) = setDLQDepth (int (length (dir_entries w ?dlq))) (metrics s)"
    by (rule writeDLQ_writes [OF assms(1)])
  have below: "Dir ?file = ?dlq"
    using assms(1) dlq_file_below by (auto simp: dlq_ready_def)
  have "?file \<noteq> ?dlq" using assms(1) path_up_head [of ?dlq] by (auto simp: dlq_ready_def)
  then have "length (dir_entries w ?dlq) = Suc (length (dir_entries (plat s) ?dlq))"
    using dir_entries_new_file [OF w(3) _ assms(2) below] w(4) assms(3) by auto
  then show ?thesis using w below by (simp add: update_conv' ac_simps)
qed

section \<open>References with a slash\<close>


end
