(* ===== verification/Retry.thy ===== *)
theory Retry
  imports ServerState
begin

text \<open>
  Execution of a mint with retries and exponential backoff (\<open>executeMintWithRetry\<close> and
  \<open>isRetryable\<close> of \<open>api/internal/server/server.go\<close>).
\<close>

section \<open>Execution with retries\<close>

definition isRetryable :: "error option \<Rightarrow> bool" where
  "isRetryable err =
     (case err of
        None \<Rightarrow> False
      | Some e \<Rightarrow>
          let msg = Error e
          in if Contains msg ''UserNotCompliant'' then False
             else if Contains (ToLower msg) ''invalid'' then False
             else True)"

text \<open>The wait before the next attempt, and the backoff after it.\<close>

definition retry_sleep :: "RetryConfig \<Rightarrow> duration \<Rightarrow> duration" where
  "retry_sleep rc backoff =
     (if MaxBackoff rc > 0 \<and> backoff > MaxBackoff rc then MaxBackoff rc else backoff)"

definition next_backoff :: "RetryConfig \<Rightarrow> duration \<Rightarrow> duration" where
  "next_backoff rc backoff =
     (if BackoffMultiplier rc > 1 then dur_mult backoff (BackoffMultiplier rc) else backoff)"

text \<open>
  The loop from attempt \<open>i\<close> on; \<open>ctx k\<close> is what the \<open>k\<close>-th wait of the request observes.
\<close>

function retry_loop ::
  "(nat \<Rightarrow> error option) \<Rightarrow> string \<Rightarrow> int \<Rightarrow> int \<Rightarrow> duration \<Rightarrow> ('s, 'c) Server \<Rightarrow>
   string res \<times> ('s, 'c) Server"
where
  "retry_loop ctx intentID attempts i backoff s =
     (if i \<le> attempts then
        (case execute_mint s intentID of
           (Inr resp, s) \<Rightarrow> (Inr (eres_TxHash resp), with_metrics (incRetry ''success'') s)
         | (Inl err, s) \<Rightarrow>
             if \<not> isRetryable (Some err) \<or> i = attempts
             then (Inl err, with_metrics (incRetry ''failed'') s)
             else
               let s = with_metrics (incRetry ''retry'') s;
                   s = start_timer (retry_sleep (Retry (cfg s)) backoff) s
               in (case ctx (nat (i - 1)) of
                     Some e \<Rightarrow> (Inl e, s)
                   | None \<Rightarrow>
                       retry_loop ctx intentID attempts (i + 1) (next_backoff (Retry (cfg s)) backoff) s))
      else (Inl (ErrNew ''exhausted retries''), s))"
  by pat_completeness auto
termination
  by (relation "measure (\<lambda>(ctx, d, attempts, i, b, s). nat (attempts - i + 1))") auto

declare retry_loop.simps [simp del]

definition retry_attempts :: "RetryConfig \<Rightarrow> int" where
  "retry_attempts rc = (if MaxAttempts rc \<le> 0 then 1 else MaxAttempts rc)"

definition retry_initial :: "RetryConfig \<Rightarrow> duration" where
  "retry_initial rc = (if InitialBackoff rc \<le> 0 then 500 * Millisecond else InitialBackoff rc)"

definition executeMintWithRetry ::
  "(nat \<Rightarrow> error option) \<Rightarrow> string \<Rightarrow> ('s, 'c) Server \<Rightarrow> string res \<times> ('s, 'c) Server"
where
  "executeMintWithRetry ctx intentID s =
     retry_loop ctx intentID (retry_attempts (Retry (cfg s))) 1 (retry_initial (Retry (cfg s))) s"


section \<open>Attempts\<close>

text \<open>
  The state of the client after \<open>k\<close> executions of an intent, the answer to execution \<open>k\<close>
  (from 0), and the backoff in force at that execution.
\<close>

fun mint_state :: "'c Client \<Rightarrow> string \<Rightarrow> 'c \<Rightarrow> nat \<Rightarrow> 'c" where
  "mint_state ops intentID c 0 = c"
| "mint_state ops intentID c (Suc k) = mint_state ops intentID (snd (client_ExecuteMint ops c intentID)) k"

definition mint_result :: "'c Client \<Rightarrow> string \<Rightarrow> 'c \<Rightarrow> nat \<Rightarrow> ExecuteMintResponse res" where
  "mint_result ops intentID c k = fst (client_ExecuteMint ops (mint_state ops intentID c k) intentID)"

fun backoff_at :: "RetryConfig \<Rightarrow> duration \<Rightarrow> nat \<Rightarrow> duration" where
  "backoff_at rc b 0 = b"
| "backoff_at rc b (Suc k) = backoff_at rc (next_backoff rc b) k"

definition waits :: "RetryConfig \<Rightarrow> duration \<Rightarrow> nat \<Rightarrow> duration list" where
  "waits rc b k = map (\<lambda>j. retry_sleep rc (backoff_at rc b j)) [0..<k]"

text \<open>
  \<open>retries_until\<close>: the executions before \<open>k\<close> failed with errors worth a retry and their waits ran
  to the end.
\<close>

definition retries_until ::
  "'c Client \<Rightarrow> (nat \<Rightarrow> error option) \<Rightarrow> string \<Rightarrow> 'c \<Rightarrow> nat \<Rightarrow> bool"
where
  "retries_until ops ctx intentID c k \<longleftrightarrow>
     (\<forall>j<k. ctx j = None \<and> (\<exists>e. mint_result ops intentID c j = Inl e \<and> isRetryable (Some e)))"

lemma waits_Suc: "waits rc b (Suc k) = retry_sleep rc b # waits rc (next_backoff rc b) k"
  by (simp add: waits_def upt_conv_Cons map_Suc_upt [symmetric] del: upt_Suc)

lemma mint_result_0 [simp]: "mint_result ops d c 0 = fst (client_ExecuteMint ops c d)"
  by (simp add: mint_result_def)

lemma mint_result_Suc [simp]:
  "mint_result ops d c (Suc k) = mint_result ops d (snd (client_ExecuteMint ops c d)) k"
  by (simp add: mint_result_def)

lemma all_less_Suc_shift: "(\<forall>j<Suc k. P j) \<longleftrightarrow> P 0 \<and> (\<forall>j<k. P (Suc j))"
  using less_Suc_eq_0_disj by auto

lemma retries_until_Suc:
  "retries_until ops ctx d c (Suc k) \<longleftrightarrow>
     ctx 0 = None \<and> (\<exists>e. fst (client_ExecuteMint ops c d) = Inl e \<and> isRetryable (Some e)) \<and>
     retries_until ops (\<lambda>j. ctx (Suc j)) d (snd (client_ExecuteMint ops c d)) k"
  by (auto simp: retries_until_def all_less_Suc_shift)

lemma retries_until_0 [simp]: "retries_until ops ctx d c 0"
  by (simp add: retries_until_def)

section \<open>What the loop does\<close>

text \<open>
  How the loop ends when \<open>n\<close> further executions are allowed after the first: at execution \<open>k\<close>,
  with its answer, or with the context's error in the wait after it.
\<close>

definition ends_at ::
  "'c Client \<Rightarrow> (nat \<Rightarrow> error option) \<Rightarrow> string \<Rightarrow> 'c \<Rightarrow> nat \<Rightarrow> nat \<Rightarrow> string res \<Rightarrow> bool \<Rightarrow> bool"
where
  "ends_at ops ctx intentID c n k res waited \<longleftrightarrow>
     k \<le> n \<and> retries_until ops ctx intentID c k \<and>
     (case mint_result ops intentID c k of
        Inr resp \<Rightarrow> \<not> waited \<and> res = Inr (eres_TxHash resp)
      | Inl e \<Rightarrow>
          if \<not> isRetryable (Some e) \<or> k = n then \<not> waited \<and> res = Inl e
          else waited \<and> (\<exists>x. ctx k = Some x \<and> res = Inl x))"

lemma ends_at_shift:
  assumes "fst (client_ExecuteMint ops c d) = Inl e" "isRetryable (Some e)" "ctx 0 = None"
    and "ends_at ops (\<lambda>j. ctx (Suc j)) d (snd (client_ExecuteMint ops c d)) n k res waited"
  shows "ends_at ops ctx d c (Suc n) (Suc k) res waited"
  using assms by (simp add: ends_at_def retries_until_Suc split: sum.splits)

text \<open>
  The loop touches the client, the timers and the metrics only.
\<close>

definition loop_frame :: "('s, 'c) Server \<Rightarrow> ('s, 'c) Server \<Rightarrow> bool" where
  "loop_frame s s' \<longleftrightarrow>
     cfg s' = cfg s \<and> escrow_ops s' = escrow_ops s \<and> store_ops s' = store_ops s \<and> store s' = store s \<and>
     hmac s' = hmac s \<and> mpesaHMAC s' = mpesaHMAC s \<and> dbHealthFn s' = dbHealthFn s \<and>
     rpcHealthFn s' = rpcHealthFn s \<and> plat s' = (plat s)\<lparr>timers := timers (plat s')\<rparr>"

lemma loop_frame_refl [simp]: "loop_frame s s"
  by (simp add: loop_frame_def)

lemma loop_frame_trans: "loop_frame s t \<Longrightarrow> loop_frame t u \<Longrightarrow> loop_frame s u"
  by (simp add: loop_frame_def) (metis platform.update_convs(6) platform.surjective)

lemma loop_frame_steps [simp]:
  "loop_frame s (with_metrics f s)" "loop_frame s (s\<lparr>escrow := c\<rparr>)" "loop_frame s (start_timer d s)"
  by (simp_all add: loop_frame_def with_metrics_def start_timer_def)

lemma retry_loop_step:
  assumes "i \<le> attempts" and "client_ExecuteMint (escrow_ops s) (escrow s) d = (a, c)"
  shows "retry_loop ctx d attempts i b s =
     (case a of
        Inr resp \<Rightarrow> (Inr (eres_TxHash resp), with_metrics (incRetry ''success'') (s\<lparr>escrow := c\<rparr>))
      | Inl e \<Rightarrow>
          if \<not> isRetryable (Some e) \<or> i = attempts
          then (Inl e, with_metrics (incRetry ''failed'') (s\<lparr>escrow := c\<rparr>))
          else
            let s1 = start_timer (retry_sleep (Retry (cfg s)) b)
                       (with_metrics (incRetry ''retry'') (s\<lparr>escrow := c\<rparr>))
            in case ctx (nat (i - 1)) of
                 Some x \<Rightarrow> (Inl x, s1)
               | None \<Rightarrow> retry_loop ctx d attempts (i + 1) (next_backoff (Retry (cfg s)) b) s1)"
  using assms
  by (subst retry_loop.simps)
    (auto simp: execute_mint_def with_metrics_def start_timer_def Let_def split: sum.splits option.splits)

lemma retry_loop_frame: "loop_frame s (snd (retry_loop ctx d attempts i b s))"
proof (induction "nat (attempts + 1 - i)" arbitrary: i b s)
  case 0
  then show ?case by (simp add: retry_loop.simps [of ctx d attempts i])
next
  case (Suc n)
  from Suc.hyps(2) have le: "i \<le> attempts" and n: "n = nat (attempts + 1 - (i + 1))" by simp_all
  obtain a c where ac: "client_ExecuteMint (escrow_ops s) (escrow s) d = (a, c)" by fastforce
  let ?s1 = "start_timer (retry_sleep (Retry (cfg s)) b) (with_metrics (incRetry ''retry'') (s\<lparr>escrow := c\<rparr>))"
  have metrics: "loop_frame s (with_metrics f (s\<lparr>escrow := c\<rparr>))" for f
    by (rule loop_frame_trans [OF loop_frame_steps(2) loop_frame_steps(1)])
  then have s1: "loop_frame s ?s1" by (rule loop_frame_trans [OF _ loop_frame_steps(3)])
  have rest: "loop_frame s (snd (retry_loop ctx d attempts (i + 1) b' ?s1))" for b'
    by (rule loop_frame_trans [OF s1 Suc.hyps(1) [OF n]])
  show ?case
    using metrics s1 rest
    by (cases a; cases "ctx (nat (i - 1))") (simp_all add: retry_loop_step [OF le ac] Let_def)
qed

lemma retry_loop_spec:
  assumes "1 \<le> i" and "attempts - i = int n"
    and "retry_loop ctx d attempts i b s = (res, s')"
  shows "\<exists>k waited. ends_at (escrow_ops s) (\<lambda>j. ctx (nat (i - 1) + j)) d (escrow s) n k res waited \<and>
       escrow s' = mint_state (escrow_ops s) d (escrow s) (Suc k) \<and>
       timers (plat s') = rev (waits (Retry (cfg s)) b (if waited then Suc k else k)) @ timers (plat s)"
    (is "\<exists>k waited. ?P n i b s k waited")
  using assms
proof (induction n arbitrary: i b s)
  case 0
  obtain a c where ac: "client_ExecuteMint (escrow_ops s) (escrow s) d = (a, c)" by fastforce
  from 0 have "i = attempts" "i \<le> attempts" by auto
  with 0 ac have "?P 0 i b s 0 False"
    by (auto simp: retry_loop_step [OF _ ac] ends_at_def with_metrics_def waits_def split: sum.splits)
  then show ?case by blast
next
  case (Suc n)
  obtain a c where ac: "client_ExecuteMint (escrow_ops s) (escrow s) d = (a, c)" by fastforce
  from Suc.prems have le: "i \<le> attempts" "i \<noteq> attempts" by auto
  let ?s1 = "start_timer (retry_sleep (Retry (cfg s)) b) (with_metrics (incRetry ''retry'') (s\<lparr>escrow := c\<rparr>))"
  note step = Suc.prems(3) [unfolded retry_loop_step [OF le(1) ac]]
  show ?case
  proof (cases "\<exists>e. a = Inl e \<and> isRetryable (Some e) \<and> ctx (nat (i - 1)) = None")
    case False
    define waited where "waited \<longleftrightarrow> (\<exists>e. a = Inl e \<and> isRetryable (Some e))"
    have "?P (Suc n) i b s 0 waited"
      using step ac le False
      by (cases a)
        (auto simp: ends_at_def with_metrics_def start_timer_def waits_def waited_def Let_def
          split: if_splits option.splits)
    then show ?thesis by blast
  next
    case True
    then obtain e where e: "a = Inl e" "isRetryable (Some e)" "ctx (nat (i - 1)) = None" by blast
    with step le have "retry_loop ctx d attempts (i + 1) (next_backoff (Retry (cfg s)) b) ?s1 = (res, s')"
      by (simp add: Let_def)
    moreover have "1 \<le> i + 1" "attempts - (i + 1) = int n" using Suc.prems by auto
    ultimately obtain k waited where IH: "?P n (i + 1) (next_backoff (Retry (cfg s)) b) ?s1 k waited"
      using Suc.IH by blast
    have "nat i = Suc (nat (i - 1))" using Suc.prems(1) by simp
    then have shift: "(\<lambda>j. ctx (nat i + j)) = (\<lambda>j. ctx (Suc (nat (i - 1) + j)))" by simp
    have "?P (Suc n) i b s (Suc k) waited"
      using IH ends_at_shift [where ctx = "\<lambda>j. ctx (nat (i - 1) + j)", of "escrow_ops s" "escrow s" d e n k res waited] e ac
      by (cases waited) (simp_all add: shift waits_Suc start_timer_def with_metrics_def)
    then show ?thesis by blast
  qed
qed

text \<open>How the loop ends is determined: at most one execution and answer fit.\<close>

lemma retries_until_stop:
  assumes "retries_until ops ctx d c k" and "j < k"
  shows "ctx j = None \<and> (\<exists>e. mint_result ops d c j = Inl e \<and> isRetryable (Some e))"
  using assms by (simp add: retries_until_def)

lemma ends_at_not_later:
  assumes "ends_at ops ctx d c n k res waited" and "ends_at ops ctx d c n k' res' waited'"
  shows "\<not> k < k'"
proof
  assume "k < k'"
  with assms(2) have "ctx k = None" "\<exists>e. mint_result ops d c k = Inl e \<and> isRetryable (Some e)" "k \<noteq> n"
    using retries_until_stop [of ops ctx d c k' k] by (auto simp: ends_at_def)
  with assms(1) show False by (auto simp: ends_at_def)
qed

lemma ends_at_unique:
  assumes "ends_at ops ctx d c n k res waited" and "ends_at ops ctx d c n k' res' waited'"
  shows "k = k' \<and> res = res' \<and> waited = waited'"
proof -
  have "k = k'" using ends_at_not_later [OF assms] ends_at_not_later [OF assms(2,1)] by simp
  then show ?thesis
    using assms by (auto simp: ends_at_def split: sum.splits if_splits)
qed

text \<open>The whole call: the loop from the first attempt, with the configured bound and backoff.\<close>

lemma retry_attempts_pos: "1 \<le> retry_attempts rc"
  by (simp add: retry_attempts_def)

lemma executeMintWithRetry_ends:
  assumes "executeMintWithRetry ctx d s = (res, s')"
  obtains k waited where
    "ends_at (escrow_ops s) ctx d (escrow s) (nat (retry_attempts (Retry (cfg s)) - 1)) k res waited"
    "escrow s' = mint_state (escrow_ops s) d (escrow s) (Suc k)"
    "timers (plat s') =
       rev (waits (Retry (cfg s)) (retry_initial (Retry (cfg s))) (if waited then Suc k else k)) @ timers (plat s)"
    "loop_frame s s'"
proof -
  let ?n = "nat (retry_attempts (Retry (cfg s)) - 1)"
  have "retry_attempts (Retry (cfg s)) - 1 = int ?n"
    using retry_attempts_pos [of "Retry (cfg s)"] by simp
  from retry_loop_spec [OF _ this assms [unfolded executeMintWithRetry_def]] that
    retry_loop_frame [of s ctx d "retry_attempts (Retry (cfg s))" 1 "retry_initial (Retry (cfg s))"]
  show thesis by (auto simp: assms [unfolded executeMintWithRetry_def])
qed

lemma executeMintWithRetry_frame: "loop_frame s (snd (executeMintWithRetry ctx d s))"
  unfolding executeMintWithRetry_def by (rule retry_loop_frame)

lemma executeMintWithRetry_same: "executeMintWithRetry ctx d s = (res, s') \<Longrightarrow> same_store s s'"
  using executeMintWithRetry_frame [of s ctx d]
  by (auto simp: loop_frame_def same_store_def same_setup_def later_def dest: arg_cong [of _ _ clk] arg_cong [of _ _ ticks])

text \<open>
  (C5) \<open>executeMintWithRetry\<close> stops at some execution \<open>k\<close> (from 0) within the configured bound:
  all earlier executions failed with retryable errors and were followed by a full wait; it returns
  the answer of execution \<open>k\<close>, or the context's error if the request ends in the wait after
  it. The chain has seen exactly \<open>k + 1\<close> calls of \<open>ExecuteMint\<close>, the timers are the backoff
  schedule, and nothing else of the server has changed but metrics.
\<close>

theorem executeMintWithRetry_spec:
  "case executeMintWithRetry ctx intentID s of
     (res, s') \<Rightarrow>
       \<exists>k waited.
         ends_at (escrow_ops s) ctx intentID (escrow s) (nat (retry_attempts (Retry (cfg s)) - 1)) k res waited \<and>
         escrow s' = mint_state (escrow_ops s) intentID (escrow s) (Suc k) \<and>
         timers (plat s') =
           rev (waits (Retry (cfg s)) (retry_initial (Retry (cfg s))) (if waited then Suc k else k))
             @ timers (plat s) \<and>
         loop_frame s s'"
proof (cases "executeMintWithRetry ctx intentID s")
  case (Pair res s')
  show ?thesis
    unfolding Pair prod.case
    by (rule executeMintWithRetry_ends [OF Pair]) (intro exI conjI; assumption)
qed

text \<open>
  (C12) If some execution within the bound succeeds, every execution before it failed with a
  retryable error and no wait was cut short, then \<open>executeMintWithRetry\<close> returns that execution's
  transaction hash: a transient failure never loses a mint.
\<close>

theorem executeMintWithRetry_succeeds:
  assumes "retries_until (escrow_ops s) ctx intentID (escrow s) k"
    and "mint_result (escrow_ops s) intentID (escrow s) k = Inr resp"
    and "int k < retry_attempts (Retry (cfg s))"
  shows "fst (executeMintWithRetry ctx intentID s) = Inr (eres_TxHash resp)"
proof (cases "executeMintWithRetry ctx intentID s")
  case (Pair res s')
  let ?n = "nat (retry_attempts (Retry (cfg s)) - 1)"
  have "ends_at (escrow_ops s) ctx intentID (escrow s) ?n k (Inr (eres_TxHash resp)) False"
    using assms by (simp add: ends_at_def)
  moreover obtain k' waited where
    "ends_at (escrow_ops s) ctx intentID (escrow s) ?n k' res waited"
    by (rule executeMintWithRetry_ends [OF Pair])
  ultimately have "res = Inr (eres_TxHash resp)" by (simp only: ends_at_unique)
  with Pair show ?thesis by simp
qed

lemma permanent_stops:
  assumes "client_ExecuteMint (escrow_ops s) (escrow s) intentID = (Inl err, c)" and "\<not> isRetryable (Some err)"
  shows "executeMintWithRetry ctx intentID s = (Inl err, with_metrics (incRetry ''failed'') (s\<lparr>escrow := c\<rparr>))"
  by (simp add: executeMintWithRetry_def retry_loop_step [OF retry_attempts_pos assms(1)] assms(2))

text \<open>
  (C13) An error that is not retryable (its text contains \<open>UserNotCompliant\<close>, or \<open>invalid\<close> in
  any case) ends the call at once: one execution, no wait, the error returned as it is.
\<close>

theorem executeMintWithRetry_permanent:
  assumes "client_ExecuteMint (escrow_ops s) (escrow s) intentID = (Inl err, c)"
    and "Contains (Error err) ''UserNotCompliant'' \<or> Contains (ToLower (Error err)) ''invalid''"
  shows "executeMintWithRetry ctx intentID s = (Inl err, with_metrics (incRetry ''failed'') (s\<lparr>escrow := c\<rparr>))"
  using assms by (intro permanent_stops) (auto simp: isRetryable_def Let_def)

section \<open>The backoff schedule\<close>

lemma backoff_at_snoc: "backoff_at rc b (Suc k) = next_backoff rc (backoff_at rc b k)"
  by (induction k arbitrary: b) simp_all

text \<open>Modulo \<open>2^64\<close> the backoff is a geometric sequence, and exactly so while it fits.\<close>

lemma backoff_at_i64:
  assumes "1 < BackoffMultiplier rc" and "in_i64 b"
  shows "backoff_at rc b k = i64 (b * BackoffMultiplier rc ^ k)"
proof (induction k)
  case (Suc k)
  have "i64 (i64 x * y) = i64 (x * y)" for x y
    using signed_take_bit_mult [of 63 "signed_take_bit 63 x" y] signed_take_bit_mult [of 63 x y]
    by (simp add: i64_def)
  with Suc assms show ?case
    by (simp add: backoff_at_snoc next_backoff_def dur_mult_def ac_simps del: backoff_at.simps(2))
qed (use assms in simp)

lemma backoff_at_exact:
  assumes "1 < BackoffMultiplier rc" and "0 < b" and "b * BackoffMultiplier rc ^ n \<le> max_i64" and "k \<le> n"
  shows "backoff_at rc b k = b * BackoffMultiplier rc ^ k"
proof -
  have "1 \<le> BackoffMultiplier rc ^ k" "BackoffMultiplier rc ^ k \<le> BackoffMultiplier rc ^ n"
    using assms(1,4) by (auto intro: power_increasing)
  then have "b \<le> b * BackoffMultiplier rc ^ k" "b * BackoffMultiplier rc ^ k \<le> b * BackoffMultiplier rc ^ n"
    using assms(2) by (simp_all add: mult_left_mono)
  then have "in_i64 b" "in_i64 (b * BackoffMultiplier rc ^ k)"
    using assms(2,3) unfolding in_i64_def by linarith+
  with assms(1) show ?thesis by (simp add: backoff_at_i64)
qed

text \<open>
  (C14) While the backoff fits 64 bits, the wait after attempt \<open>k + 1\<close> is
  \<open>min(initial * multiplier^k, max)\<close>.
\<close>

theorem waits_geometric:
  assumes "1 < BackoffMultiplier rc" and "0 < b" and "0 < MaxBackoff rc"
    and "b * BackoffMultiplier rc ^ n \<le> max_i64"
  shows "waits rc b n = map (\<lambda>k. min (b * BackoffMultiplier rc ^ k) (MaxBackoff rc)) [0..<n]"
  using assms by (auto simp: waits_def retry_sleep_def backoff_at_exact [OF assms(1,2,4)])

text \<open>The retry settings of \<open>seed.json\<close>, with the number of attempts left open.\<close>

definition seed_retry :: "int \<Rightarrow> RetryConfig" where
  "seed_retry attempts =
     \<lparr>MaxAttempts = attempts, InitialBackoff = 751 * Millisecond, MaxBackoff = 30000 * Millisecond,
      BackoffMultiplier = 2\<rparr>"

theorem waits_geometric_witness:
  "waits (seed_retry 6) (751 * Millisecond) 7 =
     map (\<lambda>k. min (751 * Millisecond * 2 ^ k) (30000 * Millisecond)) [0..<7]"
  using waits_geometric [of "seed_retry 6" "751 * Millisecond" 7]
  by (simp add: seed_retry_def Millisecond_def)


text \<open>
  (C19) The backoff is multiplied without a bound before it is capped, so it wraps around: with the
  settings of \<open>seed.json\<close> and enough attempts, the wait after the 35th attempt is negative, and
  from the 59th on every wait is zero instead of the configured 30 seconds.
\<close>

theorem backoff_wraps_around:
  "retry_sleep (seed_retry n) (backoff_at (seed_retry n) (retry_initial (seed_retry n)) 34) < 0 \<and>
   retry_sleep (seed_retry n) (backoff_at (seed_retry n) (retry_initial (seed_retry n)) (58 + k)) = 0"
proof -
  have "(751000000::int) * 2 ^ (58 + k) = (11734375 * 2 ^ k) * 2 ^ 64" by (simp add: power_add)
  then have "i64 (751000000 * 2 ^ (58 + k)) = 0" by (simp only: i64_multiple)
  moreover have "i64 (751000000 * 2 ^ 34) < 0" by (simp add: i64_mod)
  ultimately show ?thesis
    by (simp add: retry_sleep_def backoff_at_i64 retry_initial_def seed_retry_def Millisecond_def in_i64_def)
qed

end
