(* ===== verification/Handlers.thy ===== *)
theory Handlers
  imports Dlq Retry
begin

text \<open>
  The HTTP handlers of \<open>api/internal/server/server.go\<close> (mint intents, M-PESA callbacks, health)
  and the wiring of \<open>NewServer\<close>.
\<close>

section \<open>Mint intents\<close>

text \<open>The record a handler stores: two readings of the clock, the second one plus the window.\<close>

definition new_record :: "int \<Rightarrow> string \<Rightarrow> ('s, 'c) Server \<Rightarrow> Record \<times> ('s, 'c) Server" where
  "new_record code b s =
     (let (created, s) = server_now s;
          (t, s) = server_now s
      in (\<lparr>StatusCode = code, Response = b, CreatedAt = created,
           ExpiresAt = time_Add t (IdempotencyWindow (Service (cfg s)))\<rparr>, s))"

definition handleMintIntents :: "request \<Rightarrow> ('s, 'c) Server \<Rightarrow> response \<times> ('s, 'c) Server" where
  "handleMintIntents r s =
     (if Method r \<noteq> ''POST'' then (http_Error ''method not allowed'' StatusMethodNotAllowed, s)
      else
        let key = TrimSpace (Header_Get (Header r) ''X-Idempotency-Key'') in
        if key = [] then (http_Error ''missing X-Idempotency-Key header'' StatusBadRequest, s)
        else
          (case get_record s key of
             (Inr (Some existing), s) \<Rightarrow>
               (json_response (StatusCode existing) (Response existing), with_metrics (incMint ''cached'') s)
           | (_, s) \<Rightarrow>
               (case decode_mintIntentRequest r of
                  None \<Rightarrow> (http_Error ''invalid json payload'' StatusBadRequest, s)
                | Some payload \<Rightarrow>
                    (case validateMintIntentRequest payload of
                       Some err \<Rightarrow> (http_Error (Error err) StatusBadRequest, s)
                     | None \<Rightarrow>
                         (case submit_intent s
                                 \<lparr>sr_UserAddress = mi_UserAddress payload, sr_Amount = mi_Amount payload,
                                  sr_CountryCode = mi_CountryCode payload, sr_TxRef = mi_TxRef payload\<rparr> of
                            (Inl err, s) \<Rightarrow>
                              (http_Error (''failed to submit intent: '' @ Error err) StatusBadGateway,
                               with_metrics (incMint ''failed'') s)
                          | (Inr result, s) \<Rightarrow>
                              let b = marshal (mintIntentResponse (sres_IntentID result) ''submitted''
                                        (sres_TxHash result));
                                  (rec, s) = new_record StatusCreated b s;
                                  (_, s) = save_record s key rec
                              in (json_response StatusCreated b, with_metrics (incMint ''created'') s))))))"

section \<open>The M-PESA callback\<close>

definition handleMpesaCallback :: "request \<Rightarrow> ('s, 'c) Server \<Rightarrow> response \<times> ('s, 'c) Server" where
  "handleMpesaCallback r s =
     (if Method r \<noteq> ''POST'' then (http_Error ''method not allowed'' StatusMethodNotAllowed, s)
      else
        (case decode_mpesaCallbackRequest r of
           None \<Rightarrow> (http_Error ''invalid json payload'' StatusBadRequest, s)
         | Some payload \<Rightarrow>
             (case validateMpesaRequest payload of
                Some err \<Rightarrow> (http_Error (Error err) StatusBadRequest, s)
              | None \<Rightarrow>
                  let key = mpesaKeyPrefix @ mp_TxRef payload in
                  (case get_record s key of
                     (Inr (Some existing), s) \<Rightarrow>
                       (json_response (StatusCode existing) (Response existing),
                        with_metrics (incCallback ''cached'') s)
                   | (_, s) \<Rightarrow>
                       (case executeMintWithRetry (ctxDone r) (mp_IntentID payload) s of
                          (Inl err, s) \<Rightarrow>
                            (http_Error (''failed to execute mint: '' @ Error err) StatusInternalServerError,
                             writeDLQ payload err (with_metrics (incCallback ''failed'') s))
                        | (Inr txHash, s) \<Rightarrow>
                            let b = marshal (mpesaCallbackResponse ''processed'' (mp_IntentID payload) txHash);
                                (rec, s) = new_record StatusOK b s;
                                (_, s) = save_record s key rec;
                                s = with_metrics (incCallback ''processed'') s
                            in (json_response StatusOK b, snd (updateDLQDepth s)))))))"

section \<open>Health\<close>

text \<open>
  A duration in milliseconds as \<open>encoding/json\<close> prints \<open>float64(us) / 1000\<close>: the shortest
  decimal, for durations whose microseconds fit a float exactly.
\<close>

definition show_millis :: "duration \<Rightarrow> string" where
  "show_millis d =
     (let us = \<bar>d\<bar> div 1000
      in (if d < 0 \<and> us \<noteq> 0 then ''-'' else []) @ show_int (us div 1000)
         @ (if us mod 1000 = 0 then [] else ''.'' @ strip_zeros (pad_int 3 (us mod 1000))))"

definition health_rpc :: "('s, 'c) Server \<Rightarrow> (bool \<times> string \<times> string) \<times> ('s, 'c) Server" where
  "health_rpc s =
     (case rpcHealthFn s of
        None \<Rightarrow> ((True, ''0'', []), s)
      | Some ping \<Rightarrow>
          let (start, s) = server_now s;
              (e, c) = ping (escrow s);
              s = s\<lparr>escrow := c\<rparr>
          in (case e of
                Some err \<Rightarrow> ((False, ''0'', Error err), s)
              | None \<Rightarrow>
                  let (t, s) = server_now s in ((True, show_millis (time_Sub t start), []), s)))"

definition health_db :: "('s, 'c) Server \<Rightarrow> bool \<times> string" where
  "health_db s =
     (case dbHealthFn s of
        None \<Rightarrow> (True, [])
      | Some ping \<Rightarrow> (case ping (store s) of Some err \<Rightarrow> (False, Error err) | None \<Rightarrow> (True, [])))"

definition handleHealth :: "request \<Rightarrow> ('s, 'c) Server \<Rightarrow> response \<times> ('s, 'c) Server" where
  "handleHealth r s =
     (let ((rpc_ok, latency, rpc_err), s) = health_rpc s;
          (db_ok, db_err) = health_db s;
          overallHealthy = (rpc_ok \<and> db_ok);
          (queueDepth, s) = updateDLQDepth s;
          status = (if overallHealthy then ''healthy'' else ''degraded'');
          resp = JObj [(''status'', JStr status),
            (''rpc'', JObj ([(''connected'', JBool rpc_ok), (''latency_ms'', JNum latency)] @ omitempty ''error'' rpc_err)),
            (''database'', JObj ([(''connected'', JBool db_ok)] @ omitempty ''error'' db_err)),
            (''queue_depth'', JNum (show_int queueDepth))]
      in (json_response (if overallHealthy then StatusOK else StatusServiceUnavailable)
            (marshal resp @ [char_of (10::nat)]), s))"

section \<open>Wiring\<close>

definition hmac_verifier :: "AppConfig \<Rightarrow> verifier" where
  "hmac_verifier c =
     \<lparr>Secret = HMACSalt (seed_Secrets (Seed c)), MaxSkew = HMACClockSkew (Service c), NowFn = None,
      BodyCopy = False, SignatureHeader = [], TimestampHeader = []\<rparr>"

definition mpesa_verifier :: "AppConfig \<Rightarrow> verifier" where
  "mpesa_verifier c =
     \<lparr>Secret = MpesaWebhookSecret (seed_Secrets (Seed c)), MaxSkew = HMACClockSkew (Service c),
      NowFn = None, BodyCopy = False, SignatureHeader = ''X-Mpesa-Signature'',
      TimestampHeader = ''X-Request-Timestamp''\<rparr>"

definition NewServer ::
  "AppConfig \<Rightarrow> 'c Client \<Rightarrow> 'c \<Rightarrow> 's Store \<Rightarrow> 's \<Rightarrow> platform \<Rightarrow> ('s, 'c) Server"
where
  "NewServer c esc_ops esc st_ops st w =
     \<lparr>cfg = c, escrow_ops = esc_ops, escrow = esc, store_ops = st_ops, store = st,
      hmac = hmac_verifier c, mpesaHMAC = mpesa_verifier c, metrics = newMetricsRegistry,
      dbHealthFn = store_Ping st_ops, rpcHealthFn = client_Ping esc_ops, plat = w\<rparr>"

definition serve_mint_intents :: "request \<Rightarrow> ('s, 'c) Server \<Rightarrow> response \<times> ('s, 'c) Server" where
  "serve_mint_intents r s = Middleware plat set_plat (hmac s) handleMintIntents r s"

definition serve_mpesa_callback :: "request \<Rightarrow> ('s, 'c) Server \<Rightarrow> response \<times> ('s, 'c) Server" where
  "serve_mpesa_callback r s = Middleware plat set_plat (mpesaHMAC s) handleMpesaCallback r s"

definition requestIDMiddleware ::
  "(request \<Rightarrow> ('s, 'c) Server \<Rightarrow> response \<times> ('s, 'c) Server) \<Rightarrow>
   request \<Rightarrow> ('s, 'c) Server \<Rightarrow> response \<times> ('s, 'c) Server"
where
  "requestIDMiddleware nxt r s =
     (if Header_Get (Header r) ''X-Request-Id'' = [] then
        let (t, s) = server_now s
        in nxt (r\<lparr>Header := Header_Set (Header r) ''X-Request-Id'' (show_int (UnixNano t))\<rparr>) s
      else nxt r s)"

text \<open>
  The routes of the mux for request paths in canonical form. The metrics page is rendered by
  Prometheus' own handler, a parameter.
\<close>

definition serve ::
  "(metricsRegistry \<Rightarrow> response) \<Rightarrow> request \<Rightarrow> ('s, 'c) Server \<Rightarrow> response \<times> ('s, 'c) Server"
where
  "serve promhttp = requestIDMiddleware (\<lambda>r s.
     if Path r = ''/api/v1/mint-intents'' then serve_mint_intents r s
     else if Path r = ''/api/v1/callbacks/mpesa'' then serve_mpesa_callback r s
     else if Path r = ''/api/v1/metrics'' then (promhttp (metrics s), s)
     else if Path r = ''/api/v1/health'' then handleHealth r s
     else (http_Error ''404 page not found'' 404, s))"

section \<open>A run of the server\<close>

text \<open>Requests served one after the other, with their responses.\<close>

fun run :: "(metricsRegistry \<Rightarrow> response) \<Rightarrow> request list \<Rightarrow> ('s, 'c) Server \<Rightarrow> response list \<times> ('s, 'c) Server" where
  "run promhttp [] s = ([], s)"
| "run promhttp (r # rs) s =
     (let (resp, s) = serve promhttp r s; (resps, s) = run promhttp rs s in (resp # resps, s))"

lemma snd_run_Cons: "snd (run promhttp (r # rs) s) = snd (run promhttp rs (snd (serve promhttp r s)))"
  by (simp add: Let_def split: prod.splits)

lemma get_record_fields:
  "get_record s k = (a, s1) \<Longrightarrow>
     cfg s1 = cfg s \<and> escrow_ops s1 = escrow_ops s \<and> store_ops s1 = store_ops s \<and> escrow s1 = escrow s \<and>
     metrics s1 = metrics s \<and> hmac s1 = hmac s \<and> mpesaHMAC s1 = mpesaHMAC s \<and> dbHealthFn s1 = dbHealthFn s \<and>
     rpcHealthFn s1 = rpcHealthFn s \<and>
     store_Get (store_ops s) (store s) (plat s) k = (a, store s1, plat s1)"
  by (auto simp: get_record_def split: prod.splits)

lemma save_record_fields:
  "save_record s k r = (e, s1) \<Longrightarrow>
     cfg s1 = cfg s \<and> escrow_ops s1 = escrow_ops s \<and> store_ops s1 = store_ops s \<and> escrow s1 = escrow s \<and>
     metrics s1 = metrics s \<and> hmac s1 = hmac s \<and> mpesaHMAC s1 = mpesaHMAC s \<and> dbHealthFn s1 = dbHealthFn s \<and>
     rpcHealthFn s1 = rpcHealthFn s \<and>
     store_Save (store_ops s) (store s) (plat s) k r = (e, store s1, plat s1)"
  by (auto simp: save_record_def split: prod.splits)

lemma new_record_same:
  assumes "new_record code b s = (rec, s')"
  shows "same_store s s' \<and> escrow s' = escrow s \<and> StatusCode rec = code \<and> Response rec = b \<and>
    CreatedAt rec = clk (plat s) (ticks (plat s)) \<and>
    ExpiresAt rec = time_Add (clk (plat s) (Suc (ticks (plat s)))) (IdempotencyWindow (Service (cfg s))) \<and>
    ticks (plat s') = Suc (Suc (ticks (plat s)))"
  using assms by (auto simp: new_record_def server_now_def Now_def same_store_def same_setup_def later_def)

text \<open>The key of a request to either endpoint, when it gets as far as the store.\<close>

definition mint_key :: "request \<Rightarrow> string" where
  "mint_key r = TrimSpace (Header_Get (Header r) ''X-Idempotency-Key'')"

text \<open>
  A step that answers from the store or goes on with the state \<open>s1\<close> the lookup left: the two
  handlers share it.
\<close>

lemma handleMintIntents_found:
  assumes "Method r = ''POST''" and "mint_key r \<noteq> []" and "get_record s (mint_key r) = (Inr (Some rec), s1)"
  shows "handleMintIntents r s =
    (json_response (StatusCode rec) (Response rec), with_metrics (incMint ''cached'') s1)"
  using assms by (simp add: handleMintIntents_def mint_key_def Let_def)

lemma handleMpesaCallback_found:
  assumes "Method r = ''POST''" and "decode_mpesaCallbackRequest r = Some payload"
    and "validateMpesaRequest payload = None"
    and "get_record s (mpesaKeyPrefix @ mp_TxRef payload) = (Inr (Some rec), s1)"
  shows "handleMpesaCallback r s =
    (json_response (StatusCode rec) (Response rec), with_metrics (incCallback ''cached'') s1)"
  using assms by (simp add: handleMpesaCallback_def Let_def)

text \<open>The chain call of a mint request, and how a fresh request comes to be answered with 201 or 200.\<close>

definition submit_request :: "mintIntentRequest \<Rightarrow> SubmitIntentRequest" where
  "submit_request p =
     \<lparr>sr_UserAddress = mi_UserAddress p, sr_Amount = mi_Amount p, sr_CountryCode = mi_CountryCode p,
      sr_TxRef = mi_TxRef p\<rparr>"

lemma absent_cases: "\<forall>rec. a \<noteq> Inr (Some rec) \<Longrightarrow> a = Inr None \<or> (\<exists>e. a = Inl e)"
  by (metis obj_sumE option.exhaust)

lemma handleMintIntents_created:
  assumes "get_record s (mint_key r) = (a, s1)" and absent: "\<forall>rec. a \<noteq> Inr (Some rec)"
    and "handleMintIntents r s = (resp, s')" and "Status resp = StatusCreated"
  obtains p result s2 rec s3 e s4 where "Method r = ''POST''" "mint_key r \<noteq> []"
    "decode_mintIntentRequest r = Some p" "validateMintIntentRequest p = None"
    "submit_intent s1 (submit_request p) = (Inr result, s2)"
    "new_record StatusCreated (rPayload resp) s2 = (rec, s3)" "save_record s3 (mint_key r) rec = (e, s4)"
    "resp = json_response StatusCreated
       (marshal (mintIntentResponse (sres_IntentID result) ''submitted'' (sres_TxHash result)))"
    "s' = with_metrics (incMint ''created'') s4"
proof -
  note h = assms(3) [unfolded handleMintIntents_def mint_key_def [symmetric]
      submit_request_def [symmetric] Let_def]
  have post: "Method r = ''POST''" "mint_key r \<noteq> []"
    using h assms(4) by (auto simp: status_defs split: if_splits)
  note h1 = h [unfolded if_not_P [OF post(2)] assms(1)]
  obtain p where p: "decode_mintIntentRequest r = Some p" "validateMintIntentRequest p = None"
    using h1 post(1) absent_cases [OF absent] assms(4)
    by (auto simp: status_defs split: option.splits)
  obtain x s2 where sub: "submit_intent s1 (submit_request p) = (x, s2)" by fastforce
  obtain result where x: "x = Inr result"
    using h1 post(1) absent_cases [OF absent] assms(4) p sub
    by (cases x) (auto simp: status_defs)
  let ?b = "marshal (mintIntentResponse (sres_IntentID result) ''submitted'' (sres_TxHash result))"
  obtain rec s3 where n: "new_record StatusCreated ?b s2 = (rec, s3)" by fastforce
  obtain e s4 where sv: "save_record s3 (mint_key r) rec = (e, s4)" by fastforce
  have "resp = json_response StatusCreated ?b" "s' = with_metrics (incMint ''created'') s4"
    using h1 post(1) absent_cases [OF absent] p sub x n sv by auto
  then show thesis using that [OF post p sub [unfolded x] _ sv] n by (simp add: json_response_def)
qed

lemma handleMintIntents_submits:
  fixes s :: "('s, 'c) Server"
  assumes "get_record s (mint_key r) = (a, s1)" and absent: "\<forall>rec. a \<noteq> Inr (Some rec)"
    and "Method r = ''POST''" "mint_key r \<noteq> []" "decode_mintIntentRequest r = Some p"
    "validateMintIntentRequest p = None"
  shows "escrow (snd (handleMintIntents r s)) =
    snd (client_SubmitIntent (escrow_ops s) (escrow s) (submit_request p))"
proof -
  note h = handleMintIntents_def [of r s, unfolded mint_key_def [symmetric] submit_request_def [symmetric] Let_def]
  note g = get_record_fields [OF assms(1)]
  obtain x c where x: "client_SubmitIntent (escrow_ops s) (escrow s) (submit_request p) = (x, c)" by fastforce
  then have sub: "submit_intent s1 (submit_request p) = (x, s1\<lparr>escrow := c\<rparr>)"
    using g by (simp add: submit_intent_def)
  have esc: "escrow (snd (save_record t k rec)) = escrow t" for t :: "('s, 'c) Server" and k rec
    using save_record_fields [of t k rec] by (cases "save_record t k rec") auto
  have new: "escrow (snd (new_record code b t)) = escrow t" for t :: "('s, 'c) Server" and code b
    using new_record_same [of code b t] by (cases "new_record code b t") auto
  show ?thesis
    using h assms absent_cases [OF absent] sub x
    by (cases x) (auto simp: esc new case_prod_beta)
qed

lemma handleMpesaCallback_processed:
  assumes "decode_mpesaCallbackRequest r = Some p"
    and "get_record s (mpesaKeyPrefix @ mp_TxRef p) = (a, s1)" and absent: "\<forall>rec. a \<noteq> Inr (Some rec)"
    and "handleMpesaCallback r s = (resp, s')" and "Status resp = StatusOK"
  obtains txHash s2 rec s3 e s4 where "Method r = ''POST''" "validateMpesaRequest p = None"
    "executeMintWithRetry (ctxDone r) (mp_IntentID p) s1 = (Inr txHash, s2)"
    "new_record StatusOK (rPayload resp) s2 = (rec, s3)"
    "save_record s3 (mpesaKeyPrefix @ mp_TxRef p) rec = (e, s4)"
    "resp = json_response StatusOK (marshal (mpesaCallbackResponse ''processed'' (mp_IntentID p) txHash))"
    "s' = snd (updateDLQDepth (with_metrics (incCallback ''processed'') s4))"
proof -
  note h = assms(4) [unfolded handleMpesaCallback_def Let_def]
  have post: "Method r = ''POST''" "validateMpesaRequest p = None"
    using h assms(1,5) by (auto simp: status_defs split: if_splits option.splits)
  obtain x s2 where ex: "executeMintWithRetry (ctxDone r) (mp_IntentID p) s1 = (x, s2)" by fastforce
  obtain txHash where x: "x = Inr txHash"
    using h post assms(1,2,5) absent_cases [OF absent] ex by (cases x) (auto simp: status_defs)
  let ?b = "marshal (mpesaCallbackResponse ''processed'' (mp_IntentID p) txHash)"
  obtain rec s3 where n: "new_record StatusOK ?b s2 = (rec, s3)" by fastforce
  obtain e s4 where sv: "save_record s3 (mpesaKeyPrefix @ mp_TxRef p) rec = (e, s4)" by fastforce
  have "resp = json_response StatusOK ?b" "s' = snd (updateDLQDepth (with_metrics (incCallback ''processed'') s4))"
    using h post assms(1,2) absent_cases [OF absent] ex x n sv by auto
  then show thesis using that [OF post ex [unfolded x] _ sv] n by (simp add: json_response_def)
qed

text \<open>
  The other branches of a handler leave the store alone or save one record under the key that the
  lookup did not find.
\<close>

definition store_step :: "string \<Rightarrow> ('s, 'c) Server \<Rightarrow> ('s, 'c) Server \<Rightarrow> bool" where
  "store_step k s s' \<longleftrightarrow>
     same_store s s' \<or>
     (\<exists>a s1. get_record s k = (a, s1) \<and>
        (same_store s1 s' \<or>
         (\<not> (\<exists>rec. a = Inr (Some rec)) \<and>
          (\<exists>s2 rec e s3. same_store s1 s2 \<and> save_record s2 k rec = (e, s3) \<and>
             StatusCode rec \<in> {StatusOK, StatusCreated} \<and> same_store s3 s'))))"

lemma store_step_same: "same_store s s' \<Longrightarrow> store_step k s s'"
  by (simp add: store_step_def)

lemma store_step_get: "get_record s k = (a, s1) \<Longrightarrow> same_store s1 s' \<Longrightarrow> store_step k s s'"
  by (auto simp: store_step_def)

lemma store_step_save:
  "get_record s k = (a, s1) \<Longrightarrow> \<forall>rec. a \<noteq> Inr (Some rec) \<Longrightarrow> same_store s1 s2 \<Longrightarrow>
   save_record s2 k rec = (e, s3) \<Longrightarrow> StatusCode rec \<in> {StatusOK, StatusCreated} \<Longrightarrow>
   same_store s3 s' \<Longrightarrow> store_step k s s'"
  unfolding store_step_def by blast

lemma handleMintIntents_step: "store_step (mint_key r) s (snd (handleMintIntents r s))"
proof -
  obtain a s1 where g: "get_record s (mint_key r) = (a, s1)" by fastforce
  show ?thesis
  proof (cases "Method r = ''POST'' \<and> mint_key r \<noteq> [] \<and> \<not> (\<exists>rec. a = Inr (Some rec))
      \<and> (\<exists>p. decode_mintIntentRequest r = Some p \<and> validateMintIntentRequest p = None)")
    case False
    then show ?thesis
      using g by (auto simp: store_step_def handleMintIntents_def mint_key_def [symmetric] Let_def
          split: option.splits sum.splits)
  next
    case True
    then obtain p where p: "decode_mintIntentRequest r = Some p" "validateMintIntentRequest p = None" by blast
    let ?req = "\<lparr>sr_UserAddress = mi_UserAddress p, sr_Amount = mi_Amount p,
       sr_CountryCode = mi_CountryCode p, sr_TxRef = mi_TxRef p\<rparr>"
    obtain x s2 where sub: "submit_intent s1 ?req = (x, s2)" by fastforce
    from submit_intent_same [OF sub] have s2: "same_store s1 s2" .
    show ?thesis
    proof (cases x)
      case (Inl e)
      with True g p sub s2 show ?thesis
        by (auto simp: store_step_def handleMintIntents_def mint_key_def [symmetric] Let_def
            split: option.splits sum.splits)
    next
      case (Inr result)
      let ?b = "marshal (mintIntentResponse (sres_IntentID result) ''submitted'' (sres_TxHash result))"
      obtain rec s3 where n: "new_record StatusCreated ?b s2 = (rec, s3)" by fastforce
      obtain e s4 where sv: "save_record s3 (mint_key r) rec = (e, s4)" by fastforce
      have "same_store s1 s3" using s2 new_record_same [OF n] by (blast intro: same_store_trans)
      moreover have "handleMintIntents r s = (json_response StatusCreated ?b, with_metrics (incMint ''created'') s4)"
        using True g p sub Inr n sv
        by (auto simp: handleMintIntents_def mint_key_def [symmetric] Let_def split: option.splits sum.splits)
      ultimately show ?thesis
        using True new_record_same [OF n] by (auto intro: store_step_save [OF g _ _ sv])
    qed
  qed
qed

lemma handleMpesaCallback_step:
  "case decode_mpesaCallbackRequest r of
     None \<Rightarrow> same_store s (snd (handleMpesaCallback r s))
   | Some p \<Rightarrow> store_step (mpesaKeyPrefix @ mp_TxRef p) s (snd (handleMpesaCallback r s))"
proof (cases "decode_mpesaCallbackRequest r")
  case None
  then show ?thesis by (simp add: handleMpesaCallback_def)
next
  case (Some p)
  let ?k = "mpesaKeyPrefix @ mp_TxRef p"
  obtain a s1 where g: "get_record s ?k = (a, s1)" by fastforce
  obtain x s2 where ex: "executeMintWithRetry (ctxDone r) (mp_IntentID p) s1 = (x, s2)" by fastforce
  from executeMintWithRetry_same [OF ex] have s2: "same_store s1 s2" .
  have "store_step ?k s (snd (handleMpesaCallback r s))"
  proof (cases "Method r = ''POST'' \<and> validateMpesaRequest p = None \<and> \<not> (\<exists>rec. a = Inr (Some rec))")
    case False
    then show ?thesis
      using Some g by (auto simp: handleMpesaCallback_def Let_def split: option.splits sum.splits
          intro: store_step_same store_step_get [OF g])
  next
    case True
    then have absent: "\<forall>rec. a \<noteq> Inr (Some rec)" by blast
    then have answer: "a = Inr None \<or> (\<exists>e. a = Inl e)" by (rule absent_cases)
    show ?thesis
    proof (cases x)
      case (Inl e)
      have "handleMpesaCallback r s =
         (http_Error (''failed to execute mint: '' @ Error e) StatusInternalServerError,
          writeDLQ p e (with_metrics (incCallback ''failed'') s2))"
        using True Some g ex Inl answer by (auto simp: handleMpesaCallback_def Let_def)
      moreover have "same_store s1 (writeDLQ p e (with_metrics (incCallback ''failed'') s2))"
        by (rule same_store_trans [OF _ writeDLQ_same [THEN conjunct1]]) (simp add: s2)
      ultimately show ?thesis by (auto intro: store_step_get [OF g])
    next
      case (Inr txHash)
      let ?b = "marshal (mpesaCallbackResponse ''processed'' (mp_IntentID p) txHash)"
      obtain rec s3 where n: "new_record StatusOK ?b s2 = (rec, s3)" by fastforce
      obtain e s4 where sv: "save_record s3 ?k rec = (e, s4)" by fastforce
      have "same_store s1 s3" using s2 new_record_same [OF n] by (blast intro: same_store_trans)
      moreover have "handleMpesaCallback r s =
         (json_response StatusOK ?b, snd (updateDLQDepth (with_metrics (incCallback ''processed'') s4)))"
        using True Some g ex Inr n sv answer by (auto simp: handleMpesaCallback_def Let_def)
      moreover have "same_store s4 (snd (updateDLQDepth (with_metrics (incCallback ''processed'') s4)))"
        by (rule same_store_trans [OF _ updateDLQDepth_same [THEN conjunct1, OF surjective_pairing]]) simp
      ultimately show ?thesis
        using new_record_same [OF n] by (auto intro: store_step_save [OF g absent _ sv])
    qed
  qed
  with Some show ?thesis by simp
qed

text \<open>
  A request behind the middlewares: some clock readings, then the handler of its route.
\<close>

definition request_step :: "('s, 'c) Server \<Rightarrow> ('s, 'c) Server \<Rightarrow> bool" where
  "request_step s s' \<longleftrightarrow> (\<exists>s0 k. same_store s s0 \<and> store_step k s0 s')"

lemma request_step_same: "same_store s s' \<Longrightarrow> request_step s s'"
  unfolding request_step_def using store_step_same same_store_refl by blast

lemma request_step_after: "same_store s s0 \<Longrightarrow> request_step s0 s' \<Longrightarrow> request_step s s'"
  unfolding request_step_def using same_store_trans by blast

lemma store_step_request: "store_step k s s' \<Longrightarrow> request_step s s'"
  unfolding request_step_def using same_store_refl by blast

lemma handleMpesaCallback_request: "request_step s (snd (handleMpesaCallback r s))"
  using handleMpesaCallback_step [where r = r and s = s]
  by (auto split: option.splits intro: request_step_same store_step_request)

lemma health_rpc_same: "health_rpc s = (x, s') \<Longrightarrow> same_store s s'"
  by (auto simp: health_rpc_def server_now_def Now_def same_store_def same_setup_def later_def Let_def
      split: option.splits prod.splits)

lemma handleHealth_same: "same_store s (snd (handleHealth r s))"
proof -
  obtain x s1 where h: "health_rpc s = (x, s1)" by fastforce
  obtain d s2 where u: "updateDLQDepth s1 = (d, s2)" by fastforce
  have "snd (handleHealth r s) = s2"
    by (simp add: handleHealth_def h u Let_def split: prod.splits)
  with same_store_trans [OF health_rpc_same [OF h]] updateDLQDepth_same [OF u] show ?thesis by simp
qed

lemma Middleware_step:
  assumes "\<And>r s. request_step s (snd (h r s))"
  shows "request_step s (snd (Middleware plat set_plat v h r s))"
proof -
  obtain e r' w where vf: "verify v r (plat s) = (e, r', w)" by (cases "verify v r (plat s)") auto
  then have "same_store s (set_plat w s)" by (blast intro: same_store_set_plat verify_later)
  then show ?thesis
    using assms by (auto simp: Middleware_def vf split: option.splits
        intro: request_step_same request_step_after)
qed

lemma serve_step:
  fixes s :: "('s, 'c) Server"
  shows "request_step s (snd (serve promhttp r s))"
proof -
  define mux where "mux = (\<lambda>(r::request) (s::('s, 'c) Server).
     if Path r = ''/api/v1/mint-intents'' then serve_mint_intents r s
     else if Path r = ''/api/v1/callbacks/mpesa'' then serve_mpesa_callback r s
     else if Path r = ''/api/v1/metrics'' then (promhttp (metrics s), s)
     else if Path r = ''/api/v1/health'' then handleHealth r s
     else (http_Error ''404 page not found'' 404, s))"
  have mint: "request_step s (snd (handleMintIntents r s))" for r and s :: "('s, 'c) Server"
    by (rule store_step_request) (rule handleMintIntents_step)
  have mux: "request_step s (snd (mux r s))" for r s
    by (simp add: mux_def serve_mint_intents_def serve_mpesa_callback_def Middleware_step mint
        handleMpesaCallback_request request_step_same handleHealth_same)
  obtain t s1 where now: "server_now s = (t, s1)" by fastforce
  have "serve promhttp r s = requestIDMiddleware mux r s" by (simp add: serve_def mux_def)
  then show ?thesis
    using mux request_step_after [OF server_now_same [OF now] mux] by (simp add: requestIDMiddleware_def now)
qed

end
