(* ===== verification/Samples.thy ===== *)
theory Samples
  imports Handlers
begin

text \<open>
  Concrete requests, clients and servers on which the properties are exercised.
\<close>

section \<open>Requests\<close>

definition sample_mint :: request where
  \<open>sample_mint =
     \<lparr>Method = ''POST'', Path = ''/api/v1/mint-intents'',
      Header = Header_Set (\<lambda>_. []) ''X-Idempotency-Key'' ''mpesa:T'',
      rBody = Body ''{"userAddress":"u","amount":"1","countryCode":"KES","txRef":"T"}'' None,
      ctxDone = (\<lambda>_. None)\<rparr>\<close>

definition sample_callback :: request where
  \<open>sample_callback =
     \<lparr>Method = ''POST'', Path = ''/api/v1/callbacks/mpesa'', Header = (\<lambda>_. []),
      rBody = Body ''{"intentId":"0x1","txRef":"T","userAddress":"u","amount":"1"}'' None,
      ctxDone = (\<lambda>_. None)\<rparr>\<close>

definition sample_intent :: mintIntentRequest where
  "sample_intent = \<lparr>mi_UserAddress = ''u'', mi_Amount = ''1'', mi_CountryCode = ''KES'', mi_TxRef = ''T''\<rparr>"

definition sample_payment :: mpesaCallbackRequest where
  "sample_payment = \<lparr>mp_IntentID = ''0x1'', mp_TxRef = ''T'', mp_UserAddress = ''u'', mp_Amount = ''1''\<rparr>"

lemma sample_mint_decode: "decode_mintIntentRequest sample_mint = Some sample_intent"
  by code_simp

lemma sample_callback_decode: "decode_mpesaCallbackRequest sample_callback = Some sample_payment"
  by code_simp

lemma sample_mint_key: "mint_key sample_mint = ''mpesa:T''"
  by (simp add: mint_key_def sample_mint_def TrimSpace_graphic graphic_def)

lemma sample_requests [simp]:
  "Method sample_mint = ''POST''" "Method sample_callback = ''POST''" "ctxDone sample_callback = (\<lambda>_. None)"
  "validateMintIntentRequest sample_intent = None" "validateMpesaRequest sample_payment = None"
  "mpesaKeyPrefix @ mp_TxRef sample_payment = ''mpesa:T''"
  by (simp_all add: sample_mint_def sample_callback_def sample_intent_def sample_payment_def
      validateMintIntentRequest_def validateMpesaRequest_def mpesaKeyPrefix_def)

section \<open>Clients\<close>

text \<open>A chain that accepts everything and counts its calls, and one that always fails.\<close>

definition counting_client :: "nat Client" where
  "counting_client =
     \<lparr>client_SubmitIntent = (\<lambda>n req. (Inr \<lparr>sres_IntentID = ''0x1'', sres_TxHash = ''0x2''\<rparr>, Suc n)),
      client_ExecuteMint = (\<lambda>n d. (Inr \<lparr>eres_TxHash = ''0x3''\<rparr>, Suc n)),
      client_Ping = None\<rparr>"

definition failing_client :: "string \<Rightarrow> nat Client" where
  "failing_client msg =
     \<lparr>client_SubmitIntent = (\<lambda>n req. (Inl (ErrNew msg), Suc n)),
      client_ExecuteMint = (\<lambda>n d. (Inl (ErrNew msg), Suc n)),
      client_Ping = Some (\<lambda>n. (Some (ErrNew msg), n))\<rparr>"

text \<open>A chain whose first call times out.\<close>

definition flaky_client :: "nat Client" where
  "flaky_client =
     counting_client\<lparr>client_ExecuteMint :=
       (\<lambda>n d. if n = 0 then (Inl (ErrNew ''timeout''), Suc n) else (Inr \<lparr>eres_TxHash = ''0x3''\<rparr>, Suc n))\<rparr>"

section \<open>Servers\<close>

definition sample_server :: "nat Client \<Rightarrow> (MemoryStore, nat) Server" where
  "sample_server C = NewServer repo_config C 0 memory_store NewMemoryStore sample_platform"

definition sample_pg_server :: "pg_table \<Rightarrow> (pg_table PostgresStore, nat) Server" where
  "sample_pg_server t =
     NewServer repo_config counting_client 0 (postgres_store table_pool) \<lparr>pool = t, pending = []\<rparr> sample_platform"

lemma sample_server_fields [simp]:
  "escrow_ops (sample_server C) = C" "escrow (sample_server C) = 0" "store_ops (sample_server C) = memory_store"
  "store (sample_server C) = NewMemoryStore" "plat (sample_server C) = sample_platform"
  "cfg (sample_server C) = repo_config"
  by (simp_all add: sample_server_def NewServer_def)

lemma sample_pg_server_fields [simp]:
  "escrow_ops (sample_pg_server t) = counting_client" "escrow (sample_pg_server t) = 0"
  "store_ops (sample_pg_server t) = postgres_store table_pool"
  "store (sample_pg_server t) = \<lparr>pool = t, pending = []\<rparr>" "plat (sample_pg_server t) = sample_platform"
  "cfg (sample_pg_server t) = repo_config"
  by (simp_all add: sample_pg_server_def NewServer_def)

lemma sample_mint_created:
  assumes "escrow_ops s = counting_client" and "get_record s ''mpesa:T'' = (Inr None, s1)"
  shows "Status (fst (handleMintIntents sample_mint s)) = StatusCreated"
  using assms get_record_fields [OF assms(2)] sample_mint_key
  by (simp add: handleMintIntents_def mint_key_def [symmetric] sample_mint_decode submit_intent_def
      counting_client_def Let_def split: prod.splits)

lemma sample_callback_processed:
  assumes "escrow_ops s = counting_client" and "get_record s ''mpesa:T'' = (Inr None, s1)"
  shows "Status (fst (handleMpesaCallback sample_callback s)) = StatusOK"
proof -
  have "client_ExecuteMint (escrow_ops s1) (escrow s1) d = (Inr \<lparr>eres_TxHash = ''0x3''\<rparr>, Suc (escrow s1))" for d
    using assms get_record_fields [OF assms(2)] by (simp add: counting_client_def)
  from retry_loop_step [OF retry_attempts_pos this]
  have "\<exists>s2. executeMintWithRetry (\<lambda>_. None) (mp_IntentID sample_payment) s1 = (Inr ''0x3'', s2)"
    by (simp add: executeMintWithRetry_def)
  then show ?thesis
    using assms by (auto simp: handleMpesaCallback_def sample_callback_decode Let_def split: prod.splits)
qed

lemma sample_get_memory: "get_record (sample_server C) k = (Inr None, sample_server C)"
  by (simp add: get_record_def memory_store_def memory_Get_def NewMemoryStore_def)

lemma sample_get_table: "t k = None \<Longrightarrow> get_record (sample_pg_server t) k = (Inr None, sample_pg_server t)"
  by (simp add: get_record_def postgres_store_def postgres_Get_def table_pool_def)

lemma sample_clock [simp]: "clk sample_platform = (\<lambda>n. 1700000000 * Second)"
  by (simp add: sample_platform_def)

section \<open>Retries on the samples\<close>

lemma timeout_retryable: "isRetryable (Some (ErrNew ''timeout''))"
  by code_simp

theorem executeMintWithRetry_succeeds_witness:
  "fst (executeMintWithRetry (\<lambda>_. None) ''0x1'' (sample_server flaky_client)) = Inr ''0x3''"
  using executeMintWithRetry_succeeds
    [of "sample_server flaky_client" "\<lambda>_. None" "''0x1''" 1 "\<lparr>eres_TxHash = ''0x3''\<rparr>"]
  by (simp add: retries_until_def mint_result_def flaky_client_def timeout_retryable
      retry_attempts_def repo_config_def)

theorem executeMintWithRetry_permanent_witness:
  "executeMintWithRetry (\<lambda>_. None) ''0x1'' (sample_server (failing_client ''UserNotCompliant'')) =
     (Inl (ErrNew ''UserNotCompliant''),
      with_metrics (incRetry ''failed'') ((sample_server (failing_client ''UserNotCompliant''))\<lparr>escrow := 1\<rparr>))"
  using executeMintWithRetry_permanent
    [of "sample_server (failing_client ''UserNotCompliant'')" "''0x1''" "ErrNew ''UserNotCompliant''" 1]
  by (simp add: failing_client_def HasPrefix_def)

section \<open>The queue on the samples\<close>

lemma sample_dlq_dirs: "path_up (Clean ''../dlq'') = [''../dlq'', ''..'', ''.'']"
  by code_simp

lemma sample_dlq_above: "Dir ''/'' = ''/''" "Dir ''.'' = ''.''" "Dir ''..'' = ''.''" "Dir ''../dlq'' = ''..''" "Clean ''../dlq'' = ''../dlq''"
  by code_simp+

text \<open>Any server on the sample configuration and file system can queue the sample payment.\<close>

lemma sample_dlq_ready:
  assumes "cfg s = repo_config" and "healthy (plat s)" and "files (plat s) = []"
    and "dirs (plat s) = dirs sample_platform" and "clk (plat s) = clk sample_platform"
  shows "dlq_ready s ''T''"
proof -
  have dlq: "DLQPath (Service (cfg s)) = ''../dlq''" using assms(1) by (simp add: repo_config_def)
  then have "Dir (dlq_file s ''T'') = ''../dlq''"
    using dlq_file_below(1) [of s "''T''"] by (simp add: sample_dlq_above)
  then have "dlq_file s ''T'' \<notin> {''/'', ''.'', ''..'', ''../dlq''}"
    using sample_dlq_above by auto
  then show ?thesis
    using assms(2-5) by (auto simp: dlq_ready_def dlq sample_dlq_dirs sample_platform_def Second_def)
qed

theorem dlq_entry_written_witness:
  "\<exists>ts. map_of (files (plat (writeDLQ sample_payment (ErrNew ''down'') (sample_server counting_client)))) =
     [dlq_file (sample_server counting_client) ''T'' \<mapsto>
        marshal_indent 0 (dlq_entry ts sample_payment (ErrNew ''down''))]"
proof -
  let ?s = "sample_server counting_client"
  have "dlq_ready ?s (mp_TxRef sample_payment)"
    using sample_dlq_ready [of ?s] by (simp add: healthy_def sample_platform_def sample_payment_def)
  moreover have "set (path_up (Clean (DLQPath (Service (cfg ?s))))) \<subseteq> set (dirs (plat ?s))"
    by (simp add: repo_config_def sample_dlq_dirs sample_platform_def)
  ultimately show ?thesis
    using dlq_entry_written [of ?s sample_payment "ErrNew ''down''"]
    by (auto simp: sample_platform_def sample_payment_def)
qed

end
