(* ===== verification/Access.thy ===== *)
theory Access
  imports Samples
begin

text \<open>
  What gets past the middlewares of \<open>NewServer\<close>: authentication in front of the two endpoints.
\<close>

section \<open>Rejection\<close>

lemma verify_only_ticks:
  assumes "verify v r w = (e, r', w')"
  shows "w' = w\<lparr>ticks := ticks w'\<rparr> \<and> later w w'"
  using verify_cases [OF assms] verify_later [OF assms] by (auto simp: Now_def)

lemma Middleware_rejects:
  assumes "fst (verify v r (plat s)) \<noteq> None"
  obtains msg n where "Middleware plat set_plat v h r s =
      (http_Error msg StatusUnauthorized, s\<lparr>plat := (plat s)\<lparr>ticks := n\<rparr>\<rparr>)" "ticks (plat s) \<le> n"
proof (cases "verify v r (plat s)")
  case (fields e r' w)
  with assms obtain err where "e = Some err" by auto
  moreover have "w = (plat s)\<lparr>ticks := ticks w\<rparr>" "ticks (plat s) \<le> ticks w"
    using verify_only_ticks [OF fields] by (auto simp: later_def)
  ultimately show thesis
    using fields that [of "Error err" "ticks w"] by (simp add: Middleware_def set_plat_def)
qed

text \<open>The request id header takes no part in authentication.\<close>

lemma authentic_request_id:
  assumes "CanonicalHeaderKey (sig_header v) \<noteq> CanonicalHeaderKey ''X-Request-Id''"
    and "CanonicalHeaderKey (ts_header v) \<noteq> CanonicalHeaderKey ''X-Request-Id''"
  shows "authentic v (r\<lparr>Header := Header_Set (Header r) ''X-Request-Id'' x\<rparr>) now = authentic v r now"
  using assms by (simp add: authentic_def body_bytes_def Header_Get_Set_other)

lemma configured_headers:
  "sig_header (hmac_verifier c) = ''X-Request-Signature''" "ts_header (hmac_verifier c) = ''X-Request-Timestamp''"
  "sig_header (mpesa_verifier c) = ''X-Mpesa-Signature''" "ts_header (mpesa_verifier c) = ''X-Request-Timestamp''"
  by (simp_all add: hmac_verifier_def mpesa_verifier_def sig_header_def ts_header_def
      defaultSignatureHeader_def defaultTimestampHeader_def)

lemma request_id_keys:
  "CanonicalHeaderKey ''X-Request-Signature'' \<noteq> CanonicalHeaderKey ''X-Request-Id''"
  "CanonicalHeaderKey ''X-Request-Timestamp'' \<noteq> CanonicalHeaderKey ''X-Request-Id''"
  "CanonicalHeaderKey ''X-Mpesa-Signature'' \<noteq> CanonicalHeaderKey ''X-Request-Id''"
  by code_simp+

text \<open>The endpoints and the verifier in front of each.\<close>

definition guarded_by :: "AppConfig \<Rightarrow> request \<Rightarrow> verifier \<Rightarrow> bool" where
  "guarded_by c r v \<longleftrightarrow>
     Path r = ''/api/v1/mint-intents'' \<and> v = hmac_verifier c \<or>
     Path r = ''/api/v1/callbacks/mpesa'' \<and> v = mpesa_verifier c"

lemma guarded_authentic:
  assumes "guarded_by c r v"
  shows "authentic v (r\<lparr>Header := Header_Set (Header r) ''X-Request-Id'' x\<rparr>) now = authentic v r now"
  using assms by (intro authentic_request_id) (auto simp: guarded_by_def configured_headers request_id_keys)

text \<open>The clock reading authentication uses: the request id may take one before it.\<close>

definition auth_time :: "request \<Rightarrow> platform \<Rightarrow> time" where
  "auth_time r w = clk w (ticks w + (if Header_Get (Header r) ''X-Request-Id'' = [] then 1 else 0))"

lemma verifier_NowFn: "guarded_by c r v \<Longrightarrow> NowFn v = None"
  by (auto simp: guarded_by_def hmac_verifier_def mpesa_verifier_def)

lemma guarded_rejects:
  assumes g: "guarded_by (cfg s) r v" and v: "hmac s = hmac_verifier (cfg s)" "mpesaHMAC s = mpesa_verifier (cfg s)"
    and "fst (verify v r (plat s)) \<noteq> None"
  obtains msg n where "(if Path r = ''/api/v1/mint-intents'' then serve_mint_intents r s
       else serve_mpesa_callback r s) =
      (http_Error msg StatusUnauthorized, s\<lparr>plat := (plat s)\<lparr>ticks := n\<rparr>\<rparr>)" "ticks (plat s) \<le> n"
proof -
  have "Path r = ''/api/v1/mint-intents'' \<and> v = hmac s \<or> Path r = ''/api/v1/callbacks/mpesa'' \<and> v = mpesaHMAC s"
    using g v by (auto simp: guarded_by_def)
  then consider "Path r = ''/api/v1/mint-intents''" "v = hmac s"
    | "Path r = ''/api/v1/callbacks/mpesa''" "v = mpesaHMAC s" by blast
  then show thesis
  proof cases
    case 1
    with Middleware_rejects [OF assms(4), of handleMintIntents] that show thesis
      by (auto simp: serve_mint_intents_def)
  next
    case 2
    with Middleware_rejects [OF assms(4), of handleMpesaCallback] that show thesis
      by (auto simp: serve_mpesa_callback_def)
  qed
qed

lemma serve_rejects:
  assumes g: "guarded_by (cfg s) r v" and v: "hmac s = hmac_verifier (cfg s)" "mpesaHMAC s = mpesa_verifier (cfg s)"
    and sec: "Secret v \<noteq> []" "0 \<le> MaxSkew v" "MaxSkew v < max_i64"
    and now: "in_i64 (auth_time r (plat s))" "\<not> authentic v r (auth_time r (plat s))"
  obtains msg n where "serve promhttp r s =
      (http_Error msg StatusUnauthorized, s\<lparr>plat := (plat s)\<lparr>ticks := n\<rparr>\<rparr>)" "ticks (plat s) \<le> n"
proof (cases "Header_Get (Header r) ''X-Request-Id'' = []")
  case False
  have path: "Path r = ''/api/v1/mint-intents'' \<or> Path r = ''/api/v1/callbacks/mpesa''"
    using g by (auto simp: guarded_by_def)
  have "fst (verify v r (plat s)) \<noteq> None"
    using verify_accepts_iff [OF sec(1) _ sec(2,3)] now False verifier_NowFn [OF g]
    by (simp add: verifier_now_def auth_time_def)
  then obtain msg n where eq: "(if Path r = ''/api/v1/mint-intents'' then serve_mint_intents r s
       else serve_mpesa_callback r s) =
      (http_Error msg StatusUnauthorized, s\<lparr>plat := (plat s)\<lparr>ticks := n\<rparr>\<rparr>)" "ticks (plat s) \<le> n"
    by (rule guarded_rejects [OF g v])
  have "serve promhttp r s =
      (if Path r = ''/api/v1/mint-intents'' then serve_mint_intents r s else serve_mpesa_callback r s)"
    using path False by (auto simp: serve_def requestIDMiddleware_def)
  then show thesis using that [of msg n] eq by simp
next
  case True
  let ?w = "(plat s)\<lparr>ticks := Suc (ticks (plat s))\<rparr>"
  let ?x = "show_int (UnixNano (clk (plat s) (ticks (plat s))))"
  let ?r = "r\<lparr>Header := Header_Set (Header r) ''X-Request-Id'' ?x\<rparr>"
  let ?s = "s\<lparr>plat := ?w\<rparr>"
  have g': "guarded_by (cfg ?s) ?r v" using g by (simp add: guarded_by_def)
  have path: "Path r = ''/api/v1/mint-intents'' \<or> Path r = ''/api/v1/callbacks/mpesa''"
    using g by (auto simp: guarded_by_def)
  have "fst (verify v ?r (plat ?s)) \<noteq> None"
    using verify_accepts_iff [OF sec(1) _ sec(2,3), of ?w ?r] now True verifier_NowFn [OF g] guarded_authentic [OF g]
    by (simp add: verifier_now_def auth_time_def)
  then obtain msg n where eq: "(if Path ?r = ''/api/v1/mint-intents'' then serve_mint_intents ?r ?s
       else serve_mpesa_callback ?r ?s) =
      (http_Error msg StatusUnauthorized, ?s\<lparr>plat := (plat ?s)\<lparr>ticks := n\<rparr>\<rparr>)" "ticks (plat ?s) \<le> n"
    by (rule guarded_rejects [OF g' _ _, rotated 2]) (simp_all add: v)
  have "serve promhttp r s =
      (if Path ?r = ''/api/v1/mint-intents'' then serve_mint_intents ?r ?s else serve_mpesa_callback ?r ?s)"
    using path True by (auto simp: serve_def requestIDMiddleware_def server_now_def Now_def)
  then show thesis using that [of msg n] eq by simp
qed

text \<open>
  (C1) A request to either endpoint that is not authentic for the verifier in front of it is answered
  with 401, and nothing but the number of clock readings has changed: no record is stored or looked
  up, the chain is not called, no file is written and no metric counted.
\<close>

theorem unauthenticated_rejected:
  assumes "guarded_by (cfg s) r v" and "hmac s = hmac_verifier (cfg s)" and "mpesaHMAC s = mpesa_verifier (cfg s)"
    and "Secret v \<noteq> []" and "0 \<le> MaxSkew v" and "MaxSkew v < max_i64"
    and "in_i64 (auth_time r (plat s))" and "\<not> authentic v r (auth_time r (plat s))"
  shows "\<exists>msg n. serve promhttp r s =
           (http_Error msg StatusUnauthorized, s\<lparr>plat := (plat s)\<lparr>ticks := n\<rparr>\<rparr>)"
  by (rule serve_rejects [OF assms]) blast

lemma sample_not_authentic: "\<not> authentic v sample_callback now"
  by (simp add: authentic_def sample_callback_def Header_Get_def)

theorem unauthenticated_rejected_witness:
  "\<exists>msg n. serve (\<lambda>_. http_Error [] 200) sample_callback (sample_server counting_client) =
     (http_Error msg StatusUnauthorized,
      (sample_server counting_client)\<lparr>plat := sample_platform\<lparr>ticks := n\<rparr>\<rparr>)"
proof -
  have "guarded_by repo_config sample_callback (mpesa_verifier repo_config)"
    by (simp add: guarded_by_def sample_callback_def)
  from unauthenticated_rejected [of "sample_server counting_client" sample_callback "mpesa_verifier repo_config"
      "\<lambda>_. http_Error [] 200"] this sample_not_authentic
  show ?thesis
    by (simp add: sample_server_def NewServer_def mpesa_verifier_def repo_config_def repo_seed_def Second_def
        auth_time_def in_i64_def)
qed

section \<open>Acceptance\<close>

lemma Middleware_accepts:
  assumes "fst (verify v r (plat s)) = None"
  obtains r' n where "Middleware plat set_plat v h r s = h r' (s\<lparr>plat := (plat s)\<lparr>ticks := n\<rparr>\<rparr>)"
    "Method r' = Method r" "Header r' = Header r" "ctxDone r' = ctxDone r" "body_bytes r' = body_bytes r"
proof (cases "verify v r (plat s)")
  case (fields e r' w)
  moreover have "w = (plat s)\<lparr>ticks := ticks w\<rparr>" using verify_only_ticks [OF fields] by simp
  ultimately show thesis
    using assms that [of r' "ticks w"] verify_same_request [OF fields] verify_keeps_body [OF fields]
    by (simp add: Middleware_def set_plat_def)
qed


text \<open>A signed request for the configured secret.\<close>

definition sample_signed_mint :: request where
  "sample_signed_mint =
     sample_mint\<lparr>Header := Header_Set (Header_Set (Header sample_mint) ''X-Request-Timestamp'' ''1700000000'')
        ''X-Request-Signature'' (computeSignature (HMACSalt (seed_Secrets repo_seed)) ''1700000000''
          (case rBody sample_mint of Body b _ \<Rightarrow> b | NilBody \<Rightarrow> []))\<rparr>"

lemma hmac_verifier_fields:
  "Secret (hmac_verifier c) = HMACSalt (seed_Secrets (Seed c))" "MaxSkew (hmac_verifier c) = HMACClockSkew (Service c)"
  "NowFn (hmac_verifier c) = None"
  by (simp_all add: hmac_verifier_def)

lemma sample_signed_mint_authentic:
  "authentic (hmac_verifier repo_config) sample_signed_mint (1700000000 * Second)"
  by (simp add: authentic_def configured_headers sample_signed_mint_def Header_Get_Set_other sample_header_keys
      sample_parse body_bytes_def Second_def computeSignature_concat hmac_verifier_fields repo_config_def sample_mint_def)


end
