(* ===== verification/Effects.thy ===== *)
theory Effects
  imports Samples
begin

text \<open>
  The effects of a request: which calls of the chain it makes, which status it is answered with, and
  what it counts; the health endpoint.
\<close>

section \<open>Calls of the chain\<close>

definition found :: "Record option res \<Rightarrow> bool" where
  "found a \<longleftrightarrow> (\<exists>rec. a = Inr (Some rec))"

lemma mint_no_call:
  assumes "\<not> (Method r = ''POST'' \<and> mint_key r \<noteq> [] \<and> \<not> found (fst (get_record s (mint_key r))) \<and>
      (\<exists>p. decode_mintIntentRequest r = Some p \<and> validateMintIntentRequest p = None))"
  shows "escrow (snd (handleMintIntents r s)) = escrow s"
proof (cases "get_record s (mint_key r)")
  case (Pair a s1)
  with get_record_fields [OF Pair] assms show ?thesis
    by (auto simp: handleMintIntents_def mint_key_def [symmetric] found_def Let_def
        split: sum.splits option.splits)
qed

text \<open>
  (C9) A mint request calls the chain at most once, and only with \<open>SubmitIntent\<close>: exactly when it
  is a \<open>POST\<close> with an idempotency key that has no live record and a complete payload.
\<close>

theorem mint_chain_calls:
  "escrow (snd (handleMintIntents r s)) =
     (case decode_mintIntentRequest r of
        None \<Rightarrow> escrow s
      | Some p \<Rightarrow>
          if Method r = ''POST'' \<and> mint_key r \<noteq> [] \<and> \<not> found (fst (get_record s (mint_key r)))
             \<and> validateMintIntentRequest p = None
          then snd (client_SubmitIntent (escrow_ops s) (escrow s) (submit_request p))
          else escrow s)"
proof (cases "Method r = ''POST'' \<and> mint_key r \<noteq> [] \<and> \<not> found (fst (get_record s (mint_key r))) \<and>
      (\<exists>p. decode_mintIntentRequest r = Some p \<and> validateMintIntentRequest p = None)")
  case True
  then obtain p where p: "decode_mintIntentRequest r = Some p" "validateMintIntentRequest p = None" by blast
  obtain a s1 where g: "get_record s (mint_key r) = (a, s1)" by fastforce
  with True have "\<forall>rec. a \<noteq> Inr (Some rec)" by (simp add: found_def)
  from handleMintIntents_submits [OF g this _ _ p] True p show ?thesis by simp
next
  case False
  with mint_no_call [OF False] show ?thesis by (auto split: option.splits)
qed

lemma writeDLQ_escrow [simp]: "escrow (writeDLQ p e s) = escrow s"
  using writeDLQ_same by blast

lemma updateDLQDepth_escrow [simp]: "escrow (snd (updateDLQDepth s)) = escrow s"
  using updateDLQDepth_same [OF surjective_pairing] by blast

lemma save_record_escrow [simp]: "escrow (snd (save_record s k rec)) = escrow s"
  using save_record_fields [OF surjective_pairing] by blast

lemma new_record_escrow [simp]: "escrow (snd (new_record code b s)) = escrow s"
  using new_record_same [OF surjective_pairing] by blast

lemma mpesa_calls:
  assumes "Method r = ''POST''" and "decode_mpesaCallbackRequest r = Some p" and "validateMpesaRequest p = None"
    and "\<not> found (fst (get_record s (mpesaKeyPrefix @ mp_TxRef p)))"
  shows "\<exists>k. int k < retry_attempts (Retry (cfg s)) \<and>
     escrow (snd (handleMpesaCallback r s)) = mint_state (escrow_ops s) (mp_IntentID p) (escrow s) (Suc k)"
proof -
  obtain a s1 where g: "get_record s (mpesaKeyPrefix @ mp_TxRef p) = (a, s1)" by fastforce
  obtain x s2 where ex: "executeMintWithRetry (ctxDone r) (mp_IntentID p) s1 = (x, s2)" by fastforce
  note fs = get_record_fields [OF g]
  have "escrow (snd (handleMpesaCallback r s)) = escrow s2"
    using assms absent_cases [of a] g ex
    by (cases x) (auto simp: handleMpesaCallback_def found_def Let_def case_prod_beta)
  moreover obtain k waited where
    "ends_at (escrow_ops s1) (ctxDone r) (mp_IntentID p) (escrow s1) (nat (retry_attempts (Retry (cfg s1)) - 1)) k x waited"
    "escrow s2 = mint_state (escrow_ops s1) (mp_IntentID p) (escrow s1) (Suc k)"
    by (rule executeMintWithRetry_ends [OF ex])
  ultimately show ?thesis
    using fs retry_attempts_pos [of "Retry (cfg s)"] by (intro exI [of _ k]) (auto simp: ends_at_def)
qed

lemma mpesa_no_call:
  assumes "\<not> (Method r = ''POST'' \<and> (\<exists>p. decode_mpesaCallbackRequest r = Some p \<and> validateMpesaRequest p = None
      \<and> \<not> found (fst (get_record s (mpesaKeyPrefix @ mp_TxRef p)))))"
  shows "escrow (snd (handleMpesaCallback r s)) = escrow s"
proof (cases "decode_mpesaCallbackRequest r")
  case None
  then show ?thesis by (simp add: handleMpesaCallback_def)
next
  case (Some p)
  obtain a s1 where g: "get_record s (mpesaKeyPrefix @ mp_TxRef p) = (a, s1)" by fastforce
  with get_record_fields [OF g] assms Some show ?thesis
    by (auto simp: handleMpesaCallback_def found_def Let_def split: sum.splits option.splits)
qed

text \<open>
  (C8) A callback executes its own intent between one and \<open>MaxAttempts\<close> times when it is a \<open>POST\<close>
  with a complete payload whose reference has no live record, and makes no call of the chain
  otherwise.
\<close>

theorem mpesa_chain_calls:
  "case decode_mpesaCallbackRequest r of
     None \<Rightarrow> escrow (snd (handleMpesaCallback r s)) = escrow s
   | Some p \<Rightarrow>
       if Method r = ''POST'' \<and> validateMpesaRequest p = None
          \<and> \<not> found (fst (get_record s (mpesaKeyPrefix @ mp_TxRef p)))
       then \<exists>k. 1 \<le> k \<and> int k \<le> max 1 (MaxAttempts (Retry (cfg s))) \<and>
              escrow (snd (handleMpesaCallback r s)) = mint_state (escrow_ops s) (mp_IntentID p) (escrow s) k
       else escrow (snd (handleMpesaCallback r s)) = escrow s"
proof (cases "decode_mpesaCallbackRequest r")
  case None
  with mpesa_no_call [of r s] show ?thesis by simp
next
  case (Some p)
  have "\<exists>k. 1 \<le> k \<and> int k \<le> max 1 (MaxAttempts (Retry (cfg s))) \<and>
      escrow (snd (handleMpesaCallback r s)) = mint_state (escrow_ops s) (mp_IntentID p) (escrow s) k"
    if "Method r = ''POST''" "validateMpesaRequest p = None"
      "\<not> found (fst (get_record s (mpesaKeyPrefix @ mp_TxRef p)))"
  proof -
    note hyp = that
    obtain k where "int k < retry_attempts (Retry (cfg s))"
      "escrow (snd (handleMpesaCallback r s)) = mint_state (escrow_ops s) (mp_IntentID p) (escrow s) (Suc k)"
      using mpesa_calls [OF hyp(1) Some hyp(2,3)] by blast
    then show ?thesis by (intro exI [of _ "Suc k"]) (auto simp: retry_attempts_def split: if_splits)
  qed
  with Some mpesa_no_call [of r s] show ?thesis by auto
qed

section \<open>What the store holds\<close>

definition only_successes :: "MemoryStore \<Rightarrow> bool" where
  "only_successes m \<longleftrightarrow> (\<forall>k rec. mem_data m k = Some rec \<longrightarrow> StatusCode rec \<in> {StatusOK, StatusCreated})"

lemma memory_get_keeps_store:
  "store_ops s = memory_store \<Longrightarrow> get_record s k = (a, s1) \<Longrightarrow> store s1 = store s \<and> store_ops s1 = memory_store"
  by (auto simp: get_record_def memory_store_def memory_Get_def Now_def Let_def split: option.splits if_splits)

lemma store_step_successes:
  assumes "store_ops s = memory_store" and "only_successes (store s)" and "store_step k s s'"
  shows "store_ops s' = memory_store \<and> only_successes (store s')"
proof -
  from assms(3) consider "same_store s s'"
    | a s1 where "get_record s k = (a, s1)" "same_store s1 s'"
    | a s1 s2 rec e s3 where "get_record s k = (a, s1)" "same_store s1 s2"
        "save_record s2 k rec = (e, s3)" "StatusCode rec \<in> {StatusOK, StatusCreated}" "same_store s3 s'"
    unfolding store_step_def by blast
  then show ?thesis
  proof cases
    case 1
    with assms(1,2) show ?thesis by (simp add: same_store_def same_setup_def)
  next
    case 2
    with memory_get_keeps_store [OF assms(1) 2(1)] assms(2) show ?thesis
      by (simp add: same_store_def same_setup_def)
  next
    case 3
    have "store s2 = store s" "store_ops s2 = memory_store"
      using memory_get_keeps_store [OF assms(1) 3(1)] 3(2) by (auto simp: same_store_def same_setup_def)
    with 3(3) have "store s3 = (store s)\<lparr>mem_data := (mem_data (store s))(k \<mapsto> rec)\<rparr>" "store_ops s3 = memory_store"
      by (auto simp: save_record_def memory_store_def memory_Save_def)
    with 3(4,5) assms(2) show ?thesis by (auto simp: same_store_def same_setup_def only_successes_def)
  qed
qed

lemma run_successes:
  assumes "store_ops s = memory_store" and "only_successes (store s)"
  shows "only_successes (store (snd (run promhttp rs s)))"
  using assms
proof (induction rs arbitrary: s)
  case (Cons q rs)
  obtain s0 k where s0: "same_store s s0" "store_step k s0 (snd (serve promhttp q s))"
    using serve_step [of s promhttp q] unfolding request_step_def by blast
  then have "store_ops s0 = memory_store" "only_successes (store s0)"
    using Cons.prems by (simp_all add: same_store_def same_setup_def)
  from store_step_successes [OF this s0(2)] Cons.IH show ?case
    by (simp only: snd_run_Cons)
qed simp

text \<open>
  (C11) Whatever requests a server started with an empty in-memory store has served, every stored
  answer is one of a request that took effect: its status is 200 or 201. A cached answer is
  therefore never an error.
\<close>

theorem stored_answers_are_successes:
  "only_successes (store (snd (run promhttp rs (NewServer c ops esc memory_store NewMemoryStore w))))"
  by (rule run_successes) (simp_all add: NewServer_def only_successes_def NewMemoryStore_def)

section \<open>Failed callbacks\<close>

lemma mpesa_failed:
  assumes "Method r = ''POST''" and "decode_mpesaCallbackRequest r = Some p" and "validateMpesaRequest p = None"
    and "get_record s (mpesaKeyPrefix @ mp_TxRef p) = (a, s1)" and "\<not> found a"
    and "executeMintWithRetry (ctxDone r) (mp_IntentID p) s1 = (Inl err, s2)"
  shows "handleMpesaCallback r s =
     (http_Error (''failed to execute mint: '' @ Error err) StatusInternalServerError,
      writeDLQ p err (with_metrics (incCallback ''failed'') s2))"
  using assms absent_cases [of a] by (auto simp: handleMpesaCallback_def found_def Let_def)

lemma dlq_with_metrics [simp]:
  "dlq_file (with_metrics f s) x = dlq_file s x" "dlq_ready (with_metrics f s) x = dlq_ready s x"
  by (simp_all add: dlq_file_def dlq_ready_def)

lemma memory_get_files:
  assumes "store_ops s = memory_store" and "get_record s k = (a, s1)"
  shows "plat s1 = (plat s)\<lparr>ticks := ticks (plat s1)\<rparr>"
  using assms
  by (auto simp: get_record_def memory_store_def memory_Get_def Now_def Let_def split: option.splits if_splits)

text \<open>
  (C7) A callback whose mint fails for good is answered with 500 and leaves exactly one new file in
  the queue directory, with its payload and the error; all other files stay.
\<close>

theorem failed_callback_queued:
  assumes "store_ops s = memory_store" and "Method r = ''POST''" and "decode_mpesaCallbackRequest r = Some p"
    and "validateMpesaRequest p = None" and "get_record s (mpesaKeyPrefix @ mp_TxRef p) = (Inr None, s1)"
    and "executeMintWithRetry (ctxDone r) (mp_IntentID p) s1 = (Inl err, s2)"
    and "dlq_ready s2 (mp_TxRef p)" and "map_of (files (plat s)) (dlq_file s2 (mp_TxRef p)) = None"
  shows "Status (fst (handleMpesaCallback r s)) = StatusInternalServerError \<and>
     (\<exists>ts. map_of (files (plat (snd (handleMpesaCallback r s)))) =
        (map_of (files (plat s)))(dlq_file s2 (mp_TxRef p) \<mapsto> marshal_indent 0 (dlq_entry ts p err))) \<and>
     Dir (dlq_file s2 (mp_TxRef p)) = Clean (DLQPath (Service (cfg s2)))"
proof -
  let ?s3 = "with_metrics (incCallback ''failed'') s2"
  have "\<not> found (Inr None)" by (simp add: found_def)
  note h = mpesa_failed [OF assms(2-5) this assms(6)]
  have "loop_frame s1 s2" using executeMintWithRetry_frame [of s1 "ctxDone r" "mp_IntentID p"] assms(6) by simp
  then have "plat s2 = (plat s1)\<lparr>timers := timers (plat s2)\<rparr>" by (simp add: loop_frame_def)
  with memory_get_files [OF assms(1,5)] have "files (plat s2) = files (plat s)"
    by (metis platform.ext_inject platform.surjective platform.update_convs(2,6))
  moreover obtain ts w where "plat (writeDLQ p err ?s3) = w"
    "files w = AList.update (dlq_file ?s3 (mp_TxRef p)) (marshal_indent 0 (dlq_entry ts p err)) (files (plat ?s3))"
    by (rule writeDLQ_writes [of ?s3]) (use assms(7) in simp_all)
  moreover have "Dir (dlq_file s2 (mp_TxRef p)) = Clean (DLQPath (Service (cfg s2)))"
    using assms(7) dlq_file_below by (auto simp: dlq_ready_def)
  ultimately show ?thesis by (auto simp: h update_conv')
qed

theorem failed_callback_queued_witness:
  "Status (fst (handleMpesaCallback sample_callback (sample_server (failing_client ''UserNotCompliant'')))) =
     StatusInternalServerError"
proof -
  let ?s = "sample_server (failing_client ''UserNotCompliant'')"
  let ?s2 = "with_metrics (incRetry ''failed'') (?s\<lparr>escrow := 1\<rparr>)"
  have ex: "executeMintWithRetry (ctxDone sample_callback) (mp_IntentID sample_payment) ?s =
      (Inl (ErrNew ''UserNotCompliant''), ?s2)"
    by (rule permanent_stops) (simp_all add: failing_client_def isRetryable_def HasPrefix_def)
  have "dlq_ready ?s2 (mp_TxRef sample_payment)"
    using sample_dlq_ready [of ?s2] by (simp add: healthy_def sample_platform_def sample_payment_def)
  moreover have "get_record ?s (mpesaKeyPrefix @ mp_TxRef sample_payment) = (Inr None, ?s)"
    by (simp add: sample_get_memory)
  ultimately show ?thesis
    using failed_callback_queued [of ?s sample_callback sample_payment ?s, OF _ _ sample_callback_decode _ _ ex]
    by (simp add: sample_platform_def)
qed

section \<open>Health\<close>

definition probe_ok :: "('s, 'c) Server \<Rightarrow> bool" where
  "probe_ok s \<longleftrightarrow>
     (case rpcHealthFn s of None \<Rightarrow> True | Some ping \<Rightarrow> fst (ping (escrow s)) = None) \<and>
     (case dbHealthFn s of None \<Rightarrow> True | Some ping \<Rightarrow> ping (store s) = None)"

lemma health_rpc_ok:
  "fst (fst (health_rpc s)) \<longleftrightarrow>
     (case rpcHealthFn s of None \<Rightarrow> True | Some ping \<Rightarrow> fst (ping (escrow s)) = None)"
  by (auto simp: health_rpc_def server_now_def Now_def Let_def split: option.splits prod.splits)

lemma health_db_after:
  "fst (health_db (snd (health_rpc s))) \<longleftrightarrow>
     (case dbHealthFn s of None \<Rightarrow> True | Some ping \<Rightarrow> ping (store s) = None)"
  using health_rpc_same [OF surjective_pairing, of s]
  by (auto simp: health_db_def same_store_def same_setup_def split: option.splits)


end
