(* ===== verification/Replay.thy ===== *)
theory Replay
  imports Effects
begin

text \<open>
  Idempotency of the two endpoints, for every store that meets the contract of
  \<open>Idempotency\<close>: what a request has stored is what its repetitions are answered with, without
  another call of the chain.
\<close>

section \<open>The window\<close>

text \<open>
  The whole history happens within one idempotency window, up to the precision \<open>slack\<close> of the
  store; all times are representable.
\<close>

definition in_window :: "int \<Rightarrow> ('s, 'c) Server \<Rightarrow> ('s, 'c) Server \<Rightarrow> bool" where
  "in_window slack s s2 \<longleftrightarrow>
     0 \<le> IdempotencyWindow (Service (cfg s)) \<and>
     (\<exists>t0 \<ge> 0. t0 + 2 * IdempotencyWindow (Service (cfg s)) \<le> max_i64 \<and>
        (\<forall>n \<le> ticks (plat s2). t0 \<le> clk (plat s) n \<and>
           clk (plat s) n + slack \<le> t0 + IdempotencyWindow (Service (cfg s))))"

lemma in_window_expiry:
  assumes "in_window slack s s2" and "0 \<le> slack" and "n \<le> ticks (plat s2)" and "m \<le> ticks (plat s2)"
  shows "clk (plat s) m + slack \<le> time_Add (clk (plat s) n) (IdempotencyWindow (Service (cfg s)))"
proof -
  let ?W = "IdempotencyWindow (Service (cfg s))"
  obtain t0 where t0: "0 \<le> ?W" "0 \<le> t0" "t0 + 2 * ?W \<le> max_i64"
    "\<forall>n \<le> ticks (plat s2). t0 \<le> clk (plat s) n \<and> clk (plat s) n + slack \<le> t0 + ?W"
    using assms(1) by (auto simp: in_window_def)
  have n: "t0 \<le> clk (plat s) n" "clk (plat s) n + slack \<le> t0 + ?W" and m: "clk (plat s) m + slack \<le> t0 + ?W"
    using t0(4) assms(3,4) by auto
  then have "time_ok (clk (plat s) n + ?W)" using t0 assms(2) by (intro time_ok_i64) linarith+
  then show ?thesis using n m by (simp add: time_Add_exact)
qed

section \<open>Handlers over a store that meets its contract\<close>

text \<open>
  The laws of the store, for the operations inside a server. \<open>holds s k r\<close>: the server's store is
  up and has the record \<open>r\<close> under \<open>k\<close>. \<open>live_until s' r\<close>: no reading of the clock, up to the next one,
  is past the record's expiry.
\<close>

locale served_store = idempotency_store "store_Get ops" "store_Save ops" contents up stored
  for ops :: "'s Store" and contents :: "'s \<Rightarrow> string \<Rightarrow> Record option" and up :: "'s \<Rightarrow> bool"
    and stored :: "Record \<Rightarrow> Record"
begin

definition holds :: "('s, 'c) Server \<Rightarrow> string \<Rightarrow> Record \<Rightarrow> bool" where
  "holds s k r \<longleftrightarrow> store_ops s = ops \<and> up (store s) \<and> contents (store s) k = Some r"

definition live_until :: "('s, 'c) Server \<Rightarrow> Record \<Rightarrow> bool" where
  "live_until s r \<longleftrightarrow> (\<forall>n \<le> ticks (plat s). clk (plat s) n \<le> ExpiresAt r)"

lemma live_until_earlier: "same_setup s s' \<Longrightarrow> live_until s' r \<Longrightarrow> live_until s r"
  by (auto simp: live_until_def same_setup_def later_def)

lemma live_until_not_expired: "live_until s r \<Longrightarrow> \<not> expired (plat s) r"
  by (simp add: live_until_def expired_def time_After_def not_less)

lemma holds_same: "same_store s s' \<Longrightarrow> holds s' k r = holds s k r"
  by (auto simp: holds_def same_store_def same_setup_def)

lemma get_setup: "store_ops s = ops \<Longrightarrow> get_record s k = (a, s1) \<Longrightarrow> same_setup s s1"
  using get_later get_record_fields [of s k a s1] by (auto simp: same_setup_def)

lemma save_setup: "store_ops s = ops \<Longrightarrow> save_record s k r = (e, s1) \<Longrightarrow> same_setup s s1"
  using save_later save_record_fields [of s k r e s1] by (auto simp: same_setup_def)

lemma get_finds:
  assumes "holds s k r" and "live_until s r" and "get_record s k = (a, s1)"
  shows "a = Inr (Some r)"
  using assms get_live [of "store s" k r "plat s" a "store s1" "plat s1"]
    get_record_fields [OF assms(3)] live_until_not_expired
  by (auto simp: holds_def)

lemma get_keeps:
  assumes "holds s k r" and "live_until s r" and "get_record s k' = (a, s1)"
  shows "holds s1 k r"
proof -
  note g = get_record_fields [OF assms(3)]
  have st: "store_ops s = ops" "up (store s)" "contents (store s) k = Some r"
    using assms(1) by (auto simp: holds_def)
  with g have get: "store_Get ops (store s) (plat s) k' = (a, store s1, plat s1)" by simp
  have "k = k' \<Longrightarrow> lookup (store s) (plat s) k' \<noteq> None"
    using st live_until_not_expired [OF assms(2)] by (simp add: lookup_def)
  then have "contents (store s1) k = contents (store s) k"
    using get_frame [OF st(2) get, of k] by auto
  with g st get_up [OF st(2) get] show ?thesis by (simp add: holds_def)
qed

lemma save_keeps:
  assumes "holds s k r" and "k \<noteq> k'" and "save_record s k' r' = (e, s1)"
  shows "holds s1 k r"
proof -
  note g = save_record_fields [OF assms(3)]
  have st: "store_ops s = ops" "up (store s)" "contents (store s) k = Some r"
    using assms(1) by (auto simp: holds_def)
  with g have sv: "store_Save ops (store s) (plat s) k' r' = (e, store s1, plat s1)" by simp
  show ?thesis
    using g st assms(2) save_up [OF st(2) sv] save_stores [OF st(2) sv] by (simp add: holds_def)
qed

text \<open>No request loses or replaces a record that has not expired.\<close>

lemma store_step_setup: "store_ops s = ops \<Longrightarrow> store_step k s s' \<Longrightarrow> same_setup s s'"
  unfolding store_step_def
  by (metis get_setup save_setup same_setup_trans same_store_setup same_setup_def)

lemma store_step_keeps:
  assumes "holds s k r" and "store_step k' s s'" and "live_until s' r"
  shows "holds s' k r"
proof -
  have ops: "store_ops s = ops" using assms(1) by (simp add: holds_def)
  have live: "live_until s r"
    using store_step_setup [OF ops assms(2)] assms(3) by (rule live_until_earlier)
  from assms(2) consider "same_store s s'"
    | a s1 where "get_record s k' = (a, s1)" "same_store s1 s'"
    | a s1 s2 rec e s3 where "get_record s k' = (a, s1)" "\<forall>rec. a \<noteq> Inr (Some rec)" "same_store s1 s2"
        "save_record s2 k' rec = (e, s3)" "same_store s3 s'"
    unfolding store_step_def by blast
  then show ?thesis
  proof cases
    case 1
    with assms(1) holds_same show ?thesis by blast
  next
    case 2
    with get_keeps [OF assms(1) live] holds_same show ?thesis by blast
  next
    case 3
    then have "k \<noteq> k'" using get_finds [OF assms(1) live] by blast
    moreover have "holds s2 k r" using get_keeps [OF assms(1) live 3(1)] 3(3) holds_same by blast
    ultimately show ?thesis using save_keeps [OF _ _ 3(4)] 3(5) holds_same by blast
  qed
qed

lemma request_step_keeps:
  assumes "holds s k r" and "request_step s s'" and "live_until s' r"
  shows "holds s' k r \<and> same_setup s s'"
proof -
  from assms(2) obtain s0 k' where s0: "same_store s s0" "store_step k' s0 s'"
    unfolding request_step_def by blast
  then have h: "holds s0 k r" using assms(1) holds_same by blast
  then have "same_setup s0 s'" using store_step_setup [OF _ s0(2)] by (simp add: holds_def)
  then show ?thesis
    using store_step_keeps [OF h s0(2) assms(3)] same_store_setup [OF s0(1)] same_setup_trans by blast
qed

lemma run_setup: "store_ops s = ops \<Longrightarrow> same_setup s (snd (run promhttp rs s))"
proof (induction rs arbitrary: s)
  case (Cons q rs)
  from serve_step [of s promhttp q] obtain s0 k where
    s0: "same_store s s0" "store_step k s0 (snd (serve promhttp q s))"
    unfolding request_step_def by blast
  have "store_ops s0 = ops" using s0(1) Cons.prems by (simp add: same_store_def same_setup_def)
  from same_setup_trans [OF same_store_setup [OF s0(1)] store_step_setup [OF this s0(2)]]
  have "same_setup s (snd (serve promhttp q s))" .
  with Cons.prems Cons.IH [of "snd (serve promhttp q s)"] show ?case
    by (auto simp: same_setup_def Let_def split: prod.splits intro: later_trans)
qed simp

lemma run_keeps:
  assumes "holds s k r" and "live_until (snd (run promhttp rs s)) r"
  shows "holds (snd (run promhttp rs s)) k r"
  using assms
proof (induction rs arbitrary: s)
  case (Cons q rs)
  let ?s1 = "snd (serve promhttp q s)"
  note run = snd_run_Cons [of promhttp q rs s]
  obtain s0 k' where s0: "same_store s s0" "store_step k' s0 ?s1"
    using serve_step [of s promhttp q] unfolding request_step_def by blast
  have "store_ops s0 = ops" using s0(1) Cons.prems(1) by (simp add: holds_def same_store_def same_setup_def)
  with store_step_setup [OF this s0(2)] have "store_ops ?s1 = ops" by (simp add: same_setup_def)
  then have "live_until ?s1 r"
    using live_until_earlier [OF run_setup] Cons.prems(2) run by metis
  then have "holds ?s1 k r" using request_step_keeps [OF Cons.prems(1) serve_step] by blast
  with Cons.IH Cons.prems(2) run show ?case by metis
qed simp

text \<open>A live record is the answer, and the escrow is not called.\<close>

lemma mint_replay:
  assumes "holds s (mint_key r) rec" and "live_until s rec" and "Method r = ''POST''" and "mint_key r \<noteq> []"
  obtains s' where "handleMintIntents r s = (json_response (StatusCode rec) (Response rec), s')"
    "escrow s' = escrow s" "holds s' (mint_key r) rec"
proof (cases "get_record s (mint_key r)")
  case (Pair a s1)
  have a: "a = Inr (Some rec)" by (rule get_finds [OF assms(1,2) Pair])
  show thesis
    using that [OF handleMintIntents_found [OF assms(3,4) Pair [unfolded a]]]
      get_keeps [OF assms(1,2) Pair] get_record_fields [OF Pair]
    by (simp add: holds_def)
qed

lemma mpesa_replay:
  assumes "decode_mpesaCallbackRequest r = Some p" and "validateMpesaRequest p = None"
    and "holds s (mpesaKeyPrefix @ mp_TxRef p) rec" and "live_until s rec" and "Method r = ''POST''"
  obtains s' where "handleMpesaCallback r s = (json_response (StatusCode rec) (Response rec), s')"
    "escrow s' = escrow s" "holds s' (mpesaKeyPrefix @ mp_TxRef p) rec"
proof (cases "get_record s (mpesaKeyPrefix @ mp_TxRef p)")
  case (Pair a s1)
  have a: "a = Inr (Some rec)" by (rule get_finds [OF assms(3,4) Pair])
  show thesis
    using that [OF handleMpesaCallback_found [OF assms(5,1,2) Pair [unfolded a]]]
      get_keeps [OF assms(3,4) Pair] get_record_fields [OF Pair]
    by (simp add: holds_def)
qed

text \<open>What a first, successful request leaves in the store.\<close>

lemma save_holds:
  assumes "store_ops s = ops" and "up (store s)" and "save_record s k r = (e, s1)"
  shows "holds s1 k (stored r)"
  using assms save_record_fields [OF assms(3)] save_up [of "store s"] save_stores [of "store s"]
  by (auto simp: holds_def)

lemma get_up_record:
  assumes "store_ops s = ops" and "up (store s)" and "get_record s k = (a, s1)"
  shows "store_ops s1 = ops \<and> up (store s1) \<and> a = Inr (lookup (store s) (plat s) k)"
  using assms get_record_fields [OF assms(3)] get_up [of "store s"] get_refines [of "store s" "plat s" k]
  by auto

lemma mint_stores:
  assumes ops: "store_ops s = ops" "up (store s)" and fresh: "lookup (store s) (plat s) (mint_key r) = None"
    and "handleMintIntents r s = (resp, s')" and "Status resp = StatusCreated"
  obtains rec n where "holds s' (mint_key r) (stored rec)"
    "resp = json_response (StatusCode rec) (Response rec)" "Method r = ''POST''" "mint_key r \<noteq> []"
    "ExpiresAt rec = time_Add (clk (plat s) n) (IdempotencyWindow (Service (cfg s)))"
    "n < ticks (plat s')" "clk (plat s') = clk (plat s)"
proof (cases "get_record s (mint_key r)")
  case (Pair a s1)
  note s1 = get_up_record [OF ops Pair]
  then have absent: "\<forall>rec. a \<noteq> Inr (Some rec)" using fresh by simp
  from handleMintIntents_created [OF Pair absent assms(4,5)] show thesis
  proof cases
    case (1 p result s2 rec s3 e s4)
    note same = submit_intent_same [OF 1(5)] new_record_same [OF 1(6)]
    then have s3: "store_ops s3 = ops" "up (store s3)"
      using s1 by (simp_all add: same_store_def same_setup_def)
    have frame: "same_setup s s2" "same_setup s3 s4"
      using same_setup_trans [OF get_setup [OF ops(1) Pair]] same(1) save_setup [OF s3(1) 1(7)]
      by (simp_all add: same_store_def)
    show thesis
    proof (rule that)
      show "holds s' (mint_key r) (stored rec)"
        using save_holds [OF s3 1(7)] 1(9) by (simp add: holds_def)
      show "ExpiresAt rec = time_Add (clk (plat s) (Suc (ticks (plat s2)))) (IdempotencyWindow (Service (cfg s)))"
        using same frame by (simp add: same_setup_def later_def)
      show "resp = json_response (StatusCode rec) (Response rec)"
        using same(2) 1(8) by (simp add: json_response_def)
    qed (use 1 same frame in \<open>auto simp: same_setup_def same_store_def later_def\<close>)
  qed
qed

lemma mpesa_stores:
  assumes ops: "store_ops s = ops" "up (store s)" and p: "decode_mpesaCallbackRequest r = Some p"
    and fresh: "lookup (store s) (plat s) (mpesaKeyPrefix @ mp_TxRef p) = None"
    and "handleMpesaCallback r s = (resp, s')" and "Status resp = StatusOK"
  obtains rec n where "holds s' (mpesaKeyPrefix @ mp_TxRef p) (stored rec)"
    "resp = json_response (StatusCode rec) (Response rec)" "Method r = ''POST''" "validateMpesaRequest p = None"
    "ExpiresAt rec = time_Add (clk (plat s) n) (IdempotencyWindow (Service (cfg s)))"
    "n < ticks (plat s')" "clk (plat s') = clk (plat s)"
proof (cases "get_record s (mpesaKeyPrefix @ mp_TxRef p)")
  case (Pair a s1)
  note s1 = get_up_record [OF ops Pair]
  then have absent: "\<forall>rec. a \<noteq> Inr (Some rec)" using fresh by simp
  from handleMpesaCallback_processed [OF p Pair absent assms(5,6)] show thesis
  proof cases
    case (1 txHash s2 rec s3 e s4)
    note same = executeMintWithRetry_same [OF 1(3)] new_record_same [OF 1(4)]
    then have s3: "store_ops s3 = ops" "up (store s3)"
      using s1 by (simp_all add: same_store_def same_setup_def)
    have s': "same_store s4 s'"
      using updateDLQDepth_same [OF surjective_pairing, of "with_metrics (incCallback ''processed'') s4"] 1(7)
      by (simp add: same_store_def same_setup_def with_metrics_def)
    have frame: "same_setup s s2" "same_setup s3 s4" "same_setup s4 s'"
      using same_setup_trans [OF get_setup [OF ops(1) Pair]] same(1) save_setup [OF s3(1) 1(5)] s'
      by (simp_all add: same_store_def)
    show thesis
    proof (rule that)
      show "holds s' (mpesaKeyPrefix @ mp_TxRef p) (stored rec)"
        using save_holds [OF s3 1(5)] holds_same [OF s'] by simp
      show "ExpiresAt rec = time_Add (clk (plat s) (Suc (ticks (plat s2)))) (IdempotencyWindow (Service (cfg s)))"
        using same frame by (simp add: same_setup_def later_def)
      show "resp = json_response (StatusCode rec) (Response rec)"
        using same(2) 1(6) by (simp add: json_response_def)
    qed (use 1 same frame in \<open>auto simp: same_setup_def same_store_def later_def\<close>)
  qed
qed

text \<open>The first answer, any requests in between, and the repetition.\<close>

lemma repeated_live:
  assumes "clk (plat s1) = clk (plat s)" and "store_ops s1 = ops"
    and "ExpiresAt rec = time_Add (clk (plat s) n) (IdempotencyWindow (Service (cfg s)))" "n < ticks (plat s1)"
    and slack: "0 \<le> slack" "\<And>r. ExpiresAt r \<le> ExpiresAt (stored r) + slack"
    and "run promhttp rs s1 = (resps, s2)" and "in_window slack s s2"
  shows "live_until s2 (stored rec)"
proof -
  have "same_setup s1 s2" using run_setup [OF assms(2), of promhttp rs] assms(7) by simp
  then have "clk (plat s2) = clk (plat s)" "n \<le> ticks (plat s2)"
    using assms(1,4) by (auto simp: same_setup_def later_def)
  then show ?thesis
    using in_window_expiry [OF assms(8) slack(1), of n] slack(2) [of rec] assms(3)
    by (fastforce simp: live_until_def)
qed

lemma mint_once:
  assumes "store_ops s = ops" "up (store s)" "lookup (store s) (plat s) (mint_key r) = None"
    and "handleMintIntents r s = (resp, s1)" "Status resp = StatusCreated"
    and "0 \<le> slack" "\<And>r. ExpiresAt r \<le> ExpiresAt (stored r) + slack"
    and "run promhttp rs s1 = (resps, s2)" "in_window slack s s2"
    and "Method r' = ''POST''" "mint_key r' = mint_key r"
  shows "\<exists>s3. handleMintIntents r' s2 = (resp, s3) \<and> escrow s3 = escrow s2"
proof -
  obtain rec n where h: "holds s1 (mint_key r) (stored rec)"
    "resp = json_response (StatusCode rec) (Response rec)" "mint_key r \<noteq> []"
    "ExpiresAt rec = time_Add (clk (plat s) n) (IdempotencyWindow (Service (cfg s)))"
    "n < ticks (plat s1)" "clk (plat s1) = clk (plat s)"
    by (rule mint_stores [OF assms(1-5)])
  have "store_ops s1 = ops" using h(1) by (simp add: holds_def)
  note live = repeated_live [OF h(6) this h(4,5) assms(6-9)]
  have "holds s2 (mint_key r') (stored rec)"
    using run_keeps [OF h(1), of promhttp rs] live assms(8,11) by simp
  from mint_replay [OF this live assms(10)] h(2,3) assms(11) show ?thesis by auto
qed

lemma mpesa_once:
  assumes "store_ops s = ops" "up (store s)" "decode_mpesaCallbackRequest r = Some p"
    and "lookup (store s) (plat s) (mpesaKeyPrefix @ mp_TxRef p) = None"
    and "handleMpesaCallback r s = (resp, s1)" "Status resp = StatusOK"
    and "0 \<le> slack" "\<And>r. ExpiresAt r \<le> ExpiresAt (stored r) + slack"
    and "run promhttp rs s1 = (resps, s2)" "in_window slack s s2"
    and "Method r' = ''POST''" "decode_mpesaCallbackRequest r' = Some p'" "validateMpesaRequest p' = None"
    and "mp_TxRef p' = mp_TxRef p"
  shows "\<exists>s3. handleMpesaCallback r' s2 = (resp, s3) \<and> escrow s3 = escrow s2"
proof -
  obtain rec n where h: "holds s1 (mpesaKeyPrefix @ mp_TxRef p) (stored rec)"
    "resp = json_response (StatusCode rec) (Response rec)"
    "ExpiresAt rec = time_Add (clk (plat s) n) (IdempotencyWindow (Service (cfg s)))"
    "n < ticks (plat s1)" "clk (plat s1) = clk (plat s)"
    by (rule mpesa_stores [OF assms(1-6)])
  have "store_ops s1 = ops" using h(1) by (simp add: holds_def)
  note live = repeated_live [OF h(5) this h(3,4) assms(7-10)]
  have "holds s2 (mpesaKeyPrefix @ mp_TxRef p') (stored rec)"
    using run_keeps [OF h(1), of promhttp rs] live assms(9,14) by simp
  from mpesa_replay [OF assms(12,13) this live assms(11)] h(2) show ?thesis by auto
qed

text \<open>The keys of the two endpoints share one name space.\<close>

lemma mint_shadows_mpesa:
  assumes "store_ops s = ops" "up (store s)" "lookup (store s) (plat s) (mint_key r) = None"
    and "handleMintIntents r s = (resp, s1)" "Status resp = StatusCreated"
    and "0 \<le> slack" "\<And>r. ExpiresAt r \<le> ExpiresAt (stored r) + slack"
    and "run promhttp rs s1 = (resps, s2)" "in_window slack s s2"
    and "Method r' = ''POST''" "decode_mpesaCallbackRequest r' = Some p'" "validateMpesaRequest p' = None"
    and "mint_key r = mpesaKeyPrefix @ mp_TxRef p'"
  shows "\<exists>s3. handleMpesaCallback r' s2 = (resp, s3) \<and> escrow s3 = escrow s2"
proof -
  obtain rec n where h: "holds s1 (mint_key r) (stored rec)"
    "resp = json_response (StatusCode rec) (Response rec)"
    "ExpiresAt rec = time_Add (clk (plat s) n) (IdempotencyWindow (Service (cfg s)))"
    "n < ticks (plat s1)" "clk (plat s1) = clk (plat s)"
    by (rule mint_stores [OF assms(1-5)])
  have "store_ops s1 = ops" using h(1) by (simp add: holds_def)
  note live = repeated_live [OF h(5) this h(3,4) assms(6-9)]
  have "holds s2 (mpesaKeyPrefix @ mp_TxRef p') (stored rec)"
    using run_keeps [OF h(1), of promhttp rs] live assms(8,13) by simp
  from mpesa_replay [OF assms(11,12) this live assms(10)] h(2) show ?thesis by auto
qed

end

text \<open>Both stores meet the contract, PostgreSQL to the microsecond.\<close>

interpretation memory_server: served_store memory_store mem_data "\<lambda>_. True" id
  by (simp add: served_store_def memory_store_def memory.idempotency_store_axioms)

sublocale pg_pool \<subseteq> pg_server: served_store "postgres_store P" "\<lambda>p. rows (pool p)"
  "\<lambda>p. alive (pool p)" pg_record
  by (simp add: served_store_def postgres_store_def pg.idempotency_store_axioms)

lemma pg_record_slack: "ExpiresAt r \<le> ExpiresAt (pg_record r) + 999"
  using pg_time_bounds(1) [of "ExpiresAt r"] by (simp add: pg_record_def)

context pg_pool
begin

lemma pg_mpesa_once:
  assumes "store_ops s = postgres_store P" "alive (pool (store s))" "decode_mpesaCallbackRequest r = Some p"
    and "fst (postgres_Get P (store s) (plat s) (mpesaKeyPrefix @ mp_TxRef p)) = Inr None"
    and "handleMpesaCallback r s = (resp, s1)" "Status resp = StatusOK"
    and "run promhttp rs s1 = (resps, s2)" "in_window 999 s s2"
    and "Method r' = ''POST''" "decode_mpesaCallbackRequest r' = Some p'" "validateMpesaRequest p' = None"
    and "mp_TxRef p' = mp_TxRef p"
  shows "\<exists>s3. handleMpesaCallback r' s2 = (resp, s3) \<and> escrow s3 = escrow s2"
  using pg_server.mpesa_once [OF assms(1-3) _ assms(5,6) _ pg_record_slack assms(7-12)] assms(4)
    pg.get_refines [OF assms(2)]
  by simp

text \<open>A request that meets an expired record leaves its delete behind.\<close>

lemma expired_get_pending:
  assumes "store_ops s = postgres_store P" "alive (pool (store s))"
    and "rows (pool (store s)) k = Some old" "expired (plat s) old" and "get_record s k = (a, s1)"
  shows "a = Inr None \<and> pending (store s1) = k # pending (store s) \<and> alive (pool (store s1))"
proof -
  have "a = Inr None" "store s1 = (store s)\<lparr>pending := k # pending (store s)\<rparr>"
    using get_record_fields [OF assms(5)] assms(1-4) postgres_Get_cases [OF assms(2), of "plat s" k]
    by (auto simp: postgres_store_def)
  with assms(2) show ?thesis by simp
qed

lemma late_delete:
  assumes ops: "store_ops s = postgres_store P" "alive (pool (store s))"
    and old: "rows (pool (store s)) (mint_key r) = Some old" "expired (plat s) old"
    and "handleMintIntents r s = (resp, s1)" "Status resp = StatusCreated"
    and s2: "s2 = s1\<lparr>store := postgres_deleteKey P 0 (store s1)\<rparr>"
    and p: "decode_mintIntentRequest r = Some p"
  shows "escrow (snd (handleMintIntents r s2)) =
           snd (client_SubmitIntent (escrow_ops s) (escrow s1) (submit_request p))
         \<and> rows (pool (store s1)) (mint_key r) \<noteq> None"
proof (cases "get_record s (mint_key r)")
  case (Pair a s0)
  note e = expired_get_pending [OF ops old Pair]
  then have absent: "\<forall>rec. a \<noteq> Inr (Some rec)" by simp
  note fs = get_record_fields [OF Pair]
  from handleMintIntents_created [OF Pair absent assms(5,6)] show ?thesis
  proof cases
    case (1 p' result t rec u err v)
    have p': "p' = p" using 1(3) p by simp
    have u: "store u = store s0" "escrow_ops u = escrow_ops s" "store_ops u = postgres_store P"
      using submit_intent_same [OF 1(5)] new_record_same [OF 1(6)] fs ops(1)
      by (auto simp: same_store_def same_setup_def)
    then have sv: "postgres_Save P (store u) (plat u) (mint_key r) rec = (err, store v, plat v)"
      using save_record_fields [OF 1(7)] by (simp add: postgres_store_def)
    then have v: "alive (pool (store v))" "pending (store v) = mint_key r # pending (store s)"
        "rows (pool (store v)) (mint_key r) \<noteq> None"
      using postgres_Save_rows [OF _ sv] e u by auto
    have v': "store s1 = store v" "escrow_ops s1 = escrow_ops s" "store_ops s1 = postgres_store P"
      using 1(9) save_record_fields [OF 1(7)] u by auto
    have up: "alive (pool (store s2))" "store_ops s2 = postgres_store P" "escrow_ops s2 = escrow_ops s"
       "escrow s2 = escrow s1"
      using s2 v v' exec_delete [of "pool (store v)" "mint_key r"]
      by (cases "pool_Exec P (pool (store v)) (DeleteKey (mint_key r))", auto simp: postgres_deleteKey_def)+
    have "rows (pool (store s2)) (mint_key r) = None"
      using postgres_deleteKey_rows [OF v(1), of 0] v(2) s2 v' by simp
    with up postgres_Get_cases [OF up(1), of "plat s2" "mint_key r"]
    have g: "get_record s2 (mint_key r) = (Inr None, s2)"
      by (simp add: get_record_def postgres_store_def)
    show ?thesis
      using handleMintIntents_submits [OF g _ 1(1,2) p] 1(4) p' up v v' by simp
  qed
qed

end

section \<open>Exactly-once answers\<close>

text \<open>
  (C4) Mint requests over the in-memory store. When a request whose key has no live record is
  answered with 201, then within the idempotency window, after any sequence of other requests, every
  \<open>POST\<close> with the same key is answered with the same status, headers and bytes, and the chain
  is not called for it.
\<close>

theorem mint_answered_once:
  assumes "store_ops s = memory_store" and "fst (memory_Get (store s) (plat s) (mint_key r)) = Inr None"
    and "handleMintIntents r s = (resp, s1)" and "Status resp = StatusCreated"
    and "run promhttp rs s1 = (resps, s2)" and "in_window 0 s s2"
    and "Method r' = ''POST''" and "mint_key r' = mint_key r"
  shows "\<exists>s3. handleMintIntents r' s2 = (resp, s3) \<and> escrow s3 = escrow s2"
  using memory_server.mint_once [OF assms(1) _ _ assms(3,4) _ _ assms(5-8)] assms(2)
  by (simp add: memory.get_refines)

text \<open>
  (C3) M-PESA callbacks over the in-memory store. When a callback whose \<open>txRef\<close> has no live record
  is processed (200), then within the idempotency window, after any sequence of other requests,
  every valid callback with the same \<open>txRef\<close> gets the same answer and no mint is executed again.
\<close>

theorem mpesa_processed_once:
  assumes "store_ops s = memory_store" and "decode_mpesaCallbackRequest r = Some p"
    and "fst (memory_Get (store s) (plat s) (mpesaKeyPrefix @ mp_TxRef p)) = Inr None"
    and "handleMpesaCallback r s = (resp, s1)" and "Status resp = StatusOK"
    and "run promhttp rs s1 = (resps, s2)" and "in_window 0 s s2"
    and "Method r' = ''POST''" and "decode_mpesaCallbackRequest r' = Some p'"
    and "validateMpesaRequest p' = None" and "mp_TxRef p' = mp_TxRef p"
  shows "\<exists>s3. handleMpesaCallback r' s2 = (resp, s3) \<and> escrow s3 = escrow s2"
  using memory_server.mpesa_once [OF assms(1) _ assms(2) _ assms(4,5) _ _ assms(6-11)] assms(3)
  by (simp add: memory.get_refines)


text \<open>Every clock reading of a sample server is the same, so any history lies in the window.\<close>

lemma sample_in_window:
  assumes "cfg s = repo_config" and "plat s = sample_platform" and "slack \<le> 86400 * Second"
  shows "in_window slack s s2"
  using assms unfolding in_window_def
  by (auto simp: repo_config_def Second_def intro!: exI [of _ "1700000000 * Second"])

theorem mint_answered_once_witness:
  "\<exists>s3. handleMintIntents sample_mint (snd (handleMintIntents sample_mint (sample_server counting_client))) =
           (fst (handleMintIntents sample_mint (sample_server counting_client)), s3) \<and>
         escrow s3 = escrow (snd (handleMintIntents sample_mint (sample_server counting_client)))"
proof -
  let ?s = "sample_server counting_client"
  have "fst (memory_Get (store ?s) (plat ?s) (mint_key sample_mint)) = Inr None"
    by (simp add: memory_Get_def NewMemoryStore_def)
  moreover have "Status (fst (handleMintIntents sample_mint ?s)) = StatusCreated"
    by (rule sample_mint_created [OF _ sample_get_memory]) simp
  moreover have "in_window 0 ?s (snd (handleMintIntents sample_mint ?s))"
    by (rule sample_in_window) (simp_all add: Second_def)
  ultimately show ?thesis
    using mint_answered_once [of ?s sample_mint _ _ "\<lambda>_. http_Error [] 200" "[]", OF _ _ surjective_pairing]
    by simp
qed

theorem mpesa_processed_once_witness:
  "\<exists>s3. handleMpesaCallback sample_callback
            (snd (handleMpesaCallback sample_callback (sample_server counting_client))) =
           (fst (handleMpesaCallback sample_callback (sample_server counting_client)), s3) \<and>
         escrow s3 = escrow (snd (handleMpesaCallback sample_callback (sample_server counting_client)))"
proof -
  let ?s = "sample_server counting_client"
  have "fst (memory_Get (store ?s) (plat ?s) (mpesaKeyPrefix @ mp_TxRef sample_payment)) = Inr None"
    by (simp add: memory_Get_def NewMemoryStore_def)
  moreover have "Status (fst (handleMpesaCallback sample_callback ?s)) = StatusOK"
    by (rule sample_callback_processed [OF _ sample_get_memory]) simp
  moreover have "in_window 0 ?s (snd (handleMpesaCallback sample_callback ?s))"
    by (rule sample_in_window) (simp_all add: Second_def)
  ultimately show ?thesis
    using mpesa_processed_once [of ?s sample_callback sample_payment _ _ "\<lambda>_. http_Error [] 200" "[]" _ _
        sample_callback sample_payment, OF _ _ _ surjective_pairing] sample_callback_decode
    by simp
qed


text \<open>
  (C15) The delete of an expired row is started in the background and removes whatever the key holds
  when it runs. A mint request that finds an expired row stores its answer under the same key; if the
  delete runs after that, the new row is gone and a repetition of the request submits a second intent
  to the chain.
\<close>

theorem postgres_late_delete_resubmits:
  assumes "pg_pool P rows alive" and "store_ops s = postgres_store P" and "alive (pool (store s))"
    and "rows (pool (store s)) (mint_key r) = Some old" and "expired (plat s) old"
    and "handleMintIntents r s = (resp, s1)" and "Status resp = StatusCreated"
    and "s2 = s1\<lparr>store := postgres_deleteKey P 0 (store s1)\<rparr>"
    and "decode_mintIntentRequest r = Some p"
  shows "escrow (snd (handleMintIntents r s2)) =
           snd (client_SubmitIntent (escrow_ops s) (escrow s1) (submit_request p)) \<and>
         rows (pool (store s1)) (mint_key r) \<noteq> None"
  using assms by (rule pg_pool.late_delete)

definition sample_expired :: Record where
  "sample_expired = \<lparr>StatusCode = 201, Response = [], CreatedAt = 0, ExpiresAt = 0\<rparr>"

theorem postgres_late_delete_resubmits_witness:
  "\<exists>s1. snd (handleMintIntents sample_mint (sample_pg_server [''mpesa:T'' \<mapsto> sample_expired])) = s1 \<and>
      escrow (snd (handleMintIntents sample_mint
        (s1\<lparr>store := postgres_deleteKey table_pool 0 (store s1)\<rparr>))) = Suc (escrow s1)"
proof -
  let ?s = "sample_pg_server [''mpesa:T'' \<mapsto> sample_expired]"
  have exp: "expired (plat ?s) sample_expired"
    by (simp add: expired_def sample_expired_def time_After_def Second_def)
  then have "get_record ?s ''mpesa:T'' =
      (Inr None, ?s\<lparr>store := \<lparr>pool = [''mpesa:T'' \<mapsto> sample_expired], pending = [''mpesa:T'']\<rparr>,
         plat := snd (Now (plat ?s))\<rparr>)"
    by (simp add: get_record_def postgres_store_def postgres_Get_def table_pool_def expired_def Now_def)
  from sample_mint_created [OF _ this]
  have "Status (fst (handleMintIntents sample_mint ?s)) = StatusCreated" by simp
  then show ?thesis
    using postgres_late_delete_resubmits [OF table.pg_pool_axioms, of ?s sample_mint sample_expired,
        OF _ _ _ exp surjective_pairing _ refl sample_mint_decode] sample_mint_key
    by (simp add: counting_client_def)
qed

section \<open>One key space for two endpoints\<close>

text \<open>
  (C16) A mint request may choose a key of the form \<open>mpesa:\<close> followed by a payment reference. Its
  stored answer then stands for the callback of that payment: the callback is answered with the
  mint request's 201 response, the mint is never executed, and nothing is put into the dead-letter
  queue.
\<close>

theorem mint_key_shadows_callback:
  assumes "store_ops s = memory_store" and "fst (memory_Get (store s) (plat s) (mint_key r)) = Inr None"
    and "handleMintIntents r s = (resp, s1)" and "Status resp = StatusCreated"
    and "run promhttp rs s1 = (resps, s2)" and "in_window 0 s s2"
    and "Method r' = ''POST''" and "decode_mpesaCallbackRequest r' = Some p'"
    and "validateMpesaRequest p' = None" and "mint_key r = mpesaKeyPrefix @ mp_TxRef p'"
  shows "\<exists>s3. handleMpesaCallback r' s2 = (resp, s3) \<and> escrow s3 = escrow s2"
  using memory_server.mint_shadows_mpesa [OF assms(1) _ _ assms(3,4) _ _ assms(5-10)] assms(2)
  by (simp add: memory.get_refines)

theorem mint_key_shadows_callback_witness:
  "\<exists>s3. handleMpesaCallback sample_callback
            (snd (handleMintIntents sample_mint (sample_server counting_client))) =
           (fst (handleMintIntents sample_mint (sample_server counting_client)), s3) \<and>
         escrow s3 = escrow (snd (handleMintIntents sample_mint (sample_server counting_client)))"
proof -
  let ?s = "sample_server counting_client"
  have "fst (memory_Get (store ?s) (plat ?s) (mint_key sample_mint)) = Inr None"
    by (simp add: memory_Get_def NewMemoryStore_def)
  moreover have "Status (fst (handleMintIntents sample_mint ?s)) = StatusCreated"
    by (rule sample_mint_created [OF _ sample_get_memory]) simp
  moreover have "in_window 0 ?s (snd (handleMintIntents sample_mint ?s))"
    by (rule sample_in_window) (simp_all add: Second_def)
  ultimately show ?thesis
    using mint_key_shadows_callback [of ?s sample_mint _ _ "\<lambda>_. http_Error [] 200" "[]" _ _ sample_callback
        sample_payment, OF _ _ surjective_pairing] sample_callback_decode sample_mint_key
    by simp
qed

section \<open>Failures are not stored\<close>

lemma submit_intent_store: "submit_intent t q = (x, t') \<Longrightarrow> store t' = store t"
  using submit_intent_same [of t q x t'] by (simp add: same_store_def)

lemma mint_not_created_store:
  assumes "store_ops s = memory_store" and "handleMintIntents r s = (resp, s')" and "Status resp \<noteq> StatusCreated"
  shows "store s' = store s"
proof (cases "get_record s (mint_key r)")
  case (Pair a s1)
  note st = memory_get_keeps_store [OF assms(1) Pair, THEN conjunct1]
  note h = assms(2) [unfolded handleMintIntents_def mint_key_def [symmetric] Let_def Pair]
  show ?thesis
    using h st assms(3)
    by (auto dest: submit_intent_store split: if_splits sum.splits option.splits prod.splits)
qed

lemma mpesa_not_processed_store:
  assumes "store_ops s = memory_store" and "handleMpesaCallback r s = (resp, s')" and "Status resp \<noteq> StatusOK"
  shows "store s' = store s"
proof (cases "decode_mpesaCallbackRequest r")
  case None
  with assms(2) show ?thesis by (auto simp: handleMpesaCallback_def split: if_splits)
next
  case (Some p)
  obtain a s1 where g: "get_record s (mpesaKeyPrefix @ mp_TxRef p) = (a, s1)" by fastforce
  obtain x s2 where ex: "executeMintWithRetry (ctxDone r) (mp_IntentID p) s1 = (x, s2)" by fastforce
  have st: "store s1 = store s" "store s2 = store s"
    using memory_get_keeps_store [OF assms(1) g] executeMintWithRetry_same [OF ex] by (auto simp: same_store_def)
  have dlq: "store (writeDLQ p e (with_metrics f t)) = store t" for e f and t :: "(MemoryStore, 'b) Server"
    using writeDLQ_same [of "with_metrics f t" p e] by (simp add: same_store_def)
  note h = assms(2) [unfolded handleMpesaCallback_def Some option.case Let_def g ex]
  show ?thesis
  proof (cases "\<exists>e. x = Inl e")
    case True
    then show ?thesis
      using h st assms(3) ex by (auto simp: dlq split: if_splits sum.splits option.splits)
  next
    case False
    then obtain tx where "x = Inr tx" by (cases x) auto
    then show ?thesis
      using h st assms(3) ex by (auto split: if_splits sum.splits option.splits prod.splits)
  qed
qed

text \<open>
  (C10) Only answers to requests that took effect are stored: a mint request that is not answered
  with 201, or a callback not answered with 200, leaves the in-memory store as it was, so that it
  can be repeated.
\<close>

theorem failures_not_stored:
  assumes "store_ops s = memory_store"
  shows "(Status (fst (handleMintIntents r s)) \<noteq> StatusCreated \<longrightarrow> store (snd (handleMintIntents r s)) = store s) \<and>
         (Status (fst (handleMpesaCallback r s)) \<noteq> StatusOK \<longrightarrow> store (snd (handleMpesaCallback r s)) = store s)"
  using mint_not_created_store [OF assms surjective_pairing] mpesa_not_processed_store [OF assms surjective_pairing]
  by blast

theorem failures_not_stored_witness:
  "store (snd (handleMintIntents sample_mint (sample_server (failing_client ''down'')))) = NewMemoryStore"
proof -
  have "Status (fst (handleMintIntents sample_mint (sample_server (failing_client ''down'')))) = StatusBadGateway"
    using sample_get_memory [of "failing_client ''down''" "''mpesa:T''"] sample_mint_key
    by (simp add: handleMintIntents_def mint_key_def [symmetric] sample_mint_decode submit_intent_def
        failing_client_def Let_def)
  then show ?thesis
    using failures_not_stored [of "sample_server (failing_client ''down'')" sample_mint]
    by (simp add: status_defs)
qed

end
