(* ===== verification/Spec2Isabelle.thy ===== *)
theory Spec2Isabelle
  imports Access Replay
begin

text \<open>
  \<^bold>\<open>FiatRails API: a verification development\<close>

  The program is a Go service (\<open>src/api\<close>) between a mobile-money provider and a token escrow
  contract. A client submits a mint intent (\<open>POST /api/v1/mint-intents\<close>), which the service puts on
  chain; the payment provider later calls back (\<open>POST /api/v1/callbacks/mpesa\<close>), and the service
  executes the mint, retrying with backoff and leaving what cannot be executed in a dead-letter
  directory. Both endpoints are guarded by an HMAC over timestamp and body, and both answer
  repetitions from an idempotency store.

  \<^bold>\<open>Theories\<close>, from the bottom up:
  \<^item> \<open>Prelude\<close>: errors, results as sums, 64-bit integers with wrap-around.
  \<^item> \<open>GoStrings\<close>, \<open>Platform\<close>, \<open>Json\<close>, \<open>Hash\<close>, \<open>Http\<close>, \<open>Codec\<close>: what the source uses of
    Go's standard library (\<open>strings\<close>, \<open>strconv\<close>, \<open>encoding/hex\<close>; \<open>time\<close>, \<open>path/filepath\<close>, \<open>os\<close>;
    \<open>encoding/json\<close>; \<open>crypto/sha256\<close>, \<open>crypto/hmac\<close>; \<open>net/http\<close> headers, bodies and
    responses; RFC 3339). \<open>Platform\<close> is the machine: a clock given by its successive readings, a
    file system, and a list of faults the operating system will raise.
  \<^item> \<open>HmacAuth\<close>: \<open>internal/hmacauth/middleware.go\<close>.
  \<^item> \<open>Idempotency\<close>: \<open>internal/idempotency\<close>, the in-memory and the PostgreSQL store. The locale
    \<open>idempotency_store\<close> is the contract the handlers rely on; it is interpreted on the in-memory store
    and, for every connection pool that meets \<open>pg_pool\<close>, on the PostgreSQL store. The \<open>deleteKey\<close>
    goroutines are a list of pending steps (\<open>pending\<close>, \<open>postgres_deleteKey\<close>).
  \<^item> \<open>Escrow\<close>: \<open>internal/escrow\<close>, the client interface, the fake client and the go-ethereum client.
    go-ethereum is a parameter (record \<open>Geth\<close>); what is relied on is the locale \<open>geth_bytes\<close>.
  \<^item> \<open>Config\<close>, \<open>Metrics\<close>: \<open>internal/config/config.go\<close> and \<open>internal/server/metrics.go\<close>.
  \<^item> \<open>ServerState\<close>, \<open>Dlq\<close>, \<open>Retry\<close>, \<open>Handlers\<close>: \<open>internal/server/server.go\<close>, in that order the
    state and the request types, the dead-letter queue, \<open>executeMintWithRetry\<close>, and the handlers with
    their wiring (\<open>serve\<close> is the mux behind \<open>requestIDMiddleware\<close>, \<open>run\<close> a sequence of requests).
  \<^item> \<open>Samples\<close>: concrete requests, chains and servers on which the properties are exercised.
  \<^item> \<open>Effects\<close>, \<open>Replay\<close>, \<open>Access\<close> and this theory: the properties of the handlers.

  \<^bold>\<open>Conventions.\<close> A Go string or byte slice is a HOL string, one character per byte. A method that
  may fail returns \<open>error + 'a\<close>; effects are state passing, with the \<open>platform\<close> inside the
  server's state. An interface value is a record of methods together with the state behind it, so the
  handlers are polymorphic in the store and the chain. A request's context is given by what each wait
  on it observes (\<open>ctxDone\<close>).

  \<^bold>\<open>What is shown.\<close>
  \<^item> Authentication: the verifier accepts exactly the authentic requests, for all 64-bit timestamps;
    the missing separator between timestamp and body is harmless for fresh timestamps; a request that
    is not authentic changes nothing; an authentic one reaches its handler with its body.
  \<^item> Idempotency: within the window a repeated request is answered with the same bytes and without a
    call of the chain, after any requests in between, over the in-memory store and over PostgreSQL;
    failures are not stored. Where it fails: a delayed delete removes a fresh row, and a mint key can
    stand in for a callback's key.
  \<^item> Retries: at which execution the loop stops, what it returns, how often the chain is called, and
    the backoff schedule, including where it wraps around.
  \<^item> Dead-letter queue: one file per failed callback in the queue directory when the reference has no
    slash; a reference with dot-dot leaves the directory.
  \<^item> Chain calls: exactly which requests call the chain, and with what; identifiers of intents are
    unambiguous up to hash collisions; negative amounts are accepted; \<open>WaitForReceipt\<close> stops at the
    first poll that settles it, and never otherwise.

  \<^bold>\<open>Termination.\<close> All loops are total functions with a measure, except \<open>WaitForReceipt\<close>, a
  \<open>partial_function\<close> whose value \<open>None\<close> means that it waits for ever. The only fuel is that of the JSON
  parser, which starts with twice the length of its input plus two.

  \<^bold>\<open>Not modelled.\<close> Handlers run one at a time: interleavings of concurrent requests are not
  modelled, except for the delayed deletes. The file store (\<open>FileStore\<close>), the process entry point, the
  Solidity contracts, path cleaning and redirects of \<open>http.ServeMux\<close>, and time-outs inside
  third-party calls are left out. Log output is not modelled.
\<close>

section \<open>The chain client behind the retry loop\<close>

text \<open>
  (C22) A malformed intent identifier (not 66 characters, or no \<open>0x\<close> prefix) never reaches the chain:
  the client refuses it without a transaction, the retry loop takes the refusal as permanent, and the
  call returns after one attempt and without a wait.
\<close>

theorem malformed_intent_not_executed:
  assumes "escrow_ops s = eth_client G" and "\<not> eth_transacts_nil (escrow s)"
    and "length intentID \<noteq> 66 \<or> \<not> HasPrefix intentID ''0x''"
  shows "executeMintWithRetry ctx intentID s =
     (Inl (ErrNew ''invalid intent id''), with_metrics (incRetry ''failed'') s)"
proof -
  have "client_ExecuteMint (escrow_ops s) (escrow s) intentID = (Inl (ErrNew ''invalid intent id''), escrow s)"
    using assms by (auto simp: eth_client_def eth_ExecuteMint_def)
  moreover have "\<not> isRetryable (Some (ErrNew ''invalid intent id''))"
    by code_simp
  ultimately show ?thesis using permanent_stops by fastforce
qed

theorem malformed_intent_not_executed_witness:
  "executeMintWithRetry (\<lambda>_. None) ''0x1''
     (NewServer repo_config (eth_client sample_geth) sample_eth memory_store NewMemoryStore sample_platform) =
   (Inl (ErrNew ''invalid intent id''), with_metrics (incRetry ''failed'')
     (NewServer repo_config (eth_client sample_geth) sample_eth memory_store NewMemoryStore sample_platform))"
  by (rule malformed_intent_not_executed [where G = sample_geth]) (simp_all add: NewServer_def sample_eth_def)

section \<open>Configuration and authentication\<close>

text \<open>
  (C26) A seed file without a secret switches authentication off: every request, signed or not, reaches
  the mint handler as it came.
\<close>

theorem missing_secret_disables_auth:
  assumes "HMACSalt (seed_Secrets (Seed c)) = []"
  shows "serve_mint_intents r (NewServer c ops esc st_ops st w) =
     handleMintIntents r (NewServer c ops esc st_ops st w)"
proof -
  let ?s = "NewServer c ops esc st_ops st w"
  have "Secret (hmac ?s) = []" using assms by (simp add: NewServer_def hmac_verifier_def)
  from verify_no_secret [OF this] show ?thesis
    by (simp add: serve_mint_intents_def Middleware_def set_plat_def)
qed

theorem missing_secret_disables_auth_witness:
  "serve_mint_intents sample_mint
     (NewServer (repo_config\<lparr>Seed := repo_seed\<lparr>seed_Secrets := (seed_Secrets repo_seed)\<lparr>HMACSalt := []\<rparr>\<rparr>\<rparr>)
        counting_client 0 memory_store NewMemoryStore sample_platform) =
   handleMintIntents sample_mint
     (NewServer (repo_config\<lparr>Seed := repo_seed\<lparr>seed_Secrets := (seed_Secrets repo_seed)\<lparr>HMACSalt := []\<rparr>\<rparr>\<rparr>)
        counting_client 0 memory_store NewMemoryStore sample_platform)"
  by (rule missing_secret_disables_auth) simp

end
